theory Spec2Isabelle
  imports Main "HOL-Library.Word" "HOL-Library.Signed_Division"
begin

section \<open>Data model of lvgl_kawaii_face.c\<close>

text \<open>
  The C types: \<open>uint8_t\<close> and \<open>int8_t\<close> are 8-bit words (an \<open>int8_t\<close> is read with
  \<open>sint\<close>), \<open>uint16_t\<close>/\<open>int16_t\<close> 16-bit words, \<open>uint32_t\<close> 32-bit words. Arithmetic
  that C performs in \<open>int\<close> and then stores into a narrower field is written on the
  word type where only \<open>+\<close>, \<open>-\<close> and \<open>*\<close> occur (the narrowing conversion commutes with
  them) and on \<open>int\<close> with \<open>sdiv\<close> (C's division truncates towards zero) where a
  division occurs.
\<close>

type_synonym uint8_t = "8 word"
type_synonym int8_t = "8 word"
type_synonym uint16_t = "16 word"
type_synonym int16_t = "16 word"
type_synonym uint32_t = "32 word"

text \<open>
  \<open>face_emotion_t\<close> of the header: the eighteen emotions, the enumerator
  \<open>FACE_EMOTION_COUNT\<close>, and (a C enum parameter accepts any integer a caller casts)
  \<open>FACE_RAW n\<close> for the integer value \<open>19 + n\<close>. The enumeration has no negative
  enumerator, so its values compare as unsigned and a negative \<open>int\<close> is such a value
  too. \<open>emotion_code\<close> is the integer value.
\<close>

datatype face_emotion_t =
    FACE_NEUTRAL
  | FACE_HAPPY
  | FACE_WORRIED
  | FACE_SAD
  | FACE_SURPRISED
  | FACE_ANGRY
  | FACE_SLEEPY
  | FACE_WINK
  | FACE_LOVE
  | FACE_PLAYFUL
  | FACE_SILLY
  | FACE_SMIRK
  | FACE_CRY
  | FACE_WORKING_HARD
  | FACE_EXCITED
  | FACE_CONFUSED
  | FACE_COOL
  | FACE_BLINK
  | FACE_EMOTION_COUNT
  | FACE_RAW nat

fun emotion_code :: "face_emotion_t \<Rightarrow> nat" where
  "emotion_code FACE_NEUTRAL = 0"
| "emotion_code FACE_HAPPY = 1"
| "emotion_code FACE_WORRIED = 2"
| "emotion_code FACE_SAD = 3"
| "emotion_code FACE_SURPRISED = 4"
| "emotion_code FACE_ANGRY = 5"
| "emotion_code FACE_SLEEPY = 6"
| "emotion_code FACE_WINK = 7"
| "emotion_code FACE_LOVE = 8"
| "emotion_code FACE_PLAYFUL = 9"
| "emotion_code FACE_SILLY = 10"
| "emotion_code FACE_SMIRK = 11"
| "emotion_code FACE_CRY = 12"
| "emotion_code FACE_WORKING_HARD = 13"
| "emotion_code FACE_EXCITED = 14"
| "emotion_code FACE_CONFUSED = 15"
| "emotion_code FACE_COOL = 16"
| "emotion_code FACE_BLINK = 17"
| "emotion_code FACE_EMOTION_COUNT = 18"
| "emotion_code (FACE_RAW n) = 19 + n"

text \<open>
  The floating-point unit. Every floating-point expression of the source depends on one
  integer variable and its value is converted to an integer type at once. The model
  takes the unit as a parameter: \<open>fpu e n\<close> is the integer the C conversion yields for
  the expression with source text \<open>e\<close> when its integer variable has the value \<open>n\<close>
  (for a comparison, 1 or 0). No theorem below assumes anything about it unless it
  says so.
\<close>

type_synonym float_unit = "string \<Rightarrow> int \<Rightarrow> int"

text \<open>
  \<open>face_state_t\<close>, the file's single \<open>face_state\<close>. The LVGL object handles, the
  pixel buffers and the timer handle are not modelled; \<open>container_pos\<close> is the
  position LVGL keeps for \<open>face_container\<close>. The function-local \<open>static\<close> variables of
  \<open>animation_timer_cb\<close> (\<open>bounce_counter\<close>, \<open>pupil_counter\<close>, \<open>idle\<close>,
  \<open>diamond_direction\<close>, \<open>heart_direction\<close>) persist between calls and are fields of
  the same record.
\<close>

record face_state_t =
  config_animation_speed :: uint32_t
  config_blink_interval :: uint32_t
  config_auto_blink :: bool
  current_emotion :: face_emotion_t
  target_emotion :: face_emotion_t
  left_eye_openness :: uint8_t
  right_eye_openness :: uint8_t
  mouth_curve :: int8_t
  left_eyebrow_angle :: int8_t
  right_eyebrow_angle :: int8_t
  eyebrow_height :: int8_t
  transition_progress :: uint8_t
  last_blink_time :: uint32_t
  is_blinking :: bool
  blink_phase :: uint8_t
  blush_intensity :: uint8_t
  bounce_offset :: int8_t
  sparkle_phase :: uint8_t
  heart_beat_phase :: uint8_t
  pupil_offset_x :: int8_t
  pupil_offset_y :: int8_t
  tear_fall_offset :: uint8_t
  diamond_mouth_phase :: uint8_t
  sweat_drop_offset :: uint8_t
  face_sz :: uint16_t
  eye_cw :: uint16_t
  mouth_cw :: uint16_t
  mouth_ch :: uint16_t
  initialized :: bool
  container_pos :: "int16_t \<times> int16_t"
  bounce_counter :: uint32_t
  pupil_counter :: uint32_t
  idle :: uint32_t
  diamond_direction :: int8_t
  heart_direction :: int8_t

text \<open>
  \<open>static face_state_t face_state = {0}\<close> and the initialisers of the static locals
  (\<open>diamond_direction = 1\<close>, \<open>heart_direction = -1\<close>, the counters 0).
\<close>

definition face_state_zero :: face_state_t where
  "face_state_zero =
     \<lparr> config_animation_speed = 0, config_blink_interval = 0, config_auto_blink = False,
       current_emotion = FACE_NEUTRAL, target_emotion = FACE_NEUTRAL,
       left_eye_openness = 0, right_eye_openness = 0, mouth_curve = 0,
       left_eyebrow_angle = 0, right_eyebrow_angle = 0, eyebrow_height = 0,
       transition_progress = 0, last_blink_time = 0, is_blinking = False, blink_phase = 0,
       blush_intensity = 0, bounce_offset = 0, sparkle_phase = 0, heart_beat_phase = 0,
       pupil_offset_x = 0, pupil_offset_y = 0, tear_fall_offset = 0,
       diamond_mouth_phase = 0, sweat_drop_offset = 0,
       face_sz = 0, eye_cw = 0, mouth_cw = 0, mouth_ch = 0,
       initialized = False, container_pos = (0, 0),
       bounce_counter = 0, pupil_counter = 0, idle = 0,
       diamond_direction = 1, heart_direction = - 1 \<rparr>"

subsection \<open>update_emotion_parameters\<close>

text \<open>The six values the function writes through its pointer arguments.\<close>

record emotion_params =
  out_left_eye :: uint8_t
  out_right_eye :: uint8_t
  out_mouth :: int8_t
  out_left_brow :: int8_t
  out_right_brow :: int8_t
  out_brow_height :: int8_t

definition mk_params ::
  "uint8_t \<Rightarrow> uint8_t \<Rightarrow> int8_t \<Rightarrow> int8_t \<Rightarrow> int8_t \<Rightarrow> int8_t \<Rightarrow> emotion_params" where
  "mk_params l r m lb rb bh =
     \<lparr> out_left_eye = l, out_right_eye = r, out_mouth = m,
       out_left_brow = lb, out_right_brow = rb, out_brow_height = bh \<rparr>"

text \<open>The assignments to \<open>face_state\<close> that most cases of the switch end with.\<close>

definition set_effects :: "uint8_t \<Rightarrow> uint8_t \<Rightarrow> uint8_t \<Rightarrow> face_state_t \<Rightarrow> face_state_t" where
  "set_effects b s h st =
     st\<lparr> blush_intensity := b, sparkle_phase := s, heart_beat_phase := h \<rparr>"

text \<open>
  The switch of \<open>update_emotion_parameters\<close>: the values written through the pointers
  and the new \<open>face_state\<close>. \<open>FACE_NEUTRAL\<close> assigns \<open>blush_intensity\<close> only; the
  \<open>default\<close> case serves \<open>FACE_BLINK\<close> and every value past it.
\<close>

fun update_emotion_parameters ::
  "face_emotion_t \<Rightarrow> face_state_t \<Rightarrow> emotion_params \<times> face_state_t" where
  "update_emotion_parameters FACE_NEUTRAL st =
     (mk_params 100 100 0 0 0 0, st\<lparr> blush_intensity := 0 \<rparr>)"
| "update_emotion_parameters FACE_HAPPY st =
     (mk_params 96 96 90 (- 4) (- 4) (- 5), set_effects 82 90 40 st)"
| "update_emotion_parameters FACE_WORRIED st =
     (mk_params 78 78 28 18 18 (- 7), set_effects 20 0 0 st)"
| "update_emotion_parameters FACE_SAD st =
     (mk_params 60 60 (- 75) (- 15) 15 3, set_effects 0 0 0 st)"
| "update_emotion_parameters FACE_SURPRISED st =
     (mk_params 100 100 50 0 0 (- 10), set_effects 20 60 0 st)"
| "update_emotion_parameters FACE_ANGRY st =
     (mk_params 75 75 (- 45) 25 (- 25) 5, set_effects 50 0 0 st)"
| "update_emotion_parameters FACE_SLEEPY st =
     (mk_params 35 35 (- 5) (- 5) 5 8, set_effects 30 0 0 st)"
| "update_emotion_parameters FACE_WINK st =
     (mk_params 85 15 70 8 (- 8) (- 2), set_effects 60 75 0 st)"
| "update_emotion_parameters FACE_LOVE st =
     (mk_params 95 95 80 3 3 (- 3), set_effects 90 100 100 st)"
| "update_emotion_parameters FACE_PLAYFUL st =
     (mk_params 78 80 110 12 (- 8) 0, set_effects 45 85 0 st)"
| "update_emotion_parameters FACE_SILLY st =
     (mk_params 95 92 75 25 (- 18) 4, set_effects 55 65 0 st)"
| "update_emotion_parameters FACE_SMIRK st =
     (mk_params 80 75 40 15 (- 5) (- 5), set_effects 25 50 0 st)"
| "update_emotion_parameters FACE_CRY st =
     (mk_params 70 70 (- 70) (- 15) 15 8, set_effects 35 0 0 st)"
| "update_emotion_parameters FACE_WORKING_HARD st =
     (mk_params 65 65 0 22 (- 22) 4, set_effects 60 0 0 st)"
| "update_emotion_parameters FACE_EXCITED st =
     (mk_params 100 100 95 8 8 (- 8), set_effects 85 100 80 st)"
| "update_emotion_parameters FACE_CONFUSED st =
     (mk_params 88 75 12 (- 18) 8 (- 3), set_effects 15 0 0 st)"
| "update_emotion_parameters FACE_COOL st =
     (mk_params 48 48 35 5 (- 3) (- 4), set_effects 10 40 0 st)"
| "update_emotion_parameters _ st =
     (mk_params 100 100 0 0 0 0, set_effects 0 0 0 st)"

subsection \<open>The public setters\<close>

text \<open>
  \<open>face_trigger_blink\<close>, \<open>face_set_auto_blink\<close>, \<open>face_set_eye_openness\<close>,
  \<open>face_set_mouth_shape\<close>, \<open>face_set_position\<close>, \<open>face_set_emotion\<close> and
  \<open>face_get_emotion\<close>. The redraws they request change canvases only. The parameter
  types are the header's: a caller's \<open>int\<close> argument reaches \<open>uint8_t\<close> and \<open>int8_t\<close>
  parameters through C's conversion, \<open>word_of_int\<close>.
\<close>

definition face_trigger_blink :: "face_state_t \<Rightarrow> face_state_t" where
  "face_trigger_blink st =
     (if \<not> initialized st \<or> is_blinking st then st
      else st\<lparr> is_blinking := True, blink_phase := 0 \<rparr>)"

definition face_set_auto_blink :: "bool \<Rightarrow> face_state_t \<Rightarrow> face_state_t" where
  "face_set_auto_blink enable st = st\<lparr> config_auto_blink := enable \<rparr>"

definition face_set_eye_openness :: "uint8_t \<Rightarrow> uint8_t \<Rightarrow> face_state_t \<Rightarrow> face_state_t" where
  "face_set_eye_openness left_eye right_eye st =
     (if \<not> initialized st then st
      else st\<lparr> left_eye_openness := (if left_eye > 100 then 100 else left_eye),
               right_eye_openness := (if right_eye > 100 then 100 else right_eye) \<rparr>)"

definition face_set_mouth_shape :: "int8_t \<Rightarrow> face_state_t \<Rightarrow> face_state_t" where
  "face_set_mouth_shape v st =
     (if \<not> initialized st then st
      else let v1 = (if sint v > 100 then 100 else v);
               v2 = (if sint v1 < - 100 then - 100 else v1)
           in st\<lparr> mouth_curve := v2 \<rparr>)"

definition face_set_position :: "int16_t \<Rightarrow> int16_t \<Rightarrow> face_state_t \<Rightarrow> face_state_t" where
  "face_set_position x y st =
     (if \<not> initialized st then st else st\<lparr> container_pos := (x, y) \<rparr>)"

definition face_set_emotion :: "face_emotion_t \<Rightarrow> bool \<Rightarrow> face_state_t \<Rightarrow> face_state_t" where
  "face_set_emotion emotion smooth st =
     (if \<not> initialized st \<or> emotion_code emotion \<ge> emotion_code FACE_EMOTION_COUNT then st
      else let st1 = st\<lparr> target_emotion := emotion \<rparr> in
        if \<not> smooth then
          (let st2 = st1\<lparr> current_emotion := emotion, transition_progress := 100 \<rparr>;
               (p, st3) = update_emotion_parameters emotion st2
           in st3\<lparr> left_eye_openness := out_left_eye p,
                    right_eye_openness := out_right_eye p,
                    mouth_curve := out_mouth p,
                    left_eyebrow_angle := out_left_brow p,
                    right_eyebrow_angle := out_right_brow p,
                    eyebrow_height := out_brow_height p \<rparr>)
        else st1\<lparr> transition_progress := 0 \<rparr>)"

definition face_get_emotion :: "face_state_t \<Rightarrow> face_emotion_t" where
  "face_get_emotion st = current_emotion st"

subsection \<open>face_animation_init\<close>

datatype esp_err_t = ESP_OK | ESP_ERR_NO_MEM

text \<open>The fields of \<open>face_config_t\<close> the file reads; \<open>parent\<close> is an LVGL handle.\<close>

record face_config_t =
  animation_speed :: uint32_t
  blink_interval :: uint32_t
  auto_blink :: bool

definition f16 :: "float_unit \<Rightarrow> string \<Rightarrow> int \<Rightarrow> 16 word" where
  "f16 fpu e n = word_of_int (fpu e n)"

text \<open>
  \<open>face_animation_init\<close>. \<open>config\<close> is \<open>None\<close> for a \<open>NULL\<close> pointer; \<open>parent_w\<close> and
  \<open>parent_h\<close> are what LVGL reports for the parent object (\<open>int32_t\<close>); \<open>alloc_ok\<close>
  says whether all three canvas buffers were allocated; \<open>now\<close> is \<open>lv_tick_get()\<close>.
\<close>

definition face_animation_init ::
  "float_unit \<Rightarrow> face_config_t option \<Rightarrow> 32 word \<Rightarrow> 32 word \<Rightarrow> bool \<Rightarrow> uint32_t \<Rightarrow>
   face_state_t \<Rightarrow> esp_err_t \<times> face_state_t" where
  "face_animation_init fpu config parent_w parent_h alloc_ok now st =
     (if initialized st then (ESP_OK, st)
      else
        let st1 = (case config of
                     Some c \<Rightarrow> st\<lparr> config_animation_speed := animation_speed c,
                                     config_blink_interval := blink_interval c,
                                     config_auto_blink := auto_blink c \<rparr>
                   | None \<Rightarrow> st\<lparr> config_animation_speed := 30,
                                   config_blink_interval := 3000,
                                   config_auto_blink := True \<rparr>);
            sz = (word_of_int (sint (if parent_w <s parent_h then parent_w else parent_h))
                    :: uint16_t);
            st2 = st1\<lparr> face_sz := sz,
                        eye_cw := f16 fpu ''face_sz * 0.45f'' (uint sz),
                        mouth_cw := f16 fpu ''face_sz * 0.45f'' (uint sz),
                        mouth_ch := f16 fpu ''face_sz * 0.38f'' (uint sz) \<rparr>
        in if \<not> alloc_ok then (ESP_ERR_NO_MEM, st2)
           else (ESP_OK,
                 st2\<lparr> current_emotion := FACE_NEUTRAL, target_emotion := FACE_NEUTRAL,
                       left_eye_openness := 100, right_eye_openness := 100,
                       mouth_curve := 0, left_eyebrow_angle := 0,
                       right_eyebrow_angle := 0, eyebrow_height := 0,
                       transition_progress := 100, last_blink_time := now,
                       blush_intensity := 0, bounce_offset := 0,
                       sparkle_phase := 0, heart_beat_phase := 0,
                       initialized := True \<rparr>))"

subsection \<open>animation_timer_cb: blink and transition\<close>

text \<open>The body of \<open>if (face_state.is_blinking)\<close>; \<open>current_time\<close> is \<open>lv_tick_get()\<close>.\<close>

definition blink_step :: "uint32_t \<Rightarrow> face_state_t \<Rightarrow> face_state_t" where
  "blink_step current_time st =
     (let st1 = st\<lparr> blink_phase := blink_phase st + 20 \<rparr>;
          st2 = (if blink_phase st1 \<ge> 100
                 then st1\<lparr> blink_phase := 0, is_blinking := False,
                           last_blink_time := current_time \<rparr>
                 else st1);
          blink_openness = (if blink_phase st2 < 50 then 100 - blink_phase st2 * 2
                            else (blink_phase st2 - 50) * 2)
      in st2\<lparr> left_eye_openness := blink_openness,
               right_eye_openness := blink_openness \<rparr>)"

text \<open>
  \<open>current + ((target - current) * transition_progress) / 100\<close>, computed in \<open>int\<close>
  and stored into a \<open>uint8_t\<close> field (operands read with \<open>uint\<close>) or an \<open>int8_t\<close> field
  (operands read with \<open>sint\<close>).
\<close>

definition lerp_u8 :: "uint8_t \<Rightarrow> uint8_t \<Rightarrow> uint8_t \<Rightarrow> uint8_t" where
  "lerp_u8 current target progress =
     word_of_int (uint current + ((uint target - uint current) * uint progress) sdiv 100)"

definition lerp_s8 :: "int8_t \<Rightarrow> int8_t \<Rightarrow> uint8_t \<Rightarrow> int8_t" where
  "lerp_s8 current target progress =
     word_of_int (sint current + ((sint target - sint current) * uint progress) sdiv 100)"

text \<open>
  The body of the branch taken when \<open>current_emotion != target_emotion\<close> and
  \<open>transition_progress < 100\<close>. The target's parameters are looked up first, then the
  current emotion's; both lookups write \<open>face_state\<close>.
\<close>

definition transition_step :: "face_state_t \<Rightarrow> face_state_t" where
  "transition_step st =
     (let st1 = st\<lparr> transition_progress := transition_progress st + 10 \<rparr>;
          st2 = (if transition_progress st1 \<ge> 100
                 then st1\<lparr> transition_progress := 100,
                           current_emotion := target_emotion st1 \<rparr>
                 else st1);
          (t, st3) = update_emotion_parameters (target_emotion st2) st2;
          (c, st4) = update_emotion_parameters (current_emotion st3) st3;
          p = transition_progress st4
      in st4\<lparr> left_eye_openness := lerp_u8 (out_left_eye c) (out_left_eye t) p,
               right_eye_openness := lerp_u8 (out_right_eye c) (out_right_eye t) p,
               mouth_curve := lerp_s8 (out_mouth c) (out_mouth t) p,
               left_eyebrow_angle := lerp_s8 (out_left_brow c) (out_left_brow t) p,
               right_eyebrow_angle := lerp_s8 (out_right_brow c) (out_right_brow t) p,
               eyebrow_height := lerp_s8 (out_brow_height c) (out_brow_height t) p \<rparr>)"

text \<open>The \<open>if\<close> / \<open>else if\<close> / \<open>else if\<close> chain that opens the callback.\<close>

definition auto_blink_due :: "uint32_t \<Rightarrow> face_state_t \<Rightarrow> bool" where
  "auto_blink_due current_time st =
     (config_auto_blink st \<and>
      current_time - last_blink_time st > config_blink_interval st)"

definition blink_or_transition :: "uint32_t \<Rightarrow> face_state_t \<Rightarrow> face_state_t" where
  "blink_or_transition current_time st =
     (if is_blinking st then blink_step current_time st
      else if auto_blink_due current_time st
        then face_trigger_blink st
      else if current_emotion st \<noteq> target_emotion st \<and> transition_progress st < 100
        then transition_step st
      else st)"

subsection \<open>animation_timer_cb: pupil motion and the drop counters\<close>

text \<open>
  A floating-point expression over a \<open>uint32_t\<close> counter, converted to an 8-bit field
  (\<open>f8\<close>), and one over a signed 8-bit value (\<open>f8s\<close>).
\<close>

definition f8 :: "float_unit \<Rightarrow> string \<Rightarrow> uint32_t \<Rightarrow> 8 word" where
  "f8 fpu e n = word_of_int (fpu e (uint n))"

definition f8s :: "float_unit \<Rightarrow> string \<Rightarrow> int8_t \<Rightarrow> 8 word" where
  "f8s fpu e v = word_of_int (fpu e (sint v))"

definition set_pupil :: "int8_t \<Rightarrow> int8_t \<Rightarrow> face_state_t \<Rightarrow> face_state_t" where
  "set_pupil x y st = st\<lparr> pupil_offset_x := x, pupil_offset_y := y \<rparr>"

text \<open>
  The first \<open>switch (face_state.current_emotion)\<close>. The locals: in \<open>FACE_HAPPY\<close>,
  \<open>ha = (pupil_counter % 80) * 0.1572f\<close>; in \<open>FACE_PLAYFUL\<close>/\<open>FACE_LOVE\<close>,
  \<open>angle = (pupil_counter % 100) * 0.125\<close>; in \<open>FACE_COOL\<close>, \<open>cp = pupil_counter % 240\<close>.
\<close>

definition pupil_motion :: "float_unit \<Rightarrow> face_state_t \<Rightarrow> face_state_t" where
  "pupil_motion fpu st =
     (let pc = pupil_counter st in
      case current_emotion st of
        FACE_HAPPY \<Rightarrow>
          set_pupil (f8 fpu ''7.0f * cosf(ha)'' pc) (f8 fpu ''4.0f * sinf(ha)'' pc) st
      | FACE_WORRIED \<Rightarrow>
          set_pupil (f8 fpu ''5.0f * sinf(pupil_counter * 0.06f)'' pc)
                    (f8 fpu ''1.0f * sinf(pupil_counter * 0.09f)'' pc) st
      | FACE_PLAYFUL \<Rightarrow>
          (if pc mod 100 < 50
           then set_pupil (f8 fpu ''6 * cos(angle)'' pc) (f8 fpu ''4 * sin(angle)'' pc) st
           else set_pupil (f8s fpu ''face_state.pupil_offset_x * 0.8'' (pupil_offset_x st))
                          (f8s fpu ''face_state.pupil_offset_y * 0.8'' (pupil_offset_y st)) st)
      | FACE_LOVE \<Rightarrow>
          (if pc mod 100 < 50
           then set_pupil (f8 fpu ''6 * cos(angle)'' pc) (f8 fpu ''4 * sin(angle)'' pc) st
           else set_pupil (f8s fpu ''face_state.pupil_offset_x * 0.8'' (pupil_offset_x st))
                          (f8s fpu ''face_state.pupil_offset_y * 0.8'' (pupil_offset_y st)) st)
      | FACE_SURPRISED \<Rightarrow> set_pupil 0 (- 8) st
      | FACE_SLEEPY \<Rightarrow> set_pupil 0 5 st
      | FACE_SILLY \<Rightarrow> set_pupil (if (pc div 5) mod 2 \<noteq> 0 then 10 else - 10) 0 st
      | FACE_WINK \<Rightarrow> set_pupil 5 0 st
      | FACE_SMIRK \<Rightarrow> set_pupil 5 0 st
      | FACE_WORKING_HARD \<Rightarrow> set_pupil 0 4 st
      | FACE_EXCITED \<Rightarrow>
          set_pupil (if (pc div 3) mod 2 \<noteq> 0 then 9 else - 9)
                    (if (pc div 5) mod 2 \<noteq> 0 then 7 else - 7) st
      | FACE_CONFUSED \<Rightarrow>
          set_pupil (f8 fpu ''7.0f * cosf(pupil_counter * 0.03f)'' pc)
                    (f8 fpu ''5.0f * sinf(pupil_counter * 0.05f)'' pc) st
      | FACE_COOL \<Rightarrow>
          (let cp = pc mod 240 in
           if cp < 60 then set_pupil (f8 fpu ''8.0f * (cp / 60.0f)'' cp) 0 st
           else if cp < 120 then set_pupil 8 0 st
           else if cp < 180
             then set_pupil (f8 fpu ''8.0f * (1.0f - (cp - 120) / 60.0f)'' cp) 0 st
           else set_pupil 0 0 st)
      | _ \<Rightarrow> set_pupil 0 0 st)"

text \<open>The tear, sweat and diamond-mouth counters that follow the switch.\<close>

definition tear_step :: "face_state_t \<Rightarrow> face_state_t" where
  "tear_step st =
     (if current_emotion st = FACE_SAD \<or> current_emotion st = FACE_CRY
      then let t = tear_fall_offset st + 2
           in st\<lparr> tear_fall_offset := (if t > 80 then 0 else t) \<rparr>
      else st\<lparr> tear_fall_offset := 0 \<rparr>)"

definition sweat_step :: "face_state_t \<Rightarrow> face_state_t" where
  "sweat_step st =
     (if current_emotion st = FACE_WORKING_HARD
      then let s = sweat_drop_offset st + 3
           in st\<lparr> sweat_drop_offset := (if s > 100 then 0 else s) \<rparr>
      else if current_emotion st = FACE_SLEEPY
      then let s = sweat_drop_offset st + 1
           in st\<lparr> sweat_drop_offset := (if s > 100 then 0 else s) \<rparr>
      else st\<lparr> sweat_drop_offset := 0 \<rparr>)"

definition diamond_step :: "face_state_t \<Rightarrow> face_state_t" where
  "diamond_step st =
     (if current_emotion st = FACE_SURPRISED
      then let d = diamond_mouth_phase st + diamond_direction st * 8
           in if d \<ge> 100 then st\<lparr> diamond_mouth_phase := 100, diamond_direction := - 1 \<rparr>
              else if d \<le> 50 then st\<lparr> diamond_mouth_phase := 50, diamond_direction := 1 \<rparr>
              else st\<lparr> diamond_mouth_phase := d \<rparr>
      else st\<lparr> diamond_mouth_phase := 0 \<rparr>)"

subsection \<open>animation_timer_cb: idle motion\<close>

text \<open>
  The second \<open>switch (face_state.current_emotion)\<close>, one definition per case.
  \<open>transition_done\<close> is \<open>face_state.transition_progress == 100\<close>, read after the
  transition branch has run.
\<close>

definition transition_done :: "face_state_t \<Rightarrow> bool" where
  "transition_done st = (transition_progress st = 100)"

definition set_eyes :: "uint8_t \<Rightarrow> face_state_t \<Rightarrow> face_state_t" where
  "set_eyes v st = st\<lparr> left_eye_openness := v, right_eye_openness := v \<rparr>"

definition idle_happy :: "float_unit \<Rightarrow> face_state_t \<Rightarrow> face_state_t" where
  "idle_happy fpu st =
     (let bc = bounce_counter st;
          st1 = st\<lparr> bounce_offset := f8 fpu ''3.5f * sinf(bounce_counter * 0.28f)'' bc \<rparr>;
          st2 = (if transition_done st1 \<and> \<not> is_blinking st1
                 then set_eyes (87 + f8 fpu ''13 * fabsf(sinf(bounce_counter * 0.28f))'' bc) st1
                 else st1);
          st3 = st2\<lparr> sparkle_phase :=
                         65 + f8 fpu ''35 * fabsf(sinf(bounce_counter * 0.20f))'' bc,
                       blush_intensity :=
                         72 + f8 fpu ''18 * fabsf(sinf(bounce_counter * 0.13f))'' bc \<rparr>
      in if transition_done st3
         then st3\<lparr> mouth_curve :=
                       87 + f8 fpu ''8 * fabsf(sinf(bounce_counter * 0.28f))'' bc \<rparr>
         else st3)"

definition idle_worried :: "float_unit \<Rightarrow> face_state_t \<Rightarrow> face_state_t" where
  "idle_worried fpu st =
     (let bc = bounce_counter st;
          st1 = st\<lparr> bounce_offset :=
                  f8 fpu ''1.2f * sinf(bounce_counter * 0.10f) + 0.8f * sinf(bounce_counter * 0.23f)'' bc \<rparr>
      in if transition_done st1
         then (let a = 16 + f8 fpu ''7 * fabsf(sinf(bounce_counter * 0.17f))'' bc
               in st1\<lparr> left_eyebrow_angle := a, right_eyebrow_angle := a,
                        eyebrow_height :=
                          - 6 - f8 fpu ''4 * fabsf(sinf(bounce_counter * 0.17f))'' bc,
                        mouth_curve :=
                          22 + f8 fpu ''12 * fabsf(sinf(bounce_counter * 0.13f))'' bc \<rparr>)
         else st1)"

definition idle_love :: "float_unit \<Rightarrow> face_state_t \<Rightarrow> face_state_t" where
  "idle_love fpu st =
     (let bc = bounce_counter st;
          st1 = st\<lparr> bounce_offset := f8 fpu ''2.0 * sin(bounce_counter * 0.12)'' bc \<rparr>;
          st2 = (if transition_done st1 \<and> \<not> is_blinking st1
                 then set_eyes (f8 fpu ''88 + 12 * fabs(sin(bounce_counter * 0.15))'' bc) st1
                 else st1)
      in st2\<lparr> sparkle_phase := f8 fpu ''72 + 28 * fabs(sin(bounce_counter * 0.25))'' bc,
               heart_beat_phase := f8 fpu ''65 + 35 * fabs(sin(bounce_counter * 0.20))'' bc,
               blush_intensity := f8 fpu ''80 + 15 * fabs(sin(bounce_counter * 0.15))'' bc \<rparr>)"

definition idle_angry :: "float_unit \<Rightarrow> face_state_t \<Rightarrow> face_state_t" where
  "idle_angry fpu st =
     (let bc = bounce_counter st;
          st1 = st\<lparr> blush_intensity := f8 fpu ''40 + 28 * fabs(sin(bounce_counter * 0.3))'' bc \<rparr>;
          st2 = (if transition_done st1
                 then st1\<lparr> mouth_curve := - 42 + f8 fpu ''8 * sin(bounce_counter * 0.5)'' bc,
                           left_eyebrow_angle :=
                             22 + f8 fpu ''5 * sin(bounce_counter * 0.4)'' bc,
                           right_eyebrow_angle :=
                             - 22 - f8 fpu ''5 * sin(bounce_counter * 0.4)'' bc \<rparr>
                 else st1)
      in st2\<lparr> bounce_offset := (if bc mod 8 < 2 then 1 else 0) \<rparr>)"

text \<open>\<open>int16_t droop\<close>, \<open>int16_t new_open = 35 - droop\<close>, then the \<open>uint8_t\<close> conversion.\<close>

definition idle_sleepy :: "float_unit \<Rightarrow> face_state_t \<Rightarrow> face_state_t" where
  "idle_sleepy fpu st =
     (let bc = bounce_counter st;
          st1 = st\<lparr> bounce_offset := f8 fpu ''3.0 * sin(bounce_counter * 0.04)'' bc \<rparr>
      in if transition_done st1 \<and> \<not> is_blinking st1
         then (let droop = f16 fpu ''20 * fabs(sin(bounce_counter * 0.03))'' (uint bc);
                   new_open = 35 - droop
               in set_eyes (if new_open <s 10 then 10 else ucast new_open) st1)
         else st1)"

text \<open>\<open>(bounce_counter % 4) - 2\<close> is unsigned 32-bit arithmetic, stored into \<open>int8_t\<close>.\<close>

definition idle_surprised :: "float_unit \<Rightarrow> face_state_t \<Rightarrow> face_state_t" where
  "idle_surprised fpu st =
     (let bc = bounce_counter st;
          st1 = st\<lparr> bounce_offset := ucast (bc mod 4 - 2) \<rparr>
      in if transition_done st1 \<and> \<not> is_blinking st1
         then set_eyes (93 + f8 fpu ''7 * fabs(sin(bounce_counter * 0.4))'' bc) st1
         else st1)"

definition idle_cry :: "float_unit \<Rightarrow> face_state_t \<Rightarrow> face_state_t" where
  "idle_cry fpu st =
     (let bc = bounce_counter st;
          st1 = st\<lparr> bounce_offset := f8 fpu ''2 * sin(bounce_counter * 0.6)'' bc \<rparr>;
          st2 = (if transition_done st1 \<and> \<not> is_blinking st1
                 then (let squeeze = f16 fpu ''20 * fabs(sin(bounce_counter * 0.3))'' (uint bc);
                           new_open = 65 - squeeze
                       in set_eyes (if new_open <s 30 then 30 else ucast new_open) st1)
                 else st1)
      in st2\<lparr> blush_intensity := 27 + f8 fpu ''18 * fabs(sin(bounce_counter * 0.3))'' bc \<rparr>)"

definition idle_sad :: "float_unit \<Rightarrow> face_state_t \<Rightarrow> face_state_t" where
  "idle_sad fpu st =
     (let bc = bounce_counter st
      in st\<lparr> bounce_offset := f8 fpu ''1.5 * sin(bounce_counter * 0.06)'' bc,
              pupil_offset_y := 3 + f8 fpu ''3 * fabs(sin(bounce_counter * 0.08))'' bc \<rparr>)"

definition idle_wink :: "float_unit \<Rightarrow> face_state_t \<Rightarrow> face_state_t" where
  "idle_wink fpu st =
     (let bc = bounce_counter st
      in st\<lparr> sparkle_phase := 42 + f8 fpu ''38 * fabs(sin(bounce_counter * 0.2))'' bc,
              bounce_offset := f8 fpu ''1.5 * sin(bounce_counter * 0.25)'' bc \<rparr>)"

definition idle_smirk :: "float_unit \<Rightarrow> face_state_t \<Rightarrow> face_state_t" where
  "idle_smirk fpu st =
     (let bc = bounce_counter st;
          st1 = (if transition_done st
                 then st\<lparr> left_eyebrow_angle :=
                             12 + f8 fpu ''8 * sin(bounce_counter * 0.10)'' bc,
                          eyebrow_height :=
                             - 5 + f8 fpu ''4 * sin(bounce_counter * 0.10)'' bc \<rparr>
                 else st)
      in st1\<lparr> pupil_offset_x := 3 + f8 fpu ''4 * sin(bounce_counter * 0.07)'' bc,
               sparkle_phase := 25 + f8 fpu ''30 * fabs(sin(bounce_counter * 0.15))'' bc,
               bounce_offset := f8 fpu ''sin(bounce_counter * 0.10)'' bc \<rparr>)"

definition idle_playful :: "float_unit \<Rightarrow> face_state_t \<Rightarrow> face_state_t" where
  "idle_playful fpu st =
     (let bc = bounce_counter st;
          st1 = (if transition_done st
                 then st\<lparr> mouth_curve :=
                             105 + f8 fpu ''10 * sin(bounce_counter * 0.35)'' bc \<rparr>
                 else st)
      in st1\<lparr> sparkle_phase := 62 + f8 fpu ''28 * fabs(sin(bounce_counter * 0.28))'' bc,
               bounce_offset := f8 fpu ''2.5 * sin(bounce_counter * 0.30)'' bc \<rparr>)"

definition idle_silly :: "float_unit \<Rightarrow> face_state_t \<Rightarrow> face_state_t" where
  "idle_silly fpu st =
     (let bc = bounce_counter st
      in st\<lparr> bounce_offset := f8 fpu ''3.5 * sin(bounce_counter * 0.25)'' bc,
              sparkle_phase := 38 + f8 fpu ''37 * fabs(sin(bounce_counter * 0.30))'' bc \<rparr>)"

definition idle_working_hard :: "face_state_t \<Rightarrow> face_state_t" where
  "idle_working_hard st =
     st\<lparr> bounce_offset := (if bounce_counter st mod 6 < 3 then 1 else - 1) \<rparr>"

definition idle_excited :: "float_unit \<Rightarrow> face_state_t \<Rightarrow> face_state_t" where
  "idle_excited fpu st =
     (let bc = bounce_counter st;
          st1 = st\<lparr> bounce_offset := f8 fpu ''3.5f * sinf(bounce_counter * 0.55f)'' bc \<rparr>;
          st2 = (if transition_done st1 \<and> \<not> is_blinking st1
                 then set_eyes (90 + f8 fpu ''10 * fabsf(sinf(bounce_counter * 0.55f))'' bc) st1
                 else st1)
      in st2\<lparr> sparkle_phase :=
                 80 + f8 fpu ''20 * fabsf(sinf(bounce_counter * 0.40f))'' bc,
               blush_intensity :=
                 75 + f8 fpu ''20 * fabsf(sinf(bounce_counter * 0.20f))'' bc \<rparr>)"

text \<open>\<open>brow_wave\<close> is the local \<open>sinf(bounce_counter * 0.06f)\<close>.\<close>

definition idle_confused :: "float_unit \<Rightarrow> face_state_t \<Rightarrow> face_state_t" where
  "idle_confused fpu st =
     (let bc = bounce_counter st;
          st1 = st\<lparr> bounce_offset :=
                  f8 fpu ''2.0f * sinf(bounce_counter * 0.07f) + 1.0f * sinf(bounce_counter * 0.19f)'' bc \<rparr>
      in if transition_done st1
         then st1\<lparr> left_eyebrow_angle := - 18 + f8 fpu ''12 * brow_wave'' bc,
                   right_eyebrow_angle := 8 - f8 fpu ''6 * brow_wave'' bc,
                   eyebrow_height := - 3 - f8 fpu ''4 * fabsf(brow_wave)'' bc \<rparr>
         else st1)"

definition idle_cool :: "float_unit \<Rightarrow> face_state_t \<Rightarrow> face_state_t" where
  "idle_cool fpu st =
     (let bc = bounce_counter st;
          st1 = st\<lparr> bounce_offset := f8 fpu ''1.5f * sinf(bounce_counter * 0.04f)'' bc,
                     sparkle_phase :=
                       15 + f8 fpu ''30 * fabsf(sinf(bounce_counter * 0.08f))'' bc \<rparr>
      in if transition_done st1 \<and> \<not> is_blinking st1
         then (let squint = f8 fpu ''8 * fabsf(sinf(bounce_counter * 0.05f))'' bc
               in set_eyes (48 - (if squint > 38 then 38 else squint)) st1)
         else st1)"

text \<open>
  \<open>FACE_NEUTRAL\<close>: \<open>gp = idle % 420\<close>, \<open>bp = idle % 280\<close>, \<open>sp = idle % 360\<close>; the local
  \<open>t\<close> is \<open>(gp - 160) / 35.0f\<close>, \<open>(gp - 240) / 35.0f\<close>, \<open>(gp - 340) / 28.0f\<close> or
  \<open>(gp - 390) / 30.0f\<close> by branch; \<open>intensity\<close> is \<open>raw_t\<close> or \<open>2.0f - raw_t\<close> for
  \<open>raw_t = (bp - 230) / 25.0f\<close> (brows) and \<open>raw_t = (sp - 300) / 30.0f\<close> (mouth).
\<close>

definition neutral_gaze :: "float_unit \<Rightarrow> uint32_t \<Rightarrow> face_state_t \<Rightarrow> face_state_t" where
  "neutral_gaze fpu gp st =
     (if gp < 160 then set_pupil 0 0 st
      else if gp < 195 then set_pupil (f8 fpu ''7.0f * t'' gp) 0 st
      else if gp < 240 then set_pupil 7 0 st
      else if gp < 275 then set_pupil (f8 fpu ''7.0f * (1.0f - t)'' gp) 0 st
      else if gp < 340 then set_pupil 0 0 st
      else if gp < 368
        then set_pupil (f8 fpu ''-5.0f * t'' gp) (f8 fpu ''5.0f * t'' gp) st
      else if gp < 390 then set_pupil (- 5) 5 st
      else set_pupil (f8 fpu ''-5.0f * (1.0f - t)'' gp)
                     (f8 fpu ''5.0f * (1.0f - t)'' gp) st)"

definition neutral_gestures :: "float_unit \<Rightarrow> face_state_t \<Rightarrow> face_state_t" where
  "neutral_gestures fpu st =
     (let bp = idle st mod 280;
          st1 = (if bp \<ge> 230 \<and> bp < 280
                 then st\<lparr> left_eyebrow_angle := f8 fpu ''8.0f * intensity'' bp,
                          right_eyebrow_angle := f8 fpu ''-2.0f * intensity'' bp,
                          eyebrow_height := f8 fpu ''-4.0f * intensity'' bp \<rparr>
                 else st\<lparr> left_eyebrow_angle := 0, right_eyebrow_angle := 0,
                          eyebrow_height := 0 \<rparr>);
          sp = idle st1 mod 360
      in if sp \<ge> 300 \<and> sp < 360
         then st1\<lparr> mouth_curve := f8 fpu ''14.0f * intensity'' sp \<rparr>
         else st1\<lparr> mouth_curve := 0 \<rparr>)"

definition idle_neutral :: "float_unit \<Rightarrow> face_state_t \<Rightarrow> face_state_t" where
  "idle_neutral fpu st =
     (let st1 = (if transition_done st then st\<lparr> idle := idle st + 1 \<rparr> else st);
          st2 = st1\<lparr> bounce_offset := f8 fpu ''1.2f * sinf(idle * 0.05f)'' (idle st1) \<rparr>;
          st3 = neutral_gaze fpu (idle st2 mod 420) st2
      in if transition_done st3 then neutral_gestures fpu st3 else st3)"

definition idle_default :: "float_unit \<Rightarrow> face_state_t \<Rightarrow> face_state_t" where
  "idle_default fpu st =
     st\<lparr> bounce_offset := f8 fpu ''sinf(bounce_counter * 0.1f) * 0.5f'' (bounce_counter st) \<rparr>"

definition idle_motion :: "float_unit \<Rightarrow> face_state_t \<Rightarrow> face_state_t" where
  "idle_motion fpu st =
     (case current_emotion st of
        FACE_HAPPY \<Rightarrow> idle_happy fpu st
      | FACE_WORRIED \<Rightarrow> idle_worried fpu st
      | FACE_LOVE \<Rightarrow> idle_love fpu st
      | FACE_ANGRY \<Rightarrow> idle_angry fpu st
      | FACE_SLEEPY \<Rightarrow> idle_sleepy fpu st
      | FACE_SURPRISED \<Rightarrow> idle_surprised fpu st
      | FACE_CRY \<Rightarrow> idle_cry fpu st
      | FACE_SAD \<Rightarrow> idle_sad fpu st
      | FACE_WINK \<Rightarrow> idle_wink fpu st
      | FACE_SMIRK \<Rightarrow> idle_smirk fpu st
      | FACE_PLAYFUL \<Rightarrow> idle_playful fpu st
      | FACE_SILLY \<Rightarrow> idle_silly fpu st
      | FACE_WORKING_HARD \<Rightarrow> idle_working_hard st
      | FACE_EXCITED \<Rightarrow> idle_excited fpu st
      | FACE_CONFUSED \<Rightarrow> idle_confused fpu st
      | FACE_COOL \<Rightarrow> idle_cool fpu st
      | FACE_NEUTRAL \<Rightarrow> idle_neutral fpu st
      | _ \<Rightarrow> idle_default fpu st)"

subsection \<open>animation_timer_cb: decay of sparkle and heartbeat, and the whole callback\<close>

definition sparkle_decay :: "face_state_t \<Rightarrow> face_state_t" where
  "sparkle_decay st =
     (if current_emotion st \<in> {FACE_NEUTRAL, FACE_ANGRY, FACE_SAD, FACE_CRY, FACE_SLEEPY,
                                FACE_SURPRISED, FACE_WORKING_HARD, FACE_CONFUSED, FACE_WORRIED}
         \<and> sparkle_phase st > 0
      then st\<lparr> sparkle_phase := (if sparkle_phase st \<ge> 2 then sparkle_phase st - 2 else 0) \<rparr>
      else st)"

text \<open>
  \<open>heart_beat_phase\<close> is a \<open>uint8_t\<close>: \<open>+= heart_direction * 5\<close> wraps, and
  \<open><= 0\<close> holds at 0 only.
\<close>

definition heart_decay :: "face_state_t \<Rightarrow> face_state_t" where
  "heart_decay st =
     (if current_emotion st \<noteq> FACE_LOVE \<and> heart_beat_phase st > 0
      then let h = heart_beat_phase st + heart_direction st * 5
           in if h \<le> 0 then st\<lparr> heart_beat_phase := 0, heart_direction := 1 \<rparr>
              else if h \<ge> 100 then st\<lparr> heart_beat_phase := 100, heart_direction := - 1 \<rparr>
              else st\<lparr> heart_beat_phase := h \<rparr>
      else st)"

definition bump_counters :: "face_state_t \<Rightarrow> face_state_t" where
  "bump_counters st =
     st\<lparr> bounce_counter := bounce_counter st + 1, pupil_counter := pupil_counter st + 1 \<rparr>"

text \<open>Everything the callback does after the opening \<open>if\<close> chain, in source order.\<close>

definition secondary_motion :: "float_unit \<Rightarrow> face_state_t \<Rightarrow> face_state_t" where
  "secondary_motion fpu st =
     heart_decay (sparkle_decay (idle_motion fpu (diamond_step (sweat_step (tear_step
       (pupil_motion fpu (bump_counters st)))))))"

text \<open>
  \<open>animation_timer_cb\<close>, with \<open>current_time = lv_tick_get()\<close> as an argument. The
  \<open>needs_redraw\<close> flag and the three draw calls it guards change canvases only.
  \<open>face_animation_update\<close> calls the same function.
\<close>

definition animation_timer_cb :: "float_unit \<Rightarrow> uint32_t \<Rightarrow> face_state_t \<Rightarrow> face_state_t" where
  "animation_timer_cb fpu current_time st =
     (if \<not> initialized st then st
      else secondary_motion fpu (blink_or_transition current_time st))"

subsection \<open>face_animation_deinit\<close>

text \<open>
  \<open>memset(&face_state, 0, sizeof(face_state_t))\<close> on an initialised face; the static
  locals of the callback are not part of \<open>face_state\<close> and keep their values.
\<close>

definition face_animation_deinit :: "face_state_t \<Rightarrow> face_state_t" where
  "face_animation_deinit st =
     (if \<not> initialized st then st
      else face_state_zero\<lparr> bounce_counter := bounce_counter st,
                            pupil_counter := pupil_counter st,
                            idle := idle st,
                            diamond_direction := diamond_direction st,
                            heart_direction := heart_direction st \<rparr>)"

subsection \<open>draw_mouth: which shape is drawn\<close>

text \<open>
  The primitives \<open>draw_mouth\<close> hands to LVGL, in drawing order, without their
  coordinates and colours: the second \<open>if\<close> chain of the function, which picks the
  shape. (The first chain only clamps \<open>center_y\<close>.)
\<close>

datatype mouth_prim =
    GritMouth | GritTeeth | ToothLine
  | OpenMouth | Tongue | SideSparkle
  | DiamondPetal | DiamondCentre | OvalMouth | OrbitSparkle
  | FrownMouth | TearDrop | TearTrail
  | SmileBar bool

text \<open>
  \<open>canvas\<close> is false for a \<open>NULL\<close> canvas. \<open>curve\<close> is an \<open>int8_t\<close>. The test
  \<open>diamond_factor > 0.3\<close> is on the \<open>float\<close> local
  \<open>diamond_factor = face_state.diamond_mouth_phase / 100.0\<close>. \<open>SmileBar b\<close> carries
  \<open>is_slight_smile\<close>.
\<close>

definition draw_mouth :: "float_unit \<Rightarrow> bool \<Rightarrow> face_state_t \<Rightarrow> int8_t \<Rightarrow> mouth_prim list" where
  "draw_mouth fpu canvas st curve =
     (if \<not> canvas then []
      else if current_emotion st = FACE_WORKING_HARD
        then [GritMouth, GritTeeth] @ replicate 3 ToothLine
      else if sint curve > 65
        then [OpenMouth] @ (if sint curve > 100 then [Tongue] else [])
               @ (if sint curve > 85 then replicate 2 SideSparkle else [])
      else if sint curve > 35 \<and> sint curve < 65
        then (if fpu ''diamond_factor > 0.3'' (uint (diamond_mouth_phase st)) \<noteq> 0
              then replicate 4 DiamondPetal @ [DiamondCentre]
              else [OvalMouth])
             @ replicate 4 OrbitSparkle
      else if sint curve < - 35
        then [FrownMouth] @
             (if sint curve < - 50 then [TearDrop, TearDrop, TearTrail, TearTrail] else [])
      else [SmileBar (sint curve > 5)])"

subsection \<open>Runs\<close>

text \<open>The callback run once at each of the given tick times, in order.\<close>

fun run_ticks :: "float_unit \<Rightarrow> uint32_t list \<Rightarrow> face_state_t \<Rightarrow> face_state_t" where
  "run_ticks fpu [] st = st"
| "run_ticks fpu (t # ts) st = run_ticks fpu ts (animation_timer_cb fpu t st)"

text \<open>The six channels of a state, and the table profile of an emotion.\<close>

definition channels :: "face_state_t \<Rightarrow> emotion_params" where
  "channels st =
     mk_params (left_eye_openness st) (right_eye_openness st) (mouth_curve st)
       (left_eyebrow_angle st) (right_eyebrow_angle st) (eyebrow_height st)"

definition profile_of :: "face_emotion_t \<Rightarrow> emotion_params" where
  "profile_of e = fst (update_emotion_parameters e face_state_zero)"

text \<open>
  The blush, the sparkle and the heartbeat that the lookup of an emotion leaves in
  \<open>face_state\<close>, read off a lookup on the zero state.
\<close>

definition effects_of :: "face_emotion_t \<Rightarrow> uint8_t \<times> uint8_t \<times> uint8_t" where
  "effects_of e =
     (let st = snd (update_emotion_parameters e face_state_zero)
      in (blush_intensity st, sparkle_phase st, heart_beat_phase st))"

text \<open>The callback takes the transition branch of its opening chain.\<close>

definition steps_transition :: "uint32_t \<Rightarrow> face_state_t \<Rightarrow> bool" where
  "steps_transition current_time st =
     (\<not> is_blinking st \<and> \<not> auto_blink_due current_time st
      \<and> current_emotion st \<noteq> target_emotion st \<and> transition_progress st < 100)"

text \<open>
  The six assignments of the transition branch: the blend of a current profile \<open>c\<close>
  and a target profile \<open>t\<close> at progress \<open>p\<close>.
\<close>

definition blend :: "emotion_params \<Rightarrow> emotion_params \<Rightarrow> uint8_t \<Rightarrow> emotion_params" where
  "blend c t p =
     mk_params (lerp_u8 (out_left_eye c) (out_left_eye t) p)
               (lerp_u8 (out_right_eye c) (out_right_eye t) p)
               (lerp_s8 (out_mouth c) (out_mouth t) p)
               (lerp_s8 (out_left_brow c) (out_left_brow t) p)
               (lerp_s8 (out_right_brow c) (out_right_brow t) p)
               (lerp_s8 (out_brow_height c) (out_brow_height t) p)"

text \<open>
  The fields the opening \<open>if\<close> chain of the callback reads, and the heartbeat pair.
\<close>

definition control ::
  "face_state_t \<Rightarrow> bool \<times> bool \<times> uint8_t \<times> face_emotion_t \<times> face_emotion_t \<times> uint8_t
     \<times> uint32_t \<times> bool \<times> uint32_t" where
  "control st =
     (initialized st, is_blinking st, blink_phase st, current_emotion st, target_emotion st,
      transition_progress st, last_blink_time st, config_auto_blink st,
      config_blink_interval st)"

text \<open>
  The emotions whose idle case assigns the eye openness (under
  \<open>transition_done && !is_blinking\<close>).
\<close>

definition eye_idle_emotions :: "face_emotion_t set" where
  "eye_idle_emotions =
     {FACE_HAPPY, FACE_LOVE, FACE_SLEEPY, FACE_SURPRISED, FACE_CRY, FACE_EXCITED, FACE_COOL}"

text \<open>
  The emotions whose idle case assigns the mouth curve, the left eyebrow angle, the right
  eyebrow angle and the eyebrow height (each under \<open>transition_done\<close>).
\<close>

definition mouth_idle_emotions :: "face_emotion_t set" where
  "mouth_idle_emotions =
     {FACE_HAPPY, FACE_WORRIED, FACE_ANGRY, FACE_PLAYFUL, FACE_NEUTRAL}"

definition left_brow_idle_emotions :: "face_emotion_t set" where
  "left_brow_idle_emotions =
     {FACE_WORRIED, FACE_ANGRY, FACE_SMIRK, FACE_CONFUSED, FACE_NEUTRAL}"

definition right_brow_idle_emotions :: "face_emotion_t set" where
  "right_brow_idle_emotions = {FACE_WORRIED, FACE_ANGRY, FACE_CONFUSED, FACE_NEUTRAL}"

definition brow_height_idle_emotions :: "face_emotion_t set" where
  "brow_height_idle_emotions = {FACE_WORRIED, FACE_SMIRK, FACE_CONFUSED, FACE_NEUTRAL}"

definition eyes :: "face_state_t \<Rightarrow> uint8_t \<times> uint8_t" where
  "eyes st = (left_eye_openness st, right_eye_openness st)"

definition heart :: "face_state_t \<Rightarrow> uint8_t \<times> int8_t" where
  "heart st = (heart_beat_phase st, heart_direction st)"

text \<open>
  The ranges the channels keep: eye openness in [0, 100], mouth curve in [-100, 115]
  (Playful's profile is 110 and its idle motion \<open>105 + 10 sin\<close>).
\<close>

definition channels_in_range :: "face_state_t \<Rightarrow> bool" where
  "channels_in_range st =
     (left_eye_openness st \<le> 100 \<and> right_eye_openness st \<le> 100
      \<and> - 100 \<le> sint (mouth_curve st) \<and> sint (mouth_curve st) \<le> 115)"

text \<open>
  The float unit keeps the idle expressions that feed the eye openness and the mouth
  curve within their mathematical range (\<open>|sin| \<le> 1\<close>; \<open>intensity\<close> of the Neutral
  smile lies in [0, 1] for \<open>sp\<close> in [300, 360)). Cool's squint is capped by the source
  itself and needs no bound.
\<close>

definition fpu_in_amplitude :: "float_unit \<Rightarrow> bool" where
  "fpu_in_amplitude fpu =
     ((\<forall>n. 0 \<le> fpu ''13 * fabsf(sinf(bounce_counter * 0.28f))'' n
            \<and> fpu ''13 * fabsf(sinf(bounce_counter * 0.28f))'' n \<le> 13)
      \<and> (\<forall>n. 0 \<le> fpu ''8 * fabsf(sinf(bounce_counter * 0.28f))'' n
            \<and> fpu ''8 * fabsf(sinf(bounce_counter * 0.28f))'' n \<le> 8)
      \<and> (\<forall>n. 0 \<le> fpu ''12 * fabsf(sinf(bounce_counter * 0.13f))'' n
            \<and> fpu ''12 * fabsf(sinf(bounce_counter * 0.13f))'' n \<le> 12)
      \<and> (\<forall>n. 88 \<le> fpu ''88 + 12 * fabs(sin(bounce_counter * 0.15))'' n
            \<and> fpu ''88 + 12 * fabs(sin(bounce_counter * 0.15))'' n \<le> 100)
      \<and> (\<forall>n. - 8 \<le> fpu ''8 * sin(bounce_counter * 0.5)'' n
            \<and> fpu ''8 * sin(bounce_counter * 0.5)'' n \<le> 8)
      \<and> (\<forall>n. 0 \<le> fpu ''20 * fabs(sin(bounce_counter * 0.03))'' n
            \<and> fpu ''20 * fabs(sin(bounce_counter * 0.03))'' n \<le> 20)
      \<and> (\<forall>n. 0 \<le> fpu ''7 * fabs(sin(bounce_counter * 0.4))'' n
            \<and> fpu ''7 * fabs(sin(bounce_counter * 0.4))'' n \<le> 7)
      \<and> (\<forall>n. 0 \<le> fpu ''20 * fabs(sin(bounce_counter * 0.3))'' n
            \<and> fpu ''20 * fabs(sin(bounce_counter * 0.3))'' n \<le> 20)
      \<and> (\<forall>n. - 10 \<le> fpu ''10 * sin(bounce_counter * 0.35)'' n
            \<and> fpu ''10 * sin(bounce_counter * 0.35)'' n \<le> 10)
      \<and> (\<forall>n. 0 \<le> fpu ''10 * fabsf(sinf(bounce_counter * 0.55f))'' n
            \<and> fpu ''10 * fabsf(sinf(bounce_counter * 0.55f))'' n \<le> 10)
      \<and> (\<forall>n. 300 \<le> n \<and> n < 360 \<longrightarrow>
               0 \<le> fpu ''14.0f * intensity'' n \<and> fpu ''14.0f * intensity'' n \<le> 14))"

text \<open>
  The observation points: the states \<open>face_state\<close> can be in after program start,
  after any public operation and after any tick, for a given float unit.
\<close>

inductive observable :: "float_unit \<Rightarrow> face_state_t \<Rightarrow> bool" for fpu :: float_unit where
  start: "observable fpu face_state_zero"
| init: "observable fpu st \<Longrightarrow>
         observable fpu (snd (face_animation_init fpu config parent_w parent_h alloc_ok now st))"
| deinit: "observable fpu st \<Longrightarrow> observable fpu (face_animation_deinit st)"
| set_emotion: "observable fpu st \<Longrightarrow> observable fpu (face_set_emotion emotion smooth st)"
| set_eye_openness:
    "observable fpu st \<Longrightarrow> observable fpu (face_set_eye_openness left_eye right_eye st)"
| set_mouth_shape: "observable fpu st \<Longrightarrow> observable fpu (face_set_mouth_shape v st)"
| set_auto_blink: "observable fpu st \<Longrightarrow> observable fpu (face_set_auto_blink enable st)"
| trigger_blink: "observable fpu st \<Longrightarrow> observable fpu (face_trigger_blink st)"
| set_position: "observable fpu st \<Longrightarrow> observable fpu (face_set_position x y st)"
| tick: "observable fpu st \<Longrightarrow> observable fpu (animation_timer_cb fpu current_time st)"

text \<open>
  A float unit for closed examples: it truncates the two geometry products of
  \<open>face_animation_init\<close>, yields 88 for Love's eye expression (its value where the
  sine is 0) and 0 elsewhere. What an example asserts is first proved for every unit.
\<close>

definition fpu_still :: float_unit where
  "fpu_still e n =
     (if e = ''face_sz * 0.45f'' then n * 45 div 100
      else if e = ''face_sz * 0.38f'' then n * 38 div 100
      else if e = ''88 + 12 * fabs(sin(bounce_counter * 0.15))'' then 88
      else 0)"

text \<open>
  The state after \<open>face_animation_init(NULL)\<close> on a 135 by 135 parent at tick time 0,
  all buffers allocated: auto-blink on, every 3000 ms.
\<close>

definition face_state_started :: face_state_t where
  "face_state_started =
     snd (face_animation_init fpu_still None 135 135 True 0 face_state_zero)"

section \<open>Verification\<close>

subsection \<open>Basic facts\<close>

lemma face_state_started_eq:
  "face_state_started =
     \<lparr> config_animation_speed = 30, config_blink_interval = 3000, config_auto_blink = True,
       current_emotion = FACE_NEUTRAL, target_emotion = FACE_NEUTRAL,
       left_eye_openness = 100, right_eye_openness = 100, mouth_curve = 0,
       left_eyebrow_angle = 0, right_eyebrow_angle = 0, eyebrow_height = 0,
       transition_progress = 100, last_blink_time = 0, is_blinking = False, blink_phase = 0,
       blush_intensity = 0, bounce_offset = 0, sparkle_phase = 0, heart_beat_phase = 0,
       pupil_offset_x = 0, pupil_offset_y = 0, tear_fall_offset = 0,
       diamond_mouth_phase = 0, sweat_drop_offset = 0,
       face_sz = 135, eye_cw = 60, mouth_cw = 60, mouth_ch = 51,
       initialized = True, container_pos = (0, 0),
       bounce_counter = 0, pupil_counter = 0, idle = 0,
       diamond_direction = 1, heart_direction = - 1 \<rparr>"
  by (simp add: face_state_started_def face_animation_init_def face_state_zero_def
      f16_def fpu_still_def word_sless_alt)

lemma started_initialized: "initialized face_state_started"
  by (simp add: face_state_started_eq)

lemma lookup_outputs: "fst (update_emotion_parameters e st) = profile_of e"
  by (cases e) (simp_all add: profile_of_def)

lemma lookup_state:
  "snd (update_emotion_parameters e st) =
     st\<lparr> blush_intensity := blush_intensity (snd (update_emotion_parameters e st)),
         sparkle_phase := sparkle_phase (snd (update_emotion_parameters e st)),
         heart_beat_phase := heart_beat_phase (snd (update_emotion_parameters e st)) \<rparr>"
  by (cases e) (simp_all add: set_effects_def)

text \<open>What the lookup writes into \<open>face_state\<close> does not depend on the state.\<close>

lemma effects_table:
  "map effects_of
       [FACE_HAPPY, FACE_WORRIED, FACE_SAD, FACE_SURPRISED, FACE_ANGRY, FACE_SLEEPY,
        FACE_WINK, FACE_LOVE, FACE_PLAYFUL, FACE_SILLY, FACE_SMIRK, FACE_CRY,
        FACE_WORKING_HARD, FACE_EXCITED, FACE_CONFUSED, FACE_COOL]
     = [(82, 90, 40), (20, 0, 0), (0, 0, 0), (20, 60, 0), (50, 0, 0), (30, 0, 0),
        (60, 75, 0), (90, 100, 100), (45, 85, 0), (55, 65, 0), (25, 50, 0), (35, 0, 0),
        (60, 0, 0), (85, 100, 80), (15, 0, 0), (10, 40, 0)]"
  by (simp add: effects_of_def set_effects_def)

lemma effects_default:
  "emotion_code FACE_BLINK \<le> emotion_code e \<Longrightarrow> effects_of e = (0, 0, 0)"
  by (cases e) (simp_all add: effects_of_def set_effects_def)

lemma lookup_overwrites:
  "e \<noteq> FACE_NEUTRAL \<Longrightarrow>
   snd (update_emotion_parameters e st) =
     st\<lparr> blush_intensity := fst (effects_of e),
         sparkle_phase := fst (snd (effects_of e)),
         heart_beat_phase := snd (snd (effects_of e)) \<rparr>"
  by (cases e) (simp_all add: effects_of_def set_effects_def)

subsection \<open>What each phase of the callback leaves alone\<close>

lemma set_pupil_frame:
  "control (set_pupil x y st) = control st"
  "channels (set_pupil x y st) = channels st"
  "eyes (set_pupil x y st) = eyes st"
  "heart (set_pupil x y st) = heart st"
  by (simp_all add: control_def channels_def eyes_def heart_def set_pupil_def)

lemma neutral_gaze_frame:
  "control (neutral_gaze fpu gp st) = control st"
  "channels (neutral_gaze fpu gp st) = channels st"
  "eyes (neutral_gaze fpu gp st) = eyes st"
  "heart (neutral_gaze fpu gp st) = heart st"
  by (simp_all add: neutral_gaze_def set_pupil_frame)

lemma control_fields:
  assumes "control a = control b"
  shows "initialized a = initialized b" "is_blinking a = is_blinking b"
    "blink_phase a = blink_phase b" "current_emotion a = current_emotion b"
    "target_emotion a = target_emotion b" "transition_progress a = transition_progress b"
    "last_blink_time a = last_blink_time b" "config_auto_blink a = config_auto_blink b"
    "config_blink_interval a = config_blink_interval b"
    "transition_done a = transition_done b" "auto_blink_due t a = auto_blink_due t b"
  using assms by (simp_all add: control_def transition_done_def auto_blink_due_def)

lemma neutral_gaze_done: "transition_done (neutral_gaze fpu gp st) = transition_done st"
  by (rule control_fields(10)) (rule neutral_gaze_frame(1))

lemma neutral_gestures_frame:
  "control (neutral_gestures fpu st) = control st"
  "eyes (neutral_gestures fpu st) = eyes st"
  "heart (neutral_gestures fpu st) = heart st"
  by (simp_all add: control_def eyes_def heart_def neutral_gestures_def Let_def)

lemma control_idle_happy: "control (idle_happy fpu st) = control st"
  by (simp add: control_def idle_happy_def Let_def set_eyes_def transition_done_def)

lemma control_idle_worried: "control (idle_worried fpu st) = control st"
  by (simp add: control_def idle_worried_def Let_def set_eyes_def transition_done_def)

lemma control_idle_love: "control (idle_love fpu st) = control st"
  by (simp add: control_def idle_love_def Let_def set_eyes_def transition_done_def)

lemma control_idle_angry: "control (idle_angry fpu st) = control st"
  by (simp add: control_def idle_angry_def Let_def set_eyes_def transition_done_def)

lemma control_idle_sleepy: "control (idle_sleepy fpu st) = control st"
  by (simp add: control_def idle_sleepy_def Let_def set_eyes_def transition_done_def)

lemma control_idle_surprised: "control (idle_surprised fpu st) = control st"
  by (simp add: control_def idle_surprised_def Let_def set_eyes_def transition_done_def)

lemma control_idle_cry: "control (idle_cry fpu st) = control st"
  by (simp add: control_def idle_cry_def Let_def set_eyes_def transition_done_def)

lemma control_idle_sad: "control (idle_sad fpu st) = control st"
  by (simp add: control_def idle_sad_def Let_def set_eyes_def transition_done_def)

lemma control_idle_wink: "control (idle_wink fpu st) = control st"
  by (simp add: control_def idle_wink_def Let_def set_eyes_def transition_done_def)

lemma control_idle_smirk: "control (idle_smirk fpu st) = control st"
  by (simp add: control_def idle_smirk_def Let_def set_eyes_def transition_done_def)

lemma control_idle_playful: "control (idle_playful fpu st) = control st"
  by (simp add: control_def idle_playful_def Let_def set_eyes_def transition_done_def)

lemma control_idle_silly: "control (idle_silly fpu st) = control st"
  by (simp add: control_def idle_silly_def Let_def set_eyes_def transition_done_def)

lemma control_idle_working_hard: "control (idle_working_hard st) = control st"
  by (simp add: control_def idle_working_hard_def Let_def set_eyes_def transition_done_def)

lemma control_idle_excited: "control (idle_excited fpu st) = control st"
  by (simp add: control_def idle_excited_def Let_def set_eyes_def transition_done_def)

lemma control_idle_confused: "control (idle_confused fpu st) = control st"
  by (simp add: control_def idle_confused_def Let_def set_eyes_def transition_done_def)

lemma control_idle_cool: "control (idle_cool fpu st) = control st"
  by (simp add: control_def idle_cool_def Let_def set_eyes_def transition_done_def)

lemma control_idle_neutral: "control (idle_neutral fpu st) = control st"
  by (simp add: idle_neutral_def Let_def neutral_gaze_frame neutral_gestures_frame)
     (simp add: control_def)

lemma control_idle_default: "control (idle_default fpu st) = control st"
  by (simp add: control_def idle_default_def Let_def set_eyes_def transition_done_def)

lemmas control_idle_cases = control_idle_happy control_idle_worried control_idle_love control_idle_angry control_idle_sleepy control_idle_surprised control_idle_cry control_idle_sad control_idle_wink control_idle_smirk control_idle_playful control_idle_silly control_idle_working_hard control_idle_excited control_idle_confused control_idle_cool control_idle_neutral control_idle_default

lemma heart_idle_happy: "heart (idle_happy fpu st) = heart st"
  by (simp add: heart_def idle_happy_def Let_def set_eyes_def transition_done_def)

lemma heart_idle_worried: "heart (idle_worried fpu st) = heart st"
  by (simp add: heart_def idle_worried_def Let_def set_eyes_def transition_done_def)

lemma heart_idle_angry: "heart (idle_angry fpu st) = heart st"
  by (simp add: heart_def idle_angry_def Let_def set_eyes_def transition_done_def)

lemma heart_idle_sleepy: "heart (idle_sleepy fpu st) = heart st"
  by (simp add: heart_def idle_sleepy_def Let_def set_eyes_def transition_done_def)

lemma heart_idle_surprised: "heart (idle_surprised fpu st) = heart st"
  by (simp add: heart_def idle_surprised_def Let_def set_eyes_def transition_done_def)

lemma heart_idle_cry: "heart (idle_cry fpu st) = heart st"
  by (simp add: heart_def idle_cry_def Let_def set_eyes_def transition_done_def)

lemma heart_idle_sad: "heart (idle_sad fpu st) = heart st"
  by (simp add: heart_def idle_sad_def Let_def set_eyes_def transition_done_def)

lemma heart_idle_wink: "heart (idle_wink fpu st) = heart st"
  by (simp add: heart_def idle_wink_def Let_def set_eyes_def transition_done_def)

lemma heart_idle_smirk: "heart (idle_smirk fpu st) = heart st"
  by (simp add: heart_def idle_smirk_def Let_def set_eyes_def transition_done_def)

lemma heart_idle_playful: "heart (idle_playful fpu st) = heart st"
  by (simp add: heart_def idle_playful_def Let_def set_eyes_def transition_done_def)

lemma heart_idle_silly: "heart (idle_silly fpu st) = heart st"
  by (simp add: heart_def idle_silly_def Let_def set_eyes_def transition_done_def)

lemma heart_idle_working_hard: "heart (idle_working_hard st) = heart st"
  by (simp add: heart_def idle_working_hard_def Let_def set_eyes_def transition_done_def)

lemma heart_idle_excited: "heart (idle_excited fpu st) = heart st"
  by (simp add: heart_def idle_excited_def Let_def set_eyes_def transition_done_def)

lemma heart_idle_confused: "heart (idle_confused fpu st) = heart st"
  by (simp add: heart_def idle_confused_def Let_def set_eyes_def transition_done_def)

lemma heart_idle_cool: "heart (idle_cool fpu st) = heart st"
  by (simp add: heart_def idle_cool_def Let_def set_eyes_def transition_done_def)

lemma heart_idle_neutral: "heart (idle_neutral fpu st) = heart st"
  by (simp add: idle_neutral_def Let_def neutral_gaze_frame neutral_gestures_frame)
     (simp add: heart_def)

lemma heart_idle_default: "heart (idle_default fpu st) = heart st"
  by (simp add: heart_def idle_default_def Let_def set_eyes_def transition_done_def)

lemmas heart_idle_cases = heart_idle_happy heart_idle_worried heart_idle_angry heart_idle_sleepy heart_idle_surprised heart_idle_cry heart_idle_sad heart_idle_wink heart_idle_smirk heart_idle_playful heart_idle_silly heart_idle_working_hard heart_idle_excited heart_idle_confused heart_idle_cool heart_idle_neutral heart_idle_default

lemma channels_idle_happy: "\<not> transition_done st \<Longrightarrow> channels (idle_happy fpu st) = channels st"
  by (simp add: channels_def idle_happy_def Let_def set_eyes_def transition_done_def)

lemma channels_idle_worried: "\<not> transition_done st \<Longrightarrow> channels (idle_worried fpu st) = channels st"
  by (simp add: channels_def idle_worried_def Let_def set_eyes_def transition_done_def)

lemma channels_idle_love: "\<not> transition_done st \<Longrightarrow> channels (idle_love fpu st) = channels st"
  by (simp add: channels_def idle_love_def Let_def set_eyes_def transition_done_def)

lemma channels_idle_angry: "\<not> transition_done st \<Longrightarrow> channels (idle_angry fpu st) = channels st"
  by (simp add: channels_def idle_angry_def Let_def set_eyes_def transition_done_def)

lemma channels_idle_sleepy: "\<not> transition_done st \<Longrightarrow> channels (idle_sleepy fpu st) = channels st"
  by (simp add: channels_def idle_sleepy_def Let_def set_eyes_def transition_done_def)

lemma channels_idle_surprised: "\<not> transition_done st \<Longrightarrow> channels (idle_surprised fpu st) = channels st"
  by (simp add: channels_def idle_surprised_def Let_def set_eyes_def transition_done_def)

lemma channels_idle_cry: "\<not> transition_done st \<Longrightarrow> channels (idle_cry fpu st) = channels st"
  by (simp add: channels_def idle_cry_def Let_def set_eyes_def transition_done_def)

lemma channels_idle_sad: "\<not> transition_done st \<Longrightarrow> channels (idle_sad fpu st) = channels st"
  by (simp add: channels_def idle_sad_def Let_def set_eyes_def transition_done_def)

lemma channels_idle_wink: "\<not> transition_done st \<Longrightarrow> channels (idle_wink fpu st) = channels st"
  by (simp add: channels_def idle_wink_def Let_def set_eyes_def transition_done_def)

lemma channels_idle_smirk: "\<not> transition_done st \<Longrightarrow> channels (idle_smirk fpu st) = channels st"
  by (simp add: channels_def idle_smirk_def Let_def set_eyes_def transition_done_def)

lemma channels_idle_playful: "\<not> transition_done st \<Longrightarrow> channels (idle_playful fpu st) = channels st"
  by (simp add: channels_def idle_playful_def Let_def set_eyes_def transition_done_def)

lemma channels_idle_silly: "\<not> transition_done st \<Longrightarrow> channels (idle_silly fpu st) = channels st"
  by (simp add: channels_def idle_silly_def Let_def set_eyes_def transition_done_def)

lemma channels_idle_working_hard: "\<not> transition_done st \<Longrightarrow> channels (idle_working_hard st) = channels st"
  by (simp add: channels_def idle_working_hard_def Let_def set_eyes_def transition_done_def)

lemma channels_idle_excited: "\<not> transition_done st \<Longrightarrow> channels (idle_excited fpu st) = channels st"
  by (simp add: channels_def idle_excited_def Let_def set_eyes_def transition_done_def)

lemma channels_idle_confused: "\<not> transition_done st \<Longrightarrow> channels (idle_confused fpu st) = channels st"
  by (simp add: channels_def idle_confused_def Let_def set_eyes_def transition_done_def)

lemma channels_idle_cool: "\<not> transition_done st \<Longrightarrow> channels (idle_cool fpu st) = channels st"
  by (simp add: channels_def idle_cool_def Let_def set_eyes_def transition_done_def)

lemma channels_idle_neutral: "\<not> transition_done st \<Longrightarrow> channels (idle_neutral fpu st) = channels st"
  by (simp add: idle_neutral_def Let_def neutral_gaze_frame neutral_gaze_done)
     (simp add: channels_def transition_done_def)

lemma channels_idle_default: "\<not> transition_done st \<Longrightarrow> channels (idle_default fpu st) = channels st"
  by (simp add: channels_def idle_default_def Let_def set_eyes_def transition_done_def)

lemmas channels_idle_cases = channels_idle_happy channels_idle_worried channels_idle_love channels_idle_angry channels_idle_sleepy channels_idle_surprised channels_idle_cry channels_idle_sad channels_idle_wink channels_idle_smirk channels_idle_playful channels_idle_silly channels_idle_working_hard channels_idle_excited channels_idle_confused channels_idle_cool channels_idle_neutral channels_idle_default

lemma eyes_idle_happy: "(is_blinking st \<or> \<not> transition_done st) \<Longrightarrow> eyes (idle_happy fpu st) = eyes st"
  by (auto simp add: eyes_def idle_happy_def Let_def set_eyes_def transition_done_def)

lemma eyes_idle_worried: "eyes (idle_worried fpu st) = eyes st"
  by (auto simp add: eyes_def idle_worried_def Let_def set_eyes_def transition_done_def)

lemma eyes_idle_love: "(is_blinking st \<or> \<not> transition_done st) \<Longrightarrow> eyes (idle_love fpu st) = eyes st"
  by (auto simp add: eyes_def idle_love_def Let_def set_eyes_def transition_done_def)

lemma eyes_idle_angry: "eyes (idle_angry fpu st) = eyes st"
  by (auto simp add: eyes_def idle_angry_def Let_def set_eyes_def transition_done_def)

lemma eyes_idle_sleepy: "(is_blinking st \<or> \<not> transition_done st) \<Longrightarrow> eyes (idle_sleepy fpu st) = eyes st"
  by (auto simp add: eyes_def idle_sleepy_def Let_def set_eyes_def transition_done_def)

lemma eyes_idle_surprised: "(is_blinking st \<or> \<not> transition_done st) \<Longrightarrow> eyes (idle_surprised fpu st) = eyes st"
  by (auto simp add: eyes_def idle_surprised_def Let_def set_eyes_def transition_done_def)

lemma eyes_idle_cry: "(is_blinking st \<or> \<not> transition_done st) \<Longrightarrow> eyes (idle_cry fpu st) = eyes st"
  by (auto simp add: eyes_def idle_cry_def Let_def set_eyes_def transition_done_def)

lemma eyes_idle_sad: "eyes (idle_sad fpu st) = eyes st"
  by (auto simp add: eyes_def idle_sad_def Let_def set_eyes_def transition_done_def)

lemma eyes_idle_wink: "eyes (idle_wink fpu st) = eyes st"
  by (auto simp add: eyes_def idle_wink_def Let_def set_eyes_def transition_done_def)

lemma eyes_idle_smirk: "eyes (idle_smirk fpu st) = eyes st"
  by (auto simp add: eyes_def idle_smirk_def Let_def set_eyes_def transition_done_def)

lemma eyes_idle_playful: "eyes (idle_playful fpu st) = eyes st"
  by (auto simp add: eyes_def idle_playful_def Let_def set_eyes_def transition_done_def)

lemma eyes_idle_silly: "eyes (idle_silly fpu st) = eyes st"
  by (auto simp add: eyes_def idle_silly_def Let_def set_eyes_def transition_done_def)

lemma eyes_idle_working_hard: "eyes (idle_working_hard st) = eyes st"
  by (auto simp add: eyes_def idle_working_hard_def Let_def set_eyes_def transition_done_def)

lemma eyes_idle_excited: "(is_blinking st \<or> \<not> transition_done st) \<Longrightarrow> eyes (idle_excited fpu st) = eyes st"
  by (auto simp add: eyes_def idle_excited_def Let_def set_eyes_def transition_done_def)

lemma eyes_idle_confused: "eyes (idle_confused fpu st) = eyes st"
  by (auto simp add: eyes_def idle_confused_def Let_def set_eyes_def transition_done_def)

lemma eyes_idle_cool: "(is_blinking st \<or> \<not> transition_done st) \<Longrightarrow> eyes (idle_cool fpu st) = eyes st"
  by (auto simp add: eyes_def idle_cool_def Let_def set_eyes_def transition_done_def)

lemma eyes_idle_neutral: "eyes (idle_neutral fpu st) = eyes st"
  by (simp add: idle_neutral_def Let_def neutral_gaze_frame neutral_gestures_frame)
     (simp add: eyes_def)

lemma eyes_idle_default: "eyes (idle_default fpu st) = eyes st"
  by (auto simp add: eyes_def idle_default_def Let_def set_eyes_def transition_done_def)

lemmas eyes_idle_cases = eyes_idle_happy eyes_idle_worried eyes_idle_love eyes_idle_angry eyes_idle_sleepy eyes_idle_surprised eyes_idle_cry eyes_idle_sad eyes_idle_wink eyes_idle_smirk eyes_idle_playful eyes_idle_silly eyes_idle_working_hard eyes_idle_excited eyes_idle_confused eyes_idle_cool eyes_idle_neutral eyes_idle_default

lemma control_idle: "control (idle_motion fpu st) = control st"
  by (simp add: idle_motion_def control_idle_cases split: face_emotion_t.splits)

lemma heart_idle: "current_emotion st \<noteq> FACE_LOVE \<Longrightarrow> heart (idle_motion fpu st) = heart st"
  by (simp add: idle_motion_def heart_idle_cases split: face_emotion_t.splits)

lemma channels_idle: "\<not> transition_done st \<Longrightarrow> channels (idle_motion fpu st) = channels st"
  by (simp add: idle_motion_def channels_idle_cases split: face_emotion_t.splits)

lemma eyes_idle:
  "is_blinking st \<or> \<not> transition_done st \<or> current_emotion st \<notin> eye_idle_emotions
   \<Longrightarrow> eyes (idle_motion fpu st) = eyes st"
  by (auto simp add: idle_motion_def eyes_idle_cases eye_idle_emotions_def
      split: face_emotion_t.splits)


lemma bump_frame:
  "control (bump_counters st) = control st"
  "channels (bump_counters st) = channels st"
  "eyes (bump_counters st) = eyes st"
  "heart (bump_counters st) = heart st"
  by (simp_all add: control_def channels_def eyes_def heart_def bump_counters_def)

lemma pupil_frame:
  "control (pupil_motion fpu st) = control st"
  "channels (pupil_motion fpu st) = channels st"
  "eyes (pupil_motion fpu st) = eyes st"
  "heart (pupil_motion fpu st) = heart st"
  by (simp_all add: pupil_motion_def set_pupil_frame Let_def split: face_emotion_t.splits)

lemma tear_frame:
  "control (tear_step st) = control st"
  "channels (tear_step st) = channels st"
  "eyes (tear_step st) = eyes st"
  "heart (tear_step st) = heart st"
  by (simp_all add: control_def channels_def eyes_def heart_def tear_step_def Let_def)

lemma sweat_frame:
  "control (sweat_step st) = control st"
  "channels (sweat_step st) = channels st"
  "eyes (sweat_step st) = eyes st"
  "heart (sweat_step st) = heart st"
  by (simp_all add: control_def channels_def eyes_def heart_def sweat_step_def Let_def)

lemma diamond_frame:
  "control (diamond_step st) = control st"
  "channels (diamond_step st) = channels st"
  "eyes (diamond_step st) = eyes st"
  "heart (diamond_step st) = heart st"
  by (simp_all add: control_def channels_def eyes_def heart_def diamond_step_def Let_def)

lemma sparkle_frame:
  "control (sparkle_decay st) = control st"
  "channels (sparkle_decay st) = channels st"
  "eyes (sparkle_decay st) = eyes st"
  "heart (sparkle_decay st) = heart st"
  by (simp_all add: control_def channels_def eyes_def heart_def sparkle_decay_def)

lemma heart_decay_frame:
  "control (heart_decay st) = control st"
  "channels (heart_decay st) = channels st"
  "eyes (heart_decay st) = eyes st"
  by (simp_all add: control_def channels_def eyes_def heart_decay_def Let_def)

text \<open>The phases that run before the idle switch, taken together.\<close>

lemma before_idle_frame:
  "control (diamond_step (sweat_step (tear_step (pupil_motion fpu (bump_counters st))))) = control st"
  "channels (diamond_step (sweat_step (tear_step (pupil_motion fpu (bump_counters st))))) = channels st"
  "eyes (diamond_step (sweat_step (tear_step (pupil_motion fpu (bump_counters st))))) = eyes st"
  "heart (diamond_step (sweat_step (tear_step (pupil_motion fpu (bump_counters st))))) = heart st"
  by (simp_all add: diamond_frame sweat_frame tear_frame pupil_frame bump_frame)

lemma control_secondary: "control (secondary_motion fpu st) = control st"
  by (simp add: secondary_motion_def heart_decay_frame sparkle_frame control_idle
      before_idle_frame)

lemma channels_secondary:
  assumes "\<not> transition_done st"
  shows "channels (secondary_motion fpu st) = channels st"
proof -
  let ?a = "diamond_step (sweat_step (tear_step (pupil_motion fpu (bump_counters st))))"
  have "\<not> transition_done ?a"
    using assms control_fields(10) [OF before_idle_frame(1)] by simp
  then have "channels (idle_motion fpu ?a) = channels st"
    by (simp add: channels_idle before_idle_frame)
  then show ?thesis
    by (simp add: secondary_motion_def heart_decay_frame sparkle_frame)
qed

lemma eyes_secondary:
  assumes "is_blinking st \<or> \<not> transition_done st \<or> current_emotion st \<notin> eye_idle_emotions"
  shows "eyes (secondary_motion fpu st) = eyes st"
proof -
  let ?a = "diamond_step (sweat_step (tear_step (pupil_motion fpu (bump_counters st))))"
  have "is_blinking ?a \<or> \<not> transition_done ?a \<or> current_emotion ?a \<notin> eye_idle_emotions"
    using assms control_fields(2,4,10) [OF before_idle_frame(1)] by simp
  then have "eyes (idle_motion fpu ?a) = eyes st"
    by (simp add: eyes_idle before_idle_frame)
  then show ?thesis
    by (simp add: secondary_motion_def heart_decay_frame sparkle_frame)
qed

lemma heart_decay_cong:
  assumes "current_emotion a = current_emotion b" "heart a = heart b"
  shows "heart (heart_decay a) = heart (heart_decay b)"
  using assms by (simp add: heart_def heart_decay_def Let_def)

lemma heart_secondary:
  assumes "current_emotion st \<noteq> FACE_LOVE"
  shows "heart (secondary_motion fpu st) = heart (heart_decay st)"
proof -
  let ?a = "diamond_step (sweat_step (tear_step (pupil_motion fpu (bump_counters st))))"
  have e: "current_emotion ?a = current_emotion st"
    by (rule control_fields(4) [OF before_idle_frame(1)])
  have e2: "current_emotion (sparkle_decay (idle_motion fpu ?a)) = current_emotion st"
    using control_fields(4) [OF sparkle_frame(1)] control_fields(4) [OF control_idle] e
    by simp
  have "heart (idle_motion fpu ?a) = heart st"
    using assms e by (simp add: heart_idle before_idle_frame)
  then have "heart (sparkle_decay (idle_motion fpu ?a)) = heart st"
    by (simp add: sparkle_frame)
  then show ?thesis
    unfolding secondary_motion_def by (rule heart_decay_cong [OF e2])
qed

text \<open>One callback, reduced to its opening chain.\<close>

lemma tick_control:
  "initialized st \<Longrightarrow>
   control (animation_timer_cb fpu t st) = control (blink_or_transition t st)"
  by (simp add: animation_timer_cb_def control_secondary)

lemma tick_channels:
  "initialized st \<Longrightarrow> \<not> transition_done (blink_or_transition t st) \<Longrightarrow>
   channels (animation_timer_cb fpu t st) = channels (blink_or_transition t st)"
  by (simp add: animation_timer_cb_def channels_secondary)

lemma tick_eyes:
  "initialized st \<Longrightarrow>
   is_blinking (blink_or_transition t st) \<or> \<not> transition_done (blink_or_transition t st)
     \<or> current_emotion (blink_or_transition t st) \<notin> eye_idle_emotions \<Longrightarrow>
   eyes (animation_timer_cb fpu t st) = eyes (blink_or_transition t st)"
  by (simp add: animation_timer_cb_def eyes_secondary)

lemma tick_heart:
  "initialized st \<Longrightarrow> current_emotion (blink_or_transition t st) \<noteq> FACE_LOVE \<Longrightarrow>
   heart (animation_timer_cb fpu t st) = heart (heart_decay (blink_or_transition t st))"
  by (simp add: animation_timer_cb_def heart_secondary)

subsection \<open>Blinking ticks\<close>

lemma blink_step_control:
  "control (blink_step t st) =
     (initialized st,
      (if 100 \<le> blink_phase st + 20 then False else is_blinking st),
      (if 100 \<le> blink_phase st + 20 then 0 else blink_phase st + 20),
      current_emotion st, target_emotion st, transition_progress st,
      (if 100 \<le> blink_phase st + 20 then t else last_blink_time st),
      config_auto_blink st, config_blink_interval st)"
  by (simp add: control_def blink_step_def Let_def)

lemma blink_step_eyes:
  "eyes (blink_step t st) =
     (let ph = (if 100 \<le> blink_phase st + 20 then 0 else blink_phase st + 20);
          v = (if ph < 50 then 100 - ph * 2 else (ph - 50) * 2)
      in (v, v))"
  by (simp add: eyes_def blink_step_def Let_def)

lemma blinking_tick:
  assumes "control st = (True, True, ph, c, g, p, lb, ab, bi)"
  shows "control (animation_timer_cb fpu t st) =
           (True, \<not> 100 \<le> ph + 20, (if 100 \<le> ph + 20 then 0 else ph + 20), c, g, p,
            (if 100 \<le> ph + 20 then t else lb), ab, bi)"
    and "\<not> 100 \<le> ph + 20 \<or> p \<noteq> 100 \<or> c \<notin> eye_idle_emotions \<Longrightarrow>
         eyes (animation_timer_cb fpu t st) =
           (let ph' = (if 100 \<le> ph + 20 then 0 else ph + 20);
                v = (if ph' < 50 then 100 - ph' * 2 else (ph' - 50) * 2)
            in (v, v))"
proof -
  have f: "initialized st" "is_blinking st" "blink_phase st = ph" "current_emotion st = c"
    "target_emotion st = g" "transition_progress st = p" "last_blink_time st = lb"
    "config_auto_blink st = ab" "config_blink_interval st = bi"
    using assms by (simp_all add: control_def)
  have b: "blink_or_transition t st = blink_step t st"
    by (simp add: blink_or_transition_def f)
  show c: "control (animation_timer_cb fpu t st) =
           (True, \<not> 100 \<le> ph + 20, (if 100 \<le> ph + 20 then 0 else ph + 20), c, g, p,
            (if 100 \<le> ph + 20 then t else lb), ab, bi)"
    by (simp add: tick_control f b blink_step_control)
  assume "\<not> 100 \<le> ph + 20 \<or> p \<noteq> 100 \<or> c \<notin> eye_idle_emotions"
  then have "is_blinking (blink_step t st) \<or> \<not> transition_done (blink_step t st)
     \<or> current_emotion (blink_step t st) \<notin> eye_idle_emotions"
    using blink_step_control [of t st]
    by (auto simp add: control_def transition_done_def f)
  then show "eyes (animation_timer_cb fpu t st) =
           (let ph' = (if 100 \<le> ph + 20 then 0 else ph + 20);
                v = (if ph' < 50 then 100 - ph' * 2 else (ph' - 50) * 2)
            in (v, v))"
    by (simp add: tick_eyes f b blink_step_eyes)
qed





subsection \<open>Transition ticks\<close>

lemma lookup_control: "control (snd (update_emotion_parameters e st)) = control st"
  by (subst lookup_state) (simp add: control_def)

lemma lookup_fields:
  "transition_progress (snd (update_emotion_parameters e st)) = transition_progress st"
  "current_emotion (snd (update_emotion_parameters e st)) = current_emotion st"
  "target_emotion (snd (update_emotion_parameters e st)) = target_emotion st"
  by (rule control_fields [OF lookup_control])+

lemma transition_step_control:
  "control (transition_step st) =
     (initialized st, is_blinking st, blink_phase st,
      (if 100 \<le> transition_progress st + 10 then target_emotion st else current_emotion st),
      target_emotion st,
      (if 100 \<le> transition_progress st + 10 then 100 else transition_progress st + 10),
      last_blink_time st, config_auto_blink st, config_blink_interval st)"
  by (simp add: transition_step_def Let_def split_def)
     (simp add: control_def control_fields [OF lookup_control])

lemma transition_step_channels:
  "channels (transition_step st) =
     blend (profile_of (if 100 \<le> transition_progress st + 10
                        then target_emotion st else current_emotion st))
           (profile_of (target_emotion st))
           (if 100 \<le> transition_progress st + 10 then 100 else transition_progress st + 10)"
  by (simp add: transition_step_def Let_def split_def)
     (simp add: channels_def blend_def lookup_outputs lookup_fields)

lemma p_lt_90: "(p :: 8 word) < 90 \<Longrightarrow> \<not> 100 \<le> p + 10"
  by unat_arith

lemma blend_same: "blend c c p = c"
  by (simp add: blend_def lerp_u8_def lerp_s8_def mk_params_def)

lemma transition_tick:
  assumes "control st = (True, False, bp, c, g, p, lb, ab, bi)"
    and "c \<noteq> g" and "p < 100" and "\<not> (ab \<and> t - lb > bi)"
  shows "control (animation_timer_cb fpu t st) =
           (True, False, bp, (if 100 \<le> p + 10 then g else c), g,
            (if 100 \<le> p + 10 then 100 else p + 10), lb, ab, bi)"
    and "channels (blink_or_transition t st) =
           blend (profile_of (if 100 \<le> p + 10 then g else c)) (profile_of g)
                 (if 100 \<le> p + 10 then 100 else p + 10)"
    and "\<not> 100 \<le> p + 10 \<Longrightarrow>
         channels (animation_timer_cb fpu t st) = blend (profile_of c) (profile_of g) (p + 10)"
proof -
  have f: "initialized st" "\<not> is_blinking st" "blink_phase st = bp" "current_emotion st = c"
    "target_emotion st = g" "transition_progress st = p" "last_blink_time st = lb"
    "config_auto_blink st = ab" "config_blink_interval st = bi"
    using assms(1) by (simp_all add: control_def)
  have b: "blink_or_transition t st = transition_step st"
    using assms(2-4) by (auto simp add: blink_or_transition_def auto_blink_due_def f)
  show "control (animation_timer_cb fpu t st) =
           (True, False, bp, (if 100 \<le> p + 10 then g else c), g,
            (if 100 \<le> p + 10 then 100 else p + 10), lb, ab, bi)"
    by (simp add: tick_control f b transition_step_control)
  show ch: "channels (blink_or_transition t st) =
           blend (profile_of (if 100 \<le> p + 10 then g else c)) (profile_of g)
                 (if 100 \<le> p + 10 then 100 else p + 10)"
    by (simp add: b transition_step_channels f)
  assume n: "\<not> 100 \<le> p + 10"
  have "p + 10 \<noteq> 100"
    using n by auto
  then have "\<not> transition_done (blink_or_transition t st)"
    using n transition_step_control [of st]
    by (simp add: b transition_done_def control_def f)
  then show "channels (animation_timer_cb fpu t st) = blend (profile_of c) (profile_of g) (p + 10)"
    using ch n by (simp add: tick_channels f)
qed


lemma run_ticks_append:
  "run_ticks fpu (ts @ us) st = run_ticks fpu us (run_ticks fpu ts st)"
  by (induction ts arbitrary: st) simp_all

lemma unat_tens: "n \<le> 10 \<Longrightarrow> unat (10 * of_nat n :: 8 word) = 10 * n"
proof -
  assume "n \<le> 10"
  then have "unat (of_nat (10 * n) :: 8 word) = 10 * n"
    by (subst unat_of_nat) simp
  then show ?thesis by simp
qed

lemma tens_below:
  assumes "n \<le> 8"
  shows "(10 * of_nat n :: 8 word) < 100"
    and "\<not> 100 \<le> (10 * of_nat n :: 8 word) + 10"
proof -
  show "(10 * of_nat n :: 8 word) < 100"
    using assms unat_tens [of n] by (simp add: word_less_nat_alt)
  have "(10 * of_nat n :: 8 word) + 10 = 10 * of_nat (Suc n)"
    by simp
  moreover have "unat (10 * of_nat (Suc n) :: 8 word) = 10 * Suc n"
    using assms by (intro unat_tens) simp
  ultimately show "\<not> 100 \<le> (10 * of_nat n :: 8 word) + 10"
    using assms by (simp only: word_le_nat_alt) simp
qed

lemma transition_run:
  assumes "control s = (True, False, bp, c, g, 0, lb, ab, bi)"
    and "c \<noteq> g"
  shows "(\<forall>t \<in> set ts. \<not> (ab \<and> t - lb > bi)) \<Longrightarrow> length ts \<le> 9 \<Longrightarrow>
         control (run_ticks fpu ts s) =
           (True, False, bp, c, g, 10 * of_nat (length ts), lb, ab, bi)
         \<and> (ts \<noteq> [] \<longrightarrow> channels (run_ticks fpu ts s) =
              blend (profile_of c) (profile_of g) (10 * of_nat (length ts)))"
proof (induction ts rule: rev_induct)
  case Nil
  then show ?case using assms(1) by simp
next
  case (snoc t ts)
  let ?m = "run_ticks fpu ts s"
  have len: "length ts \<le> 8" using snoc.prems(2) by simp
  have c: "control ?m = (True, False, bp, c, g, 10 * of_nat (length ts), lb, ab, bi)"
    using snoc.IH snoc.prems by simp
  have due: "\<not> (ab \<and> t - lb > bi)" using snoc.prems(1) by simp
  note below = tens_below [OF len]
  have step: "(10 * of_nat (length ts) :: 8 word) + 10 = 10 * of_nat (length (ts @ [t]))"
    by simp
  have "control (animation_timer_cb fpu t ?m) =
          (True, False, bp, c, g, 10 * of_nat (length ts) + 10, lb, ab, bi)"
    using transition_tick(1) [OF c assms(2) below(1) due, of fpu] below(2) by simp
  moreover have "channels (animation_timer_cb fpu t ?m) =
          blend (profile_of c) (profile_of g) (10 * of_nat (length ts) + 10)"
    using transition_tick(3) [OF c assms(2) below(1) due below(2), of fpu] .
  ultimately show ?case
    unfolding run_ticks_append step by simp
qed

lemma set_emotion_smooth:
  assumes "initialized st" "emotion_code e < emotion_code FACE_EMOTION_COUNT"
  shows "control (face_set_emotion e True st) =
           (True, is_blinking st, blink_phase st, current_emotion st, e, 0,
            last_blink_time st, config_auto_blink st, config_blink_interval st)"
    and "channels (face_set_emotion e True st) = channels st"
  using assms by (simp_all add: face_set_emotion_def control_def channels_def)

lemma set_emotion_now:
  assumes "initialized st" "emotion_code e < emotion_code FACE_EMOTION_COUNT"
  shows "control (face_set_emotion e False st) =
           (True, is_blinking st, blink_phase st, e, e, 100,
            last_blink_time st, config_auto_blink st, config_blink_interval st)"
    and "channels (face_set_emotion e False st) = profile_of e"
  using assms
  by (simp_all add: face_set_emotion_def Let_def split_def control_def channels_def
      control_fields [OF lookup_control] lookup_outputs mk_params_def)

text \<open>The started face, and a run of ticks after a smooth \<open>face_set_emotion\<close>.\<close>

lemma started_control:
  "control face_state_started = (True, False, 0, FACE_NEUTRAL, FACE_NEUTRAL, 100, 0, True, 3000)"
  by (simp add: face_state_started_eq control_def)

lemma control_initialized: "control st = (True, b, ph, c, g, p, lb, ab, bi) \<Longrightarrow> initialized st"
  by (simp add: control_def)

lemma smooth_start:
  assumes "initialized st" "\<not> is_blinking st"
    "emotion_code e < emotion_code FACE_EMOTION_COUNT"
  shows "control (face_set_emotion e True st) =
           (True, False, blink_phase st, current_emotion st, e, 0,
            last_blink_time st, config_auto_blink st, config_blink_interval st)"
  using set_emotion_smooth(1) [OF assms(1,3)] assms(2) by simp

lemma retarget_run:
  assumes "initialized st" "\<not> is_blinking st"
    and "emotion_code e < emotion_code FACE_EMOTION_COUNT"
    and "e \<noteq> current_emotion st"
    and "length ts \<le> 9"
    and "\<forall>t \<in> set ts. \<not> auto_blink_due t st"
  shows "control (run_ticks fpu ts (face_set_emotion e True st)) =
           (True, False, blink_phase st, current_emotion st, e, 10 * of_nat (length ts),
            last_blink_time st, config_auto_blink st, config_blink_interval st)"
    and "ts \<noteq> [] \<Longrightarrow> channels (run_ticks fpu ts (face_set_emotion e True st)) =
           blend (profile_of (current_emotion st)) (profile_of e) (10 * of_nat (length ts))"
proof -
  have d: "\<forall>t \<in> set ts. \<not> (config_auto_blink st \<and>
             t - last_blink_time st > config_blink_interval st)"
    using assms(6) by (simp add: auto_blink_due_def)
  have n: "current_emotion st \<noteq> e" using assms(4) by simp
  note r = transition_run [OF smooth_start [OF assms(1-3)] n d assms(5), of fpu]
  show "control (run_ticks fpu ts (face_set_emotion e True st)) =
           (True, False, blink_phase st, current_emotion st, e, 10 * of_nat (length ts),
            last_blink_time st, config_auto_blink st, config_blink_interval st)"
    using r by simp
  assume "ts \<noteq> []"
  then show "channels (run_ticks fpu ts (face_set_emotion e True st)) =
           blend (profile_of (current_emotion st)) (profile_of e) (10 * of_nat (length ts))"
    using r by simp
qed

text \<open>A tick at which auto-blink is due, and ten ticks of a smooth transition.\<close>

lemma auto_blink_tick:
  assumes "control st = (True, False, bp, c, g, p, lb, ab, bi)"
    and "ab \<and> t - lb > bi"
  shows "control (animation_timer_cb fpu t st) = (True, True, 0, c, g, p, lb, ab, bi)"
proof -
  have f: "initialized st" "\<not> is_blinking st" "blink_phase st = bp" "current_emotion st = c"
    "target_emotion st = g" "transition_progress st = p" "last_blink_time st = lb"
    "config_auto_blink st = ab" "config_blink_interval st = bi"
    using assms(1) by (simp_all add: control_def)
  have b: "blink_or_transition t st = face_trigger_blink st"
    using assms(2) by (simp add: blink_or_transition_def auto_blink_due_def f)
  have "control (animation_timer_cb fpu t st) = control (face_trigger_blink st)"
    by (simp add: tick_control f b)
  then show ?thesis
    by (simp add: control_def face_trigger_blink_def f)
qed

lemma now_then_smooth:
  assumes "initialized st" "\<not> is_blinking st"
    and "emotion_code e1 < emotion_code FACE_EMOTION_COUNT"
  shows "initialized (face_set_emotion e1 False st)"
    and "\<not> is_blinking (face_set_emotion e1 False st)"
    and "current_emotion (face_set_emotion e1 False st) = e1"
    and "blink_phase (face_set_emotion e1 False st) = blink_phase st"
    and "last_blink_time (face_set_emotion e1 False st) = last_blink_time st"
    and "config_auto_blink (face_set_emotion e1 False st) = config_auto_blink st"
    and "config_blink_interval (face_set_emotion e1 False st) = config_blink_interval st"
    and "auto_blink_due t (face_set_emotion e1 False st) = auto_blink_due t st"
  using set_emotion_now(1) [OF assms(1,3)] assms(2)
  by (simp_all add: control_def auto_blink_due_def)

lemma ten_ticks:
  assumes "length ts = 10"
  shows "ts = butlast ts @ [last ts]" "length (butlast ts) = 9" "last ts \<in> set ts"
    "set (butlast ts) \<subseteq> set ts"
proof -
  have ne: "ts \<noteq> []" using assms by auto
  show "ts = butlast ts @ [last ts]" using ne by simp
  show "length (butlast ts) = 9" using assms by simp
  show "last ts \<in> set ts" using ne by simp
  show "set (butlast ts) \<subseteq> set ts" by (auto dest: in_set_butlastD)
qed

lemma smooth_transition_run:
  assumes "initialized st" "\<not> is_blinking st"
    and "emotion_code e1 < emotion_code FACE_EMOTION_COUNT"
    and "emotion_code e2 < emotion_code FACE_EMOTION_COUNT"
    and "e1 \<noteq> e2"
    and "length ts = 10"
    and "\<forall>t \<in> set ts. \<not> auto_blink_due t st"
  shows "k \<le> 9 \<Longrightarrow>
         control (run_ticks fpu (take k ts)
            (face_set_emotion e2 True (face_set_emotion e1 False st))) =
           (True, False, blink_phase st, e1, e2, 10 * of_nat k,
            last_blink_time st, config_auto_blink st, config_blink_interval st)"
    and "control (run_ticks fpu ts
            (face_set_emotion e2 True (face_set_emotion e1 False st))) =
           (True, False, blink_phase st, e2, e2, 100,
            last_blink_time st, config_auto_blink st, config_blink_interval st)"
    and "channels (blink_or_transition (last ts) (run_ticks fpu (butlast ts)
            (face_set_emotion e2 True (face_set_emotion e1 False st)))) = profile_of e2"
proof -
  define s1 where "s1 = face_set_emotion e1 False st"
  note n = now_then_smooth [OF assms(1-3), folded s1_def]
  have ne: "e2 \<noteq> current_emotion s1" using assms(5) n(3) by simp
  have run: "length us \<le> 9 \<Longrightarrow> set us \<subseteq> set ts \<Longrightarrow>
      control (run_ticks fpu us (face_set_emotion e2 True s1)) =
        (True, False, blink_phase st, e1, e2, 10 * of_nat (length us),
         last_blink_time st, config_auto_blink st, config_blink_interval st)" for us
  proof -
    assume l: "length us \<le> 9" and sub: "set us \<subseteq> set ts"
    have d: "\<forall>t \<in> set us. \<not> auto_blink_due t s1"
      using sub assms(7) n(8) by auto
    show ?thesis
      using retarget_run(1) [OF n(1,2) assms(4) ne l d, of fpu] n by simp
  qed
  show "control (run_ticks fpu (take k ts) (face_set_emotion e2 True (face_set_emotion e1 False st))) =
           (True, False, blink_phase st, e1, e2, 10 * of_nat k,
            last_blink_time st, config_auto_blink st, config_blink_interval st)"
    if "k \<le> 9"
  proof -
    have "length (take k ts) = k" using that assms(6) by simp
    moreover have "set (take k ts) \<subseteq> set ts" by (rule set_take_subset)
    ultimately show ?thesis
      using run [of "take k ts"] that unfolding s1_def by simp
  qed
  note t = ten_ticks [OF assms(6)]
  define m where "m = run_ticks fpu (butlast ts) (face_set_emotion e2 True s1)"
  have cm: "control m = (True, False, blink_phase st, e1, e2, 90,
         last_blink_time st, config_auto_blink st, config_blink_interval st)"
    unfolding m_def using run [of "butlast ts"] t(2,4) by simp
  have due: "\<not> (config_auto_blink st \<and>
               last ts - last_blink_time st > config_blink_interval st)"
    using assms(7) t(3) by (auto simp add: auto_blink_due_def)
  have p: "(90 :: 8 word) < 100" by simp
  have whole: "run_ticks fpu ts (face_set_emotion e2 True s1) =
                 animation_timer_cb fpu (last ts) m"
    unfolding m_def by (subst t(1)) (simp only: run_ticks_append run_ticks.simps)
  show "control (run_ticks fpu ts (face_set_emotion e2 True (face_set_emotion e1 False st))) =
           (True, False, blink_phase st, e2, e2, 100,
            last_blink_time st, config_auto_blink st, config_blink_interval st)"
    using transition_tick(1) [OF cm assms(5) p due, of fpu] whole
    unfolding s1_def by simp
  show "channels (blink_or_transition (last ts) (run_ticks fpu (butlast ts)
            (face_set_emotion e2 True (face_set_emotion e1 False st)))) = profile_of e2"
    using transition_tick(2) [OF cm assms(5) p due]
    unfolding m_def s1_def by (simp add: blend_same)
qed

subsection \<open>The heartbeat in a tick without a transition step\<close>

lemma blink_step_heart: "heart (blink_step t st) = heart st"
  by (simp add: heart_def blink_step_def Let_def)

lemma trigger_heart: "heart (face_trigger_blink st) = heart st"
  by (simp add: heart_def face_trigger_blink_def)

lemma blink_step_emotion: "current_emotion (blink_step t st) = current_emotion st"
  by (simp add: blink_step_def Let_def)

lemma trigger_emotion: "current_emotion (face_trigger_blink st) = current_emotion st"
  by (simp add: face_trigger_blink_def)

lemma quiet_chain:
  assumes "\<not> steps_transition t st"
  shows "heart (blink_or_transition t st) = heart st"
    and "current_emotion (blink_or_transition t st) = current_emotion st"
proof -
  consider (blink) "is_blinking st"
    | (due) "\<not> is_blinking st" "auto_blink_due t st"
    | (rest) "\<not> is_blinking st" "\<not> auto_blink_due t st"
        "\<not> (current_emotion st \<noteq> target_emotion st \<and> transition_progress st < 100)"
    using assms by (auto simp add: steps_transition_def)
  then have "blink_or_transition t st = blink_step t st
     \<or> blink_or_transition t st = face_trigger_blink st
     \<or> blink_or_transition t st = st"
    by cases (auto simp add: blink_or_transition_def)
  then show "heart (blink_or_transition t st) = heart st"
    and "current_emotion (blink_or_transition t st) = current_emotion st"
    by (auto simp add: blink_step_heart trigger_heart blink_step_emotion trigger_emotion)
qed

lemma heart_decay_heart:
  assumes "current_emotion st \<noteq> FACE_LOVE"
  shows "heart (heart_decay st) =
     (if heart_beat_phase st > 0
      then (let h = heart_beat_phase st + heart_direction st * 5
            in if h \<le> 0 then (0, 1) else if h \<ge> 100 then (100, - 1)
               else (h, heart_direction st))
      else heart st)"
  using assms by (simp add: heart_def heart_decay_def Let_def)

lemma quiet_tick_heart:
  assumes "initialized st" "current_emotion st \<noteq> FACE_LOVE" "\<not> steps_transition t st"
  shows "heart (animation_timer_cb fpu t st) =
     (if heart_beat_phase st > 0
      then (let h = heart_beat_phase st + heart_direction st * 5
            in if h \<le> 0 then (0, 1) else if h \<ge> 100 then (100, - 1)
               else (h, heart_direction st))
      else heart st)"
proof -
  note q = quiet_chain [OF assms(3)]
  have e: "current_emotion (blink_or_transition t st) \<noteq> FACE_LOVE"
    using assms(2) q(2) by simp
  have "heart (animation_timer_cb fpu t st) = heart (heart_decay (blink_or_transition t st))"
    by (rule tick_heart [OF assms(1) e])
  also have "\<dots> = heart (heart_decay st)"
    by (rule heart_decay_cong [OF q(2) q(1)])
  finally show ?thesis
    by (simp add: heart_decay_heart [OF assms(2)])
qed

lemma down5:
  fixes h :: "8 word"
  assumes "5 \<le> h" "h \<le> 100"
  shows "uint (h - 5) = uint h - 5" and "\<not> 100 \<le> h - 5" and "(h - 5 \<le> 0) = (h = 5)"
    and "0 < h"
proof -
  show "uint (h - 5) = uint h - 5" using assms by uint_arith
  show "\<not> 100 \<le> h - 5" using assms by uint_arith
  show "(h - 5 \<le> 0) = (h = 5)" using assms by uint_arith
  show "0 < h" using assms by uint_arith
qed

lemma up5:
  fixes h :: "8 word"
  assumes "0 < h" "h \<le> 100"
  shows "uint (h + 5) = uint h + 5" and "\<not> h + 5 \<le> 0" and "(100 \<le> h + 5) = (95 \<le> h)"
proof -
  have b: "uint h \<le> 100" "0 < uint h"
    using assms by (simp_all add: word_le_def word_less_def)
  have "uint (h + 5) = (uint h + 5) mod 2 ^ 8"
    by (simp add: uint_word_ariths)
  also have "\<dots> = uint h + 5"
    using b by simp
  finally show u: "uint (h + 5) = uint h + 5" .
  show "\<not> h + 5 \<le> 0"
    using b by (simp add: word_le_def u)
  show "(100 \<le> h + 5) = (95 \<le> h)"
    using b by (auto simp add: word_le_def u)
qed

text \<open>
  A heartbeat of 1 to 4 with direction \<open>-1\<close>: the \<open>uint8_t\<close> sum wraps past 0 to 252
  and above, the test \<open><= 0\<close> fails and the test \<open>>= 100\<close> holds.
\<close>

lemma wrap5:
  fixes h :: "8 word"
  assumes "0 < h" "h < 5"
  shows "uint (h - 5) = uint h + 251"
proof -
  have b: "0 < uint h" "uint h < 5"
    using assms by (simp_all add: word_less_def)
  have "uint (h - 5) = (uint h - 5) mod 256"
    by (simp add: uint_word_ariths)
  also have "\<dots> = (uint h - 5 + 256) mod 256"
    by (simp only: mod_add_self2)
  also have "\<dots> = uint h + 251"
    using b by simp
  finally show ?thesis .
qed

lemma heart_wraps_below_5:
  assumes "initialized st" "current_emotion st \<noteq> FACE_LOVE" "\<not> steps_transition t st"
    and "heart_direction st = - 1" "0 < heart_beat_phase st" "heart_beat_phase st < 5"
  shows "heart (animation_timer_cb fpu t st) = (100, - 1)"
proof -
  have b: "0 < uint (heart_beat_phase st)" "uint (heart_beat_phase st) < 5"
    using assms(5,6) by (simp_all add: word_less_def)
  have w: "\<not> heart_beat_phase st - 5 \<le> 0" "100 \<le> heart_beat_phase st - 5"
    using b by (simp_all add: word_le_def wrap5 [OF assms(5,6)])
  have "heart (animation_timer_cb fpu t st) =
     (let h = heart_beat_phase st - 5
      in if h \<le> 0 then (0, 1) else if h \<ge> 100 then (100, - 1) else (h, - 1))"
    using quiet_tick_heart [OF assms(1-3), of fpu] assms(4,5) by (simp add: Let_def)
  then show ?thesis
    using w by (simp add: Let_def)
qed

lemma quiet_tick_control:
  assumes "control st = (True, False, bp, c, c, p, lb, ab, bi)"
    and "\<not> (ab \<and> t - lb > bi)"
  shows "control (animation_timer_cb fpu t st) = (True, False, bp, c, c, p, lb, ab, bi)"
    and "\<not> steps_transition t st"
proof -
  have f: "initialized st" "\<not> is_blinking st" "current_emotion st = c"
    "target_emotion st = c" "last_blink_time st = lb"
    "config_auto_blink st = ab" "config_blink_interval st = bi"
    using assms(1) by (simp_all add: control_def)
  have b: "blink_or_transition t st = st"
    using assms(2) by (auto simp add: blink_or_transition_def auto_blink_due_def f)
  show "control (animation_timer_cb fpu t st) = (True, False, bp, c, c, p, lb, ab, bi)"
    using assms(1) by (simp add: tick_control f b)
  show "\<not> steps_transition t st"
    by (simp add: steps_transition_def f)
qed

lemma set_happy_heart:
  assumes "initialized st"
  shows "heart (face_set_emotion FACE_HAPPY False st) = (40, heart_direction st)"
  using assms by (simp add: face_set_emotion_def heart_def set_effects_def)

lemma happy_quiet_tick:
  assumes "control st = (True, False, 0, FACE_HAPPY, FACE_HAPPY, 100, 0, True, 3000)"
    and "t \<le> 3000"
    and "heart st = (h, d)"
  shows "control (animation_timer_cb fpu t st) =
           (True, False, 0, FACE_HAPPY, FACE_HAPPY, 100, 0, True, 3000)"
    and "heart (animation_timer_cb fpu t st) =
           (if h > 0
            then (let k = h + d * 5
                  in if k \<le> 0 then (0, 1) else if k \<ge> 100 then (100, - 1) else (k, d))
            else (h, d))"
proof -
  have due: "\<not> (True \<and> t - 0 > (3000 :: 32 word))"
    using assms(2) by simp
  note q = quiet_tick_control [OF assms(1) due]
  show "control (animation_timer_cb fpu t st) =
           (True, False, 0, FACE_HAPPY, FACE_HAPPY, 100, 0, True, 3000)"
    by (rule q(1))
  have i: "initialized st" "current_emotion st \<noteq> FACE_LOVE"
    using assms(1) by (simp_all add: control_def)
  have hd: "heart_beat_phase st = h" "heart_direction st = d"
    using assms(3) by (simp_all add: heart_def)
  show "heart (animation_timer_cb fpu t st) =
           (if h > 0
            then (let k = h + d * 5
                  in if k \<le> 0 then (0, 1) else if k \<ge> 100 then (100, - 1) else (k, d))
            else (h, d))"
    using quiet_tick_heart [OF i q(2), of fpu] by (simp add: hd heart_def Let_def)
qed

subsection \<open>The channel ranges are kept by every operation\<close>

lemma sdiv_100_between:
  fixes a b p :: int
  assumes "0 \<le> p" "p \<le> 100"
  shows "min a b \<le> a + ((b - a) * p) sdiv 100" "a + ((b - a) * p) sdiv 100 \<le> max a b"
proof -
  have "min a b \<le> a + ((b - a) * p) sdiv 100 \<and> a + ((b - a) * p) sdiv 100 \<le> max a b"
  proof (cases "a \<le> b")
    case True
    then have k: "0 \<le> (b - a) * p" using assms by simp
    have le: "(b - a) * p \<le> (b - a) * 100"
      using True assms by (intro mult_left_mono) simp_all
    have "((b - a) * p) sdiv 100 = ((b - a) * p) div 100"
      using k by (simp add: signed_divide_int_def sgn_if)
    moreover have "0 \<le> ((b - a) * p) div 100" using k by simp
    moreover have "((b - a) * p) div 100 \<le> b - a"
      using le by (simp add: zdiv_mono1 [of _ "(b - a) * 100" 100, simplified])
    ultimately show ?thesis using True by simp
  next
    case False
    then have k: "0 \<le> (a - b) * p" using assms by simp
    have le: "(a - b) * p \<le> (a - b) * 100"
      using False assms by (intro mult_left_mono) simp_all
    have eq: "(b - a) * p = - ((a - b) * p)" by (simp add: algebra_simps)
    have "((b - a) * p) sdiv 100 = - (((a - b) * p) div 100)"
      unfolding eq using k by (simp add: signed_divide_int_def sgn_if)
    moreover have "0 \<le> ((a - b) * p) div 100" using k by simp
    moreover have "((a - b) * p) div 100 \<le> a - b"
      using le by (simp add: zdiv_mono1 [of _ "(a - b) * 100" 100, simplified])
    ultimately show ?thesis using False by simp
  qed
  then show "min a b \<le> a + ((b - a) * p) sdiv 100" "a + ((b - a) * p) sdiv 100 \<le> max a b"
    by simp_all
qed

lemma u8_of_int: "0 \<le> v \<Longrightarrow> v \<le> 255 \<Longrightarrow> uint (word_of_int v :: 8 word) = v"
  by (simp add: uint_word_of_int)

lemma s8_of_int: "- 128 \<le> v \<Longrightarrow> v \<le> 127 \<Longrightarrow> sint (word_of_int v :: 8 word) = v"
  by (simp add: int_word_sint)

lemma u8_in: "0 \<le> v \<Longrightarrow> v \<le> 100 \<Longrightarrow> (word_of_int v :: 8 word) \<le> 100"
  by (simp add: word_le_def u8_of_int)

lemma s8_in:
  "- 100 \<le> v \<Longrightarrow> v \<le> 115 \<Longrightarrow>
   - 100 \<le> sint (word_of_int v :: 8 word) \<and> sint (word_of_int v :: 8 word) \<le> 115"
  by (simp add: s8_of_int)

lemma u8_off:
  "0 \<le> c + v \<Longrightarrow> c + v \<le> 100 \<Longrightarrow> (word_of_int c + word_of_int v :: 8 word) \<le> 100"
  using u8_in [of "c + v"] by simp

lemma s8_off:
  "- 100 \<le> c + v \<Longrightarrow> c + v \<le> 115 \<Longrightarrow>
   - 100 \<le> sint (word_of_int c + word_of_int v :: 8 word)
   \<and> sint (word_of_int c + word_of_int v :: 8 word) \<le> 115"
  using s8_in [of "c + v"] by simp

lemma lerp_u8_le:
  assumes "a \<le> 100" "b \<le> 100" "p \<le> 100"
  shows "lerp_u8 a b p \<le> 100"
proof -
  have r: "uint a \<le> 100" "uint b \<le> 100" "uint p \<le> 100" "0 \<le> uint a" "0 \<le> uint b" "0 \<le> uint p"
    using assms by (simp_all add: word_le_def)
  note s = sdiv_100_between [OF r(6) r(3), of "uint a" "uint b"]
  show ?thesis
    unfolding lerp_u8_def
  proof (rule u8_in)
    show "0 \<le> uint a + ((uint b - uint a) * uint p) sdiv 100"
      using s(1) uint_ge_0 [of a] uint_ge_0 [of b] by linarith
    show "uint a + ((uint b - uint a) * uint p) sdiv 100 \<le> 100"
      using s(2) r(1,2) by linarith
  qed
qed

lemma lerp_s8_in:
  assumes "- 100 \<le> sint a" "sint a \<le> 115" "- 100 \<le> sint b" "sint b \<le> 115" "p \<le> 100"
  shows "- 100 \<le> sint (lerp_s8 a b p) \<and> sint (lerp_s8 a b p) \<le> 115"
proof -
  have r: "uint p \<le> 100" "0 \<le> uint p"
    using assms by (simp_all add: word_le_def)
  note s = sdiv_100_between [OF r(2) r(1), of "sint a" "sint b"]
  show ?thesis
    unfolding lerp_s8_def
  proof (rule s8_in)
    show "- 100 \<le> sint a + ((sint b - sint a) * uint p) sdiv 100"
      using s(1) assms(1,3) by linarith
    show "sint a + ((sint b - sint a) * uint p) sdiv 100 \<le> 115"
      using s(2) assms(2,4) by linarith
  qed
qed

lemma profile_in_range:
  "out_left_eye (profile_of e) \<le> 100" "out_right_eye (profile_of e) \<le> 100"
  "- 100 \<le> sint (out_mouth (profile_of e))" "sint (out_mouth (profile_of e)) \<le> 115"
  by (cases e; simp add: profile_of_def mk_params_def)+

lemma ucast_16_8: "(ucast (word_of_int k :: 16 word) :: 8 word) = word_of_int k"
  by (rule ucast_down_wi) (simp add: is_down)

lemma ucast_sub16:
  "0 \<le> c - v \<Longrightarrow> c - v \<le> 100 \<Longrightarrow>
   (ucast (word_of_int c - word_of_int v :: 16 word) :: 8 word) \<le> 100"
proof -
  assume a: "0 \<le> c - v" "c - v \<le> 100"
  have "(word_of_int c - word_of_int v :: 16 word) = word_of_int (c - v)" by simp
  then show ?thesis using u8_in [OF a] by (simp only: ucast_16_8)
qed

lemma cool_open:
  fixes q :: "8 word"
  shows "48 - (if q > 38 then 38 else q) \<le> 100"
proof -
  have "r \<le> 38 \<Longrightarrow> 48 - r \<le> 100" for r :: "8 word"
    by uint_arith
  then show ?thesis by (simp add: word_le_def word_less_def)
qed

lemma channels_in_range_cong:
  "channels a = channels b \<Longrightarrow> channels_in_range a = channels_in_range b"
  by (simp add: channels_def channels_in_range_def mk_params_def)

lemma amplitude:
  assumes "fpu_in_amplitude fpu"
  shows "0 \<le> fpu ''13 * fabsf(sinf(bounce_counter * 0.28f))'' n"
    "fpu ''13 * fabsf(sinf(bounce_counter * 0.28f))'' n \<le> 13"
    "0 \<le> fpu ''8 * fabsf(sinf(bounce_counter * 0.28f))'' n"
    "fpu ''8 * fabsf(sinf(bounce_counter * 0.28f))'' n \<le> 8"
    "0 \<le> fpu ''12 * fabsf(sinf(bounce_counter * 0.13f))'' n"
    "fpu ''12 * fabsf(sinf(bounce_counter * 0.13f))'' n \<le> 12"
    "88 \<le> fpu ''88 + 12 * fabs(sin(bounce_counter * 0.15))'' n"
    "fpu ''88 + 12 * fabs(sin(bounce_counter * 0.15))'' n \<le> 100"
    "- 8 \<le> fpu ''8 * sin(bounce_counter * 0.5)'' n"
    "fpu ''8 * sin(bounce_counter * 0.5)'' n \<le> 8"
    "0 \<le> fpu ''20 * fabs(sin(bounce_counter * 0.03))'' n"
    "fpu ''20 * fabs(sin(bounce_counter * 0.03))'' n \<le> 20"
    "0 \<le> fpu ''7 * fabs(sin(bounce_counter * 0.4))'' n"
    "fpu ''7 * fabs(sin(bounce_counter * 0.4))'' n \<le> 7"
    "0 \<le> fpu ''20 * fabs(sin(bounce_counter * 0.3))'' n"
    "fpu ''20 * fabs(sin(bounce_counter * 0.3))'' n \<le> 20"
    "- 10 \<le> fpu ''10 * sin(bounce_counter * 0.35)'' n"
    "fpu ''10 * sin(bounce_counter * 0.35)'' n \<le> 10"
    "0 \<le> fpu ''10 * fabsf(sinf(bounce_counter * 0.55f))'' n"
    "fpu ''10 * fabsf(sinf(bounce_counter * 0.55f))'' n \<le> 10"
    "300 \<le> n \<Longrightarrow> n < 360 \<Longrightarrow> 0 \<le> fpu ''14.0f * intensity'' n"
    "300 \<le> n \<Longrightarrow> n < 360 \<Longrightarrow> fpu ''14.0f * intensity'' n \<le> 14"
  using assms unfolding fpu_in_amplitude_def by blast+

lemma range_happy:
  assumes "fpu_in_amplitude fpu" "channels_in_range st"
  shows "channels_in_range (idle_happy fpu st)"
proof -
  note a = amplitude [OF assms(1), of "uint (bounce_counter st)"]
  have f0: "(87 + word_of_int (fpu ''13 * fabsf(sinf(bounce_counter * 0.28f))'' (uint (bounce_counter st))) :: 8 word) \<le> 100"
    using u8_off [of 87 "fpu ''13 * fabsf(sinf(bounce_counter * 0.28f))'' (uint (bounce_counter st))"] a(1,2) by simp
  have f1: "- 100 \<le> sint (87 + word_of_int (fpu ''8 * fabsf(sinf(bounce_counter * 0.28f))'' (uint (bounce_counter st))) :: 8 word) \<and> sint (87 + word_of_int (fpu ''8 * fabsf(sinf(bounce_counter * 0.28f))'' (uint (bounce_counter st))) :: 8 word) \<le> 115"
    using s8_off [of 87 "fpu ''8 * fabsf(sinf(bounce_counter * 0.28f))'' (uint (bounce_counter st))"] a(3,4) by simp
  show ?thesis
    using assms(2) f0 f1
    by (simp add: idle_happy_def channels_in_range_def Let_def set_eyes_def f8_def)
qed

lemma range_worried:
  assumes "fpu_in_amplitude fpu" "channels_in_range st"
  shows "channels_in_range (idle_worried fpu st)"
proof -
  note a = amplitude [OF assms(1), of "uint (bounce_counter st)"]
  have f0: "- 100 \<le> sint (22 + word_of_int (fpu ''12 * fabsf(sinf(bounce_counter * 0.13f))'' (uint (bounce_counter st))) :: 8 word) \<and> sint (22 + word_of_int (fpu ''12 * fabsf(sinf(bounce_counter * 0.13f))'' (uint (bounce_counter st))) :: 8 word) \<le> 115"
    using s8_off [of 22 "fpu ''12 * fabsf(sinf(bounce_counter * 0.13f))'' (uint (bounce_counter st))"] a(5,6) by simp
  show ?thesis
    using assms(2) f0
    by (simp add: idle_worried_def channels_in_range_def Let_def set_eyes_def f8_def)
qed

lemma range_love:
  assumes "fpu_in_amplitude fpu" "channels_in_range st"
  shows "channels_in_range (idle_love fpu st)"
proof -
  note a = amplitude [OF assms(1), of "uint (bounce_counter st)"]
  have f0: "(word_of_int (fpu ''88 + 12 * fabs(sin(bounce_counter * 0.15))'' (uint (bounce_counter st))) :: 8 word) \<le> 100"
    using u8_in [of "fpu ''88 + 12 * fabs(sin(bounce_counter * 0.15))'' (uint (bounce_counter st))"] a(7,8) by simp
  show ?thesis
    using assms(2) f0
    by (simp add: idle_love_def channels_in_range_def Let_def set_eyes_def f8_def)
qed

lemma range_angry:
  assumes "fpu_in_amplitude fpu" "channels_in_range st"
  shows "channels_in_range (idle_angry fpu st)"
proof -
  note a = amplitude [OF assms(1), of "uint (bounce_counter st)"]
  have f0: "- 100 \<le> sint (- 42 + word_of_int (fpu ''8 * sin(bounce_counter * 0.5)'' (uint (bounce_counter st))) :: 8 word) \<and> sint (- 42 + word_of_int (fpu ''8 * sin(bounce_counter * 0.5)'' (uint (bounce_counter st))) :: 8 word) \<le> 115"
    using s8_off [of "- 42" "fpu ''8 * sin(bounce_counter * 0.5)'' (uint (bounce_counter st))"] a(9,10) by simp
  show ?thesis
    using assms(2) f0
    by (simp add: idle_angry_def channels_in_range_def Let_def set_eyes_def f8_def)
qed

lemma range_surprised:
  assumes "fpu_in_amplitude fpu" "channels_in_range st"
  shows "channels_in_range (idle_surprised fpu st)"
proof -
  note a = amplitude [OF assms(1), of "uint (bounce_counter st)"]
  have f0: "(93 + word_of_int (fpu ''7 * fabs(sin(bounce_counter * 0.4))'' (uint (bounce_counter st))) :: 8 word) \<le> 100"
    using u8_off [of 93 "fpu ''7 * fabs(sin(bounce_counter * 0.4))'' (uint (bounce_counter st))"] a(13,14) by simp
  show ?thesis
    using assms(2) f0
    by (simp add: idle_surprised_def channels_in_range_def Let_def set_eyes_def f8_def)
qed

lemma range_playful:
  assumes "fpu_in_amplitude fpu" "channels_in_range st"
  shows "channels_in_range (idle_playful fpu st)"
proof -
  note a = amplitude [OF assms(1), of "uint (bounce_counter st)"]
  have f0: "- 100 \<le> sint (105 + word_of_int (fpu ''10 * sin(bounce_counter * 0.35)'' (uint (bounce_counter st))) :: 8 word) \<and> sint (105 + word_of_int (fpu ''10 * sin(bounce_counter * 0.35)'' (uint (bounce_counter st))) :: 8 word) \<le> 115"
    using s8_off [of 105 "fpu ''10 * sin(bounce_counter * 0.35)'' (uint (bounce_counter st))"] a(17,18) by simp
  show ?thesis
    using assms(2) f0
    by (simp add: idle_playful_def channels_in_range_def Let_def set_eyes_def f8_def)
qed

lemma range_excited:
  assumes "fpu_in_amplitude fpu" "channels_in_range st"
  shows "channels_in_range (idle_excited fpu st)"
proof -
  note a = amplitude [OF assms(1), of "uint (bounce_counter st)"]
  have f0: "(90 + word_of_int (fpu ''10 * fabsf(sinf(bounce_counter * 0.55f))'' (uint (bounce_counter st))) :: 8 word) \<le> 100"
    using u8_off [of 90 "fpu ''10 * fabsf(sinf(bounce_counter * 0.55f))'' (uint (bounce_counter st))"] a(19,20) by simp
  show ?thesis
    using assms(2) f0
    by (simp add: idle_excited_def channels_in_range_def Let_def set_eyes_def f8_def)
qed

lemma range_sleepy:
  assumes "fpu_in_amplitude fpu" "channels_in_range st"
  shows "channels_in_range (idle_sleepy fpu st)"
proof -
  note a = amplitude [OF assms(1), of "uint (bounce_counter st)"]
  have f0: "(ucast (35 - word_of_int (fpu ''20 * fabs(sin(bounce_counter * 0.03))''
              (uint (bounce_counter st))) :: 16 word) :: 8 word) \<le> 100"
    using ucast_sub16 [of 35 "fpu ''20 * fabs(sin(bounce_counter * 0.03))''
              (uint (bounce_counter st))"] a(11,12) by simp
  show ?thesis
    using assms(2) f0
    by (simp add: idle_sleepy_def channels_in_range_def Let_def set_eyes_def f16_def)
qed

lemma range_cry:
  assumes "fpu_in_amplitude fpu" "channels_in_range st"
  shows "channels_in_range (idle_cry fpu st)"
proof -
  note a = amplitude [OF assms(1), of "uint (bounce_counter st)"]
  have f0: "(ucast (65 - word_of_int (fpu ''20 * fabs(sin(bounce_counter * 0.3))''
              (uint (bounce_counter st))) :: 16 word) :: 8 word) \<le> 100"
    using ucast_sub16 [of 65 "fpu ''20 * fabs(sin(bounce_counter * 0.3))''
              (uint (bounce_counter st))"] a(15,16) by simp
  show ?thesis
    using assms(2) f0
    by (simp add: idle_cry_def channels_in_range_def Let_def set_eyes_def f16_def)
qed

lemma range_cool:
  assumes "channels_in_range st"
  shows "channels_in_range (idle_cool fpu st)"
  using assms cool_open
  by (simp add: idle_cool_def channels_in_range_def Let_def set_eyes_def)

lemma range_neutral_gestures:
  assumes "fpu_in_amplitude fpu" "channels_in_range st"
  shows "channels_in_range (neutral_gestures fpu st)"
proof -
  let ?sp = "idle st mod 360"
  have m: "- 100 \<le> sint (word_of_int (fpu ''14.0f * intensity'' (uint ?sp)) :: 8 word)
           \<and> sint (word_of_int (fpu ''14.0f * intensity'' (uint ?sp)) :: 8 word) \<le> 115"
    if "300 \<le> ?sp" "?sp < 360"
  proof -
    have "300 \<le> uint ?sp" "uint ?sp < 360"
      using that by (simp_all add: word_le_def word_less_def)
    then show ?thesis
      using amplitude(21,22) [OF assms(1), of "uint ?sp"] by (intro s8_in) simp_all
  qed
  show ?thesis
    using assms(2) m
    by (simp add: neutral_gestures_def channels_in_range_def Let_def f8_def)
qed

lemma range_neutral:
  assumes "fpu_in_amplitude fpu" "channels_in_range st"
  shows "channels_in_range (idle_neutral fpu st)"
proof -
  have g: "channels_in_range (neutral_gaze fpu gp s) = channels_in_range s" for gp s
    by (rule channels_in_range_cong) (rule neutral_gaze_frame)
  have b: "channels_in_range (s\<lparr>bounce_offset := v\<rparr>) = channels_in_range s"
    "channels_in_range (s\<lparr>idle := w\<rparr>) = channels_in_range s" for s v w
    by (simp_all add: channels_in_range_def)
  show ?thesis
    using assms(2)
    by (simp add: idle_neutral_def Let_def g b range_neutral_gestures [OF assms(1)])
qed

lemma range_sad: "channels_in_range (idle_sad fpu st) = channels_in_range st"
  by (simp add: idle_sad_def channels_in_range_def Let_def)

lemma range_wink: "channels_in_range (idle_wink fpu st) = channels_in_range st"
  by (simp add: idle_wink_def channels_in_range_def Let_def)

lemma range_smirk: "channels_in_range (idle_smirk fpu st) = channels_in_range st"
  by (simp add: idle_smirk_def channels_in_range_def Let_def)

lemma range_silly: "channels_in_range (idle_silly fpu st) = channels_in_range st"
  by (simp add: idle_silly_def channels_in_range_def Let_def)

lemma range_confused: "channels_in_range (idle_confused fpu st) = channels_in_range st"
  by (simp add: idle_confused_def channels_in_range_def Let_def)

lemma range_default: "channels_in_range (idle_default fpu st) = channels_in_range st"
  by (simp add: idle_default_def channels_in_range_def Let_def)

lemma range_working_hard: "channels_in_range (idle_working_hard st) = channels_in_range st"
  by (simp add: idle_working_hard_def channels_in_range_def)

lemma range_idle:
  assumes "fpu_in_amplitude fpu" "channels_in_range st"
  shows "channels_in_range (idle_motion fpu st)"
  using assms(2)
  by (simp add: idle_motion_def range_happy [OF assms] range_worried [OF assms]
      range_love [OF assms] range_angry [OF assms] range_sleepy [OF assms]
      range_surprised [OF assms] range_cry [OF assms] range_playful [OF assms]
      range_excited [OF assms] range_cool range_neutral [OF assms]
      range_sad range_wink range_smirk range_silly range_confused range_default
      range_working_hard split: face_emotion_t.splits)

lemma range_secondary:
  assumes "fpu_in_amplitude fpu" "channels_in_range st"
  shows "channels_in_range (secondary_motion fpu st)"
proof -
  let ?a = "diamond_step (sweat_step (tear_step (pupil_motion fpu (bump_counters st))))"
  have "channels_in_range ?a"
    using assms(2) channels_in_range_cong [OF before_idle_frame(2), of fpu st] by simp
  then have "channels_in_range (idle_motion fpu ?a)"
    by (rule range_idle [OF assms(1)])
  then have "channels_in_range (sparkle_decay (idle_motion fpu ?a))"
    using channels_in_range_cong [OF sparkle_frame(2)] by simp
  then show ?thesis
    unfolding secondary_motion_def
    using channels_in_range_cong [OF heart_decay_frame(2)] by simp
qed


lemma blink_open:
  fixes q :: "8 word"
  shows "q < 50 \<Longrightarrow> 100 - q * 2 \<le> 100"
    and "\<not> q < 50 \<Longrightarrow> \<not> 100 \<le> q \<Longrightarrow> (q - 50) * 2 \<le> 100"
proof -
  assume "q < 50"
  then have a: "uint q < 50" by (simp add: word_less_def)
  have "uint (q * 2) = (uint q * 2) mod 2 ^ 8" by (simp add: uint_word_ariths)
  then have m: "uint (q * 2) = uint q * 2" using a by simp
  have "uint (100 - q * 2) = (100 - uint (q * 2)) mod 2 ^ 8"
    by (simp add: uint_word_ariths)
  moreover have "0 \<le> 100 - uint q * 2" "100 - uint q * 2 < 256"
    using a uint_ge_0 [of q] by linarith+
  then have "(100 - uint q * 2) mod 2 ^ 8 = 100 - uint q * 2"
    by simp
  ultimately have "uint (100 - q * 2) = 100 - uint q * 2" using m by simp
  then show "100 - q * 2 \<le> 100" by (simp add: word_le_def)
next
  assume "\<not> q < 50" "\<not> 100 \<le> q"
  then have a: "50 \<le> uint q" "uint q < 100" by (simp_all add: word_less_def word_le_def)
  define r where "r = q - 50"
  have "uint r = (uint q - 50) mod 2 ^ 8" by (simp add: r_def uint_word_ariths)
  then have d: "uint r = uint q - 50" using a by simp
  have "uint (r * 2) = (uint r * 2) mod 2 ^ 8" by (simp add: uint_word_ariths)
  then have "uint (r * 2) = (uint q - 50) * 2" using a d by simp
  then have "r * 2 \<le> 100" using a by (simp add: word_le_def)
  then show "(q - 50) * 2 \<le> 100" unfolding r_def .
qed

lemma range_blink_step:
  assumes "channels_in_range st"
  shows "channels_in_range (blink_step t st)"
proof -
  define ph where "ph = (if 100 \<le> blink_phase st + 20 then 0 else blink_phase st + 20)"
  define v where "v = (if ph < 50 then 100 - ph * 2 else (ph - 50) * 2)"
  have n: "\<not> 100 \<le> ph" by (simp add: ph_def)
  have le: "v \<le> 100" using blink_open [of ph] n by (simp add: v_def)
  have "eyes (blink_step t st) = (v, v)"
    unfolding blink_step_eyes ph_def v_def Let_def ..
  moreover have "mouth_curve (blink_step t st) = mouth_curve st"
    by (simp add: blink_step_def Let_def)
  ultimately show ?thesis
    using assms le by (simp add: channels_in_range_def eyes_def)
qed

lemma range_blend:
  assumes "p \<le> 100" "channels st = blend (profile_of c) (profile_of g) p"
  shows "channels_in_range st"
proof -
  note pr = profile_in_range
  have "left_eye_openness st = lerp_u8 (out_left_eye (profile_of c)) (out_left_eye (profile_of g)) p"
    "right_eye_openness st = lerp_u8 (out_right_eye (profile_of c)) (out_right_eye (profile_of g)) p"
    "mouth_curve st = lerp_s8 (out_mouth (profile_of c)) (out_mouth (profile_of g)) p"
    using assms(2) by (simp_all add: channels_def blend_def mk_params_def)
  then show ?thesis
    using lerp_u8_le [OF pr(1) [of c] pr(1) [of g] assms(1)]
      lerp_u8_le [OF pr(2) [of c] pr(2) [of g] assms(1)]
      lerp_s8_in [OF pr(3,4) [of c] pr(3,4) [of g] assms(1)]
    by (simp add: channels_in_range_def)
qed

lemma range_transition_step: "channels_in_range (transition_step st)"
proof -
  have "(if 100 \<le> q then 100 else q) \<le> (100 :: 8 word)" for q
    by (simp add: word_le_def)
  then show ?thesis
    by (rule range_blend [OF _ transition_step_channels])
qed

lemma range_chain:
  assumes "channels_in_range st"
  shows "channels_in_range (blink_or_transition t st)"
proof -
  have t: "channels_in_range (face_trigger_blink st)"
    using assms by (simp add: face_trigger_blink_def channels_in_range_def)
  show ?thesis
    by (simp add: blink_or_transition_def range_blink_step [OF assms]
        range_transition_step t assms)
qed

lemma range_tick:
  assumes "fpu_in_amplitude fpu" "channels_in_range st"
  shows "channels_in_range (animation_timer_cb fpu t st)"
  by (simp add: animation_timer_cb_def range_secondary [OF assms(1)]
      range_chain [OF assms(2)] assms(2))

lemma range_profile:
  assumes "channels st = profile_of e"
  shows "channels_in_range st"
proof -
  have "left_eye_openness st = out_left_eye (profile_of e)"
    "right_eye_openness st = out_right_eye (profile_of e)"
    "mouth_curve st = out_mouth (profile_of e)"
    using assms [symmetric] by (simp_all add: channels_def mk_params_def)
  then show ?thesis
    using profile_in_range [of e] by (simp add: channels_in_range_def)
qed

lemma range_set_emotion:
  assumes "channels_in_range st"
  shows "channels_in_range (face_set_emotion e smooth st)"
proof (cases "initialized st \<and> emotion_code e < emotion_code FACE_EMOTION_COUNT")
  case False
  then show ?thesis using assms by (auto simp add: face_set_emotion_def)
next
  case True
  show ?thesis
  proof (cases smooth)
    case True
    show ?thesis
      using assms channels_in_range_cong [OF set_emotion_smooth(2), of st e]
        \<open>initialized st \<and> emotion_code e < emotion_code FACE_EMOTION_COUNT\<close> True
      by simp
  next
    case False
    show ?thesis
      using range_profile [OF set_emotion_now(2), of st e]
        \<open>initialized st \<and> emotion_code e < emotion_code FACE_EMOTION_COUNT\<close> False
      by simp
  qed
qed

lemma range_setters:
  assumes "channels_in_range st"
  shows "channels_in_range (face_set_eye_openness l r st)"
    and "channels_in_range (face_set_mouth_shape v st)"
    and "channels_in_range (face_set_auto_blink enable st)"
    and "channels_in_range (face_trigger_blink st)"
    and "channels_in_range (face_set_position x y st)"
    and "channels_in_range (face_animation_deinit st)"
    and "channels_in_range (snd (face_animation_init fpu config w h ok now st))"
  using assms
  by (auto simp add: channels_in_range_def face_set_eye_openness_def face_set_mouth_shape_def
      face_set_auto_blink_def face_trigger_blink_def face_set_position_def
      face_animation_deinit_def face_state_zero_def face_animation_init_def Let_def
      word_le_def word_less_def split: option.splits)

lemma range_observable:
  assumes "fpu_in_amplitude fpu" "observable fpu st"
  shows "channels_in_range st"
  using assms(2)
proof (induction rule: observable.induct)
  case start
  show ?case by (simp add: channels_in_range_def face_state_zero_def)
qed (simp_all add: range_setters range_set_emotion range_tick [OF assms(1)])

lemma still_in_amplitude: "fpu_in_amplitude fpu_still"
  by (simp add: fpu_in_amplitude_def fpu_still_def)

lemma started_observable: "observable fpu_still face_state_started"
  unfolding face_state_started_def by (intro observable.init observable.start)

subsection \<open>The channels after the last tick of a smooth transition\<close>

text \<open>What the idle case of each emotion leaves alone among mouth and brows.\<close>

lemma rest_idle_happy:
  "left_eyebrow_angle (idle_happy fpu st) = left_eyebrow_angle st"
  "right_eyebrow_angle (idle_happy fpu st) = right_eyebrow_angle st"
  "eyebrow_height (idle_happy fpu st) = eyebrow_height st"
  by (simp_all add: idle_happy_def Let_def set_eyes_def)

lemma rest_idle_love:
  "mouth_curve (idle_love fpu st) = mouth_curve st"
  "left_eyebrow_angle (idle_love fpu st) = left_eyebrow_angle st"
  "right_eyebrow_angle (idle_love fpu st) = right_eyebrow_angle st"
  "eyebrow_height (idle_love fpu st) = eyebrow_height st"
  by (simp_all add: idle_love_def Let_def set_eyes_def)

lemma rest_idle_angry:
  "eyebrow_height (idle_angry fpu st) = eyebrow_height st"
  by (simp_all add: idle_angry_def Let_def set_eyes_def)

lemma rest_idle_sleepy:
  "mouth_curve (idle_sleepy fpu st) = mouth_curve st"
  "left_eyebrow_angle (idle_sleepy fpu st) = left_eyebrow_angle st"
  "right_eyebrow_angle (idle_sleepy fpu st) = right_eyebrow_angle st"
  "eyebrow_height (idle_sleepy fpu st) = eyebrow_height st"
  by (simp_all add: idle_sleepy_def Let_def set_eyes_def)

lemma rest_idle_surprised:
  "mouth_curve (idle_surprised fpu st) = mouth_curve st"
  "left_eyebrow_angle (idle_surprised fpu st) = left_eyebrow_angle st"
  "right_eyebrow_angle (idle_surprised fpu st) = right_eyebrow_angle st"
  "eyebrow_height (idle_surprised fpu st) = eyebrow_height st"
  by (simp_all add: idle_surprised_def Let_def set_eyes_def)

lemma rest_idle_cry:
  "mouth_curve (idle_cry fpu st) = mouth_curve st"
  "left_eyebrow_angle (idle_cry fpu st) = left_eyebrow_angle st"
  "right_eyebrow_angle (idle_cry fpu st) = right_eyebrow_angle st"
  "eyebrow_height (idle_cry fpu st) = eyebrow_height st"
  by (simp_all add: idle_cry_def Let_def set_eyes_def)

lemma rest_idle_sad:
  "mouth_curve (idle_sad fpu st) = mouth_curve st"
  "left_eyebrow_angle (idle_sad fpu st) = left_eyebrow_angle st"
  "right_eyebrow_angle (idle_sad fpu st) = right_eyebrow_angle st"
  "eyebrow_height (idle_sad fpu st) = eyebrow_height st"
  by (simp_all add: idle_sad_def Let_def set_eyes_def)

lemma rest_idle_wink:
  "mouth_curve (idle_wink fpu st) = mouth_curve st"
  "left_eyebrow_angle (idle_wink fpu st) = left_eyebrow_angle st"
  "right_eyebrow_angle (idle_wink fpu st) = right_eyebrow_angle st"
  "eyebrow_height (idle_wink fpu st) = eyebrow_height st"
  by (simp_all add: idle_wink_def Let_def set_eyes_def)

lemma rest_idle_smirk:
  "mouth_curve (idle_smirk fpu st) = mouth_curve st"
  "right_eyebrow_angle (idle_smirk fpu st) = right_eyebrow_angle st"
  by (simp_all add: idle_smirk_def Let_def set_eyes_def)

lemma rest_idle_playful:
  "left_eyebrow_angle (idle_playful fpu st) = left_eyebrow_angle st"
  "right_eyebrow_angle (idle_playful fpu st) = right_eyebrow_angle st"
  "eyebrow_height (idle_playful fpu st) = eyebrow_height st"
  by (simp_all add: idle_playful_def Let_def set_eyes_def)

lemma rest_idle_silly:
  "mouth_curve (idle_silly fpu st) = mouth_curve st"
  "left_eyebrow_angle (idle_silly fpu st) = left_eyebrow_angle st"
  "right_eyebrow_angle (idle_silly fpu st) = right_eyebrow_angle st"
  "eyebrow_height (idle_silly fpu st) = eyebrow_height st"
  by (simp_all add: idle_silly_def Let_def set_eyes_def)

lemma rest_idle_working_hard:
  "mouth_curve (idle_working_hard st) = mouth_curve st"
  "left_eyebrow_angle (idle_working_hard st) = left_eyebrow_angle st"
  "right_eyebrow_angle (idle_working_hard st) = right_eyebrow_angle st"
  "eyebrow_height (idle_working_hard st) = eyebrow_height st"
  by (simp_all add: idle_working_hard_def Let_def set_eyes_def)

lemma rest_idle_excited:
  "mouth_curve (idle_excited fpu st) = mouth_curve st"
  "left_eyebrow_angle (idle_excited fpu st) = left_eyebrow_angle st"
  "right_eyebrow_angle (idle_excited fpu st) = right_eyebrow_angle st"
  "eyebrow_height (idle_excited fpu st) = eyebrow_height st"
  by (simp_all add: idle_excited_def Let_def set_eyes_def)

lemma rest_idle_confused:
  "mouth_curve (idle_confused fpu st) = mouth_curve st"
  by (simp_all add: idle_confused_def Let_def set_eyes_def)

lemma rest_idle_cool:
  "mouth_curve (idle_cool fpu st) = mouth_curve st"
  "left_eyebrow_angle (idle_cool fpu st) = left_eyebrow_angle st"
  "right_eyebrow_angle (idle_cool fpu st) = right_eyebrow_angle st"
  "eyebrow_height (idle_cool fpu st) = eyebrow_height st"
  by (simp_all add: idle_cool_def Let_def set_eyes_def)

lemma rest_idle_default:
  "mouth_curve (idle_default fpu st) = mouth_curve st"
  "left_eyebrow_angle (idle_default fpu st) = left_eyebrow_angle st"
  "right_eyebrow_angle (idle_default fpu st) = right_eyebrow_angle st"
  "eyebrow_height (idle_default fpu st) = eyebrow_height st"
  by (simp_all add: idle_default_def Let_def set_eyes_def)

lemmas rest_idle_cases =
  rest_idle_happy rest_idle_love rest_idle_angry rest_idle_sleepy
  rest_idle_surprised rest_idle_cry rest_idle_sad rest_idle_wink
  rest_idle_smirk rest_idle_playful rest_idle_silly rest_idle_working_hard
  rest_idle_excited rest_idle_confused rest_idle_cool rest_idle_default

lemma mouth_idle:
  "current_emotion st \<notin> mouth_idle_emotions \<Longrightarrow>
   mouth_curve (idle_motion fpu st) = mouth_curve st"
  by (auto simp add: idle_motion_def rest_idle_cases mouth_idle_emotions_def
      split: face_emotion_t.splits)

lemma left_brow_idle:
  "current_emotion st \<notin> left_brow_idle_emotions \<Longrightarrow>
   left_eyebrow_angle (idle_motion fpu st) = left_eyebrow_angle st"
  by (auto simp add: idle_motion_def rest_idle_cases left_brow_idle_emotions_def
      split: face_emotion_t.splits)

lemma right_brow_idle:
  "current_emotion st \<notin> right_brow_idle_emotions \<Longrightarrow>
   right_eyebrow_angle (idle_motion fpu st) = right_eyebrow_angle st"
  by (auto simp add: idle_motion_def rest_idle_cases right_brow_idle_emotions_def
      split: face_emotion_t.splits)

lemma brow_height_idle:
  "current_emotion st \<notin> brow_height_idle_emotions \<Longrightarrow>
   eyebrow_height (idle_motion fpu st) = eyebrow_height st"
  by (auto simp add: idle_motion_def rest_idle_cases brow_height_idle_emotions_def
      split: face_emotion_t.splits)

lemma channels_fields:
  assumes "channels a = channels b"
  shows "mouth_curve a = mouth_curve b" "left_eyebrow_angle a = left_eyebrow_angle b"
    "right_eyebrow_angle a = right_eyebrow_angle b" "eyebrow_height a = eyebrow_height b"
    "left_eye_openness a = left_eye_openness b" "right_eye_openness a = right_eye_openness b"
  using assms by (simp_all add: channels_def mk_params_def)

lemma secondary_fields:
  shows "current_emotion st \<notin> mouth_idle_emotions \<Longrightarrow>
         mouth_curve (secondary_motion fpu st) = mouth_curve st"
    and "current_emotion st \<notin> left_brow_idle_emotions \<Longrightarrow>
         left_eyebrow_angle (secondary_motion fpu st) = left_eyebrow_angle st"
    and "current_emotion st \<notin> right_brow_idle_emotions \<Longrightarrow>
         right_eyebrow_angle (secondary_motion fpu st) = right_eyebrow_angle st"
    and "current_emotion st \<notin> brow_height_idle_emotions \<Longrightarrow>
         eyebrow_height (secondary_motion fpu st) = eyebrow_height st"
proof -
  define a where "a = diamond_step (sweat_step (tear_step (pupil_motion fpu (bump_counters st))))"
  have e: "current_emotion a = current_emotion st"
    unfolding a_def by (rule control_fields(4) [OF before_idle_frame(1)])
  have ch: "channels a = channels st"
    unfolding a_def by (rule before_idle_frame(2))
  have after: "channels (heart_decay (sparkle_decay x)) = channels x" for x
    by (simp add: heart_decay_frame sparkle_frame)
  have s: "secondary_motion fpu st = heart_decay (sparkle_decay (idle_motion fpu a))"
    by (simp add: secondary_motion_def a_def)
  note f = channels_fields [OF after [of "idle_motion fpu a"]]
  note g = channels_fields [OF ch]
  show "current_emotion st \<notin> mouth_idle_emotions \<Longrightarrow>
         mouth_curve (secondary_motion fpu st) = mouth_curve st"
    using mouth_idle [of a fpu] e by (simp add: s f g)
  show "current_emotion st \<notin> left_brow_idle_emotions \<Longrightarrow>
         left_eyebrow_angle (secondary_motion fpu st) = left_eyebrow_angle st"
    using left_brow_idle [of a fpu] e by (simp add: s f g)
  show "current_emotion st \<notin> right_brow_idle_emotions \<Longrightarrow>
         right_eyebrow_angle (secondary_motion fpu st) = right_eyebrow_angle st"
    using right_brow_idle [of a fpu] e by (simp add: s f g)
  show "current_emotion st \<notin> brow_height_idle_emotions \<Longrightarrow>
         eyebrow_height (secondary_motion fpu st) = eyebrow_height st"
    using brow_height_idle [of a fpu] e by (simp add: s f g)
qed

text \<open>The tenth tick of a smooth transition, split at the end of its opening chain.\<close>

lemma smooth_transition_last:
  assumes "initialized st" "\<not> is_blinking st"
    and "emotion_code e1 < emotion_code FACE_EMOTION_COUNT"
    and "emotion_code e2 < emotion_code FACE_EMOTION_COUNT"
    and "e1 \<noteq> e2"
    and "length ts = 10"
    and "\<forall>t \<in> set ts. \<not> auto_blink_due t st"
    and "c = blink_or_transition (last ts) (run_ticks fpu (butlast ts)
                  (face_set_emotion e2 True (face_set_emotion e1 False st)))"
  shows "run_ticks fpu ts (face_set_emotion e2 True (face_set_emotion e1 False st))
           = secondary_motion fpu c"
    and "control c = (True, False, blink_phase st, e2, e2, 100,
            last_blink_time st, config_auto_blink st, config_blink_interval st)"
    and "channels c = profile_of e2"
proof -
  define s where "s = face_set_emotion e2 True (face_set_emotion e1 False st)"
  define m where "m = run_ticks fpu (butlast ts) s"
  note r = smooth_transition_run [OF assms(1-7), where fpu = fpu, folded s_def]
  note t = ten_ticks [OF assms(6)]
  have bl: "take 9 ts = butlast ts"
    using assms(6) by (simp add: butlast_conv_take)
  have cm: "control m = (True, False, blink_phase st, e1, e2, 10 * of_nat 9,
            last_blink_time st, config_auto_blink st, config_blink_interval st)"
    using r(1) [where k = 9] unfolding m_def bl by simp
  have im: "initialized m"
    using cm by (simp add: control_def)
  have whole: "run_ticks fpu ts s = animation_timer_cb fpu (last ts) m"
    unfolding m_def by (subst t(1)) (simp only: run_ticks_append run_ticks.simps)
  have cdef: "c = blink_or_transition (last ts) m"
    by (simp add: assms(8) m_def s_def)
  show "run_ticks fpu ts (face_set_emotion e2 True (face_set_emotion e1 False st))
           = secondary_motion fpu c"
    using whole im by (simp add: s_def [symmetric] cdef animation_timer_cb_def)
  have "control (run_ticks fpu ts s) = control c"
    unfolding whole cdef by (rule tick_control [OF im])
  then show "control c = (True, False, blink_phase st, e2, e2, 100,
            last_blink_time st, config_auto_blink st, config_blink_interval st)"
    using r(2) by simp
  show "channels c = profile_of e2"
    using r(3) by (simp add: cdef m_def)
qed

lemma blink_tick_keeps_transition:
  assumes "initialized b" "is_blinking b \<or> auto_blink_due t b"
  shows "transition_progress (animation_timer_cb fpu t b) = transition_progress b"
    and "current_emotion (animation_timer_cb fpu t b) = current_emotion b"
    and "target_emotion (animation_timer_cb fpu t b) = target_emotion b"
proof -
  have d: "blink_or_transition t b = blink_step t b
     \<or> blink_or_transition t b = face_trigger_blink b"
    using assms(2) by (auto simp add: blink_or_transition_def)
  have f1: "transition_progress (blink_step t b) = transition_progress b
     \<and> current_emotion (blink_step t b) = current_emotion b
     \<and> target_emotion (blink_step t b) = target_emotion b"
    by (simp add: blink_step_def Let_def)
  have f2: "transition_progress (face_trigger_blink b) = transition_progress b
     \<and> current_emotion (face_trigger_blink b) = current_emotion b
     \<and> target_emotion (face_trigger_blink b) = target_emotion b"
    by (simp add: face_trigger_blink_def)
  have c: "transition_progress (blink_or_transition t b) = transition_progress b
     \<and> current_emotion (blink_or_transition t b) = current_emotion b
     \<and> target_emotion (blink_or_transition t b) = target_emotion b"
    using d f1 f2 by auto
  note k = control_fields [OF tick_control [OF assms(1), of fpu t]]
  show "transition_progress (animation_timer_cb fpu t b) = transition_progress b"
    and "current_emotion (animation_timer_cb fpu t b) = current_emotion b"
    and "target_emotion (animation_timer_cb fpu t b) = target_emotion b"
    using k(4,5,6) c by simp_all
qed

text \<open>
  Cry's idle case: \<open>new_open = 65 - squeeze\<close> with \<open>squeeze\<close> in [0, 20] is at most 65.
\<close>

lemma s16_of_int:
  "- 32768 \<le> v \<Longrightarrow> v \<le> 32767 \<Longrightarrow> sint (word_of_int v :: 16 word) = v"
  by (simp add: int_word_sint)

lemma cry_open:
  assumes "0 \<le> v" "v \<le> 20"
  shows "\<not> (65 - (word_of_int v :: 16 word) <s 30)"
    and "uint (ucast (65 - (word_of_int v :: 16 word)) :: 8 word) \<le> 65"
proof -
  show "\<not> (65 - (word_of_int v :: 16 word) <s 30)"
    using s16_of_int [of "65 - v"] assms by (simp add: word_sless_alt)
  show "uint (ucast (65 - (word_of_int v :: 16 word)) :: 8 word) \<le> 65"
    using u8_of_int [of "65 - v"] ucast_16_8 [of "65 - v"] assms by simp
qed

lemma cry_eyes_idle:
  assumes "fpu_in_amplitude fpu" "transition_done st" "\<not> is_blinking st"
  shows "uint (left_eye_openness (idle_cry fpu st)) \<le> 65"
proof -
  note a = amplitude(15,16) [OF assms(1), of "uint (bounce_counter st)"]
  note c = cry_open [OF a]
  show ?thesis
    using assms(2,3) c
    by (simp add: idle_cry_def Let_def set_eyes_def f16_def transition_done_def)
qed

lemma cry_eyes_secondary:
  assumes "fpu_in_amplitude fpu" "current_emotion st = FACE_CRY" "transition_done st"
    "\<not> is_blinking st"
  shows "uint (left_eye_openness (secondary_motion fpu st)) \<le> 65"
proof -
  define a where "a = diamond_step (sweat_step (tear_step (pupil_motion fpu (bump_counters st))))"
  have k: "current_emotion a = FACE_CRY" "transition_done a" "\<not> is_blinking a"
    unfolding a_def using assms(2-4) control_fields(2,4,10) [OF before_idle_frame(1)] by simp_all
  have after: "channels (heart_decay (sparkle_decay x)) = channels x" for x
    by (simp add: heart_decay_frame sparkle_frame)
  have s: "secondary_motion fpu st = heart_decay (sparkle_decay (idle_motion fpu a))"
    by (simp add: secondary_motion_def a_def)
  have i: "idle_motion fpu a = idle_cry fpu a"
    by (simp add: idle_motion_def k(1))
  show ?thesis
    unfolding s channels_fields(5) [OF after] i
    by (rule cry_eyes_idle [OF assms(1) k(2,3)])
qed

lemma channels_outputs:
  assumes "channels a = p"
  shows "left_eye_openness a = out_left_eye p" "right_eye_openness a = out_right_eye p"
    "mouth_curve a = out_mouth p" "left_eyebrow_angle a = out_left_brow p"
    "right_eyebrow_angle a = out_right_brow p" "eyebrow_height a = out_brow_height p"
    "eyes a = (out_left_eye p, out_right_eye p)"
  using assms [symmetric] by (simp_all add: channels_def mk_params_def eyes_def)

subsection \<open>C7: what the profile lookup writes\<close>

text \<open>
  C7 as stated fails: looking up Happy on the started face changes the context's blush
  from 0 to 82, its sparkle from 0 to 90 and its heartbeat from 0 to 40.
\<close>

theorem lookup_mutates_effects_counterexample:
  "blush_intensity face_state_started = 0
   \<and> sparkle_phase face_state_started = 0
   \<and> heart_beat_phase face_state_started = 0
   \<and> blush_intensity (snd (update_emotion_parameters FACE_HAPPY face_state_started)) = 82
   \<and> sparkle_phase (snd (update_emotion_parameters FACE_HAPPY face_state_started)) = 90
   \<and> heart_beat_phase (snd (update_emotion_parameters FACE_HAPPY face_state_started)) = 40"
  by (simp add: face_state_started_eq set_effects_def)

text \<open>
  C7, amended: for every emotion identifier the six looked-up values depend on the
  identifier alone, and the lookup overwrites \<open>blush_intensity\<close>, \<open>sparkle_phase\<close> and
  \<open>heart_beat_phase\<close> of the context with values that depend on the identifier alone
  (\<open>effects_of\<close>); Neutral overwrites the blush only, with 0. Every other field keeps
  its value. The values written are (82, 90, 40) for Happy, (20, 0, 0) for Worried,
  (0, 0, 0) for Sad, (20, 60, 0) for Surprised, (50, 0, 0) for Angry, (30, 0, 0) for
  Sleepy, (60, 75, 0) for Wink, (90, 100, 100) for Love, (45, 85, 0) for Playful,
  (55, 65, 0) for Silly, (25, 50, 0) for Smirk, (35, 0, 0) for Cry, (60, 0, 0) for
  Working-Hard, (85, 100, 80) for Excited, (15, 0, 0) for Confused, (10, 40, 0) for Cool,
  and (0, 0, 0) for \<open>FACE_BLINK\<close> and every identifier past it.
\<close>

theorem update_emotion_parameters_frame:
  "fst (update_emotion_parameters e st) = profile_of e
   \<and> snd (update_emotion_parameters FACE_NEUTRAL st) = st\<lparr> blush_intensity := 0 \<rparr>
   \<and> (e \<noteq> FACE_NEUTRAL \<longrightarrow>
        snd (update_emotion_parameters e st) =
          st\<lparr> blush_intensity := fst (effects_of e),
              sparkle_phase := fst (snd (effects_of e)),
              heart_beat_phase := snd (snd (effects_of e)) \<rparr>)
   \<and> map effects_of
       [FACE_HAPPY, FACE_WORRIED, FACE_SAD, FACE_SURPRISED, FACE_ANGRY, FACE_SLEEPY,
        FACE_WINK, FACE_LOVE, FACE_PLAYFUL, FACE_SILLY, FACE_SMIRK, FACE_CRY,
        FACE_WORKING_HARD, FACE_EXCITED, FACE_CONFUSED, FACE_COOL]
     = [(82, 90, 40), (20, 0, 0), (0, 0, 0), (20, 60, 0), (50, 0, 0), (30, 0, 0),
        (60, 75, 0), (90, 100, 100), (45, 85, 0), (55, 65, 0), (25, 50, 0), (35, 0, 0),
        (60, 0, 0), (85, 100, 80), (15, 0, 0), (10, 40, 0)]
   \<and> (emotion_code FACE_BLINK \<le> emotion_code e \<longrightarrow> effects_of e = (0, 0, 0))"
  using lookup_outputs [of e st] lookup_overwrites [of e st] effects_table effects_default [of e]
  by simp

theorem update_emotion_parameters_frame_witness:
  "FACE_LOVE \<noteq> FACE_NEUTRAL
   \<and> fst (update_emotion_parameters FACE_LOVE face_state_started) = profile_of FACE_LOVE
   \<and> effects_of FACE_LOVE = (90, 100, 100)
   \<and> snd (update_emotion_parameters FACE_LOVE face_state_started) =
       face_state_started\<lparr> blush_intensity := 90, sparkle_phase := 100,
                           heart_beat_phase := 100 \<rparr>
   \<and> emotion_code FACE_BLINK \<le> emotion_code (FACE_RAW 5)
   \<and> snd (update_emotion_parameters (FACE_RAW 5)
            (face_state_started\<lparr> blush_intensity := 7, sparkle_phase := 8,
                                 heart_beat_phase := 9 \<rparr>)) =
       face_state_started\<lparr> blush_intensity := 0, sparkle_phase := 0,
                           heart_beat_phase := 0 \<rparr>"
  using update_emotion_parameters_frame [of FACE_LOVE face_state_started]
    update_emotion_parameters_frame [of "FACE_RAW 5"
      "face_state_started\<lparr> blush_intensity := 7, sparkle_phase := 8, heart_beat_phase := 9 \<rparr>"]
  by simp

subsection \<open>C2: clamping in the setters\<close>

text \<open>
  C2 as stated fails: the parameters are \<open>uint8_t\<close> and \<open>int8_t\<close>. The arguments
  \<open>(150, -10)\<close> reach \<open>face_set_eye_openness\<close> as \<open>(150, 246)\<close> and the right eye is
  stored as 100, not 0; \<open>200\<close> reaches \<open>face_set_mouth_shape\<close> as \<open>-56\<close> and \<open>-200\<close> as
  \<open>56\<close>, and these are stored unclamped.
\<close>

theorem setters_clamp_counterexample:
  "left_eye_openness
     (face_set_eye_openness (word_of_int 150) (word_of_int (- 10)) face_state_started) = 100
   \<and> right_eye_openness
     (face_set_eye_openness (word_of_int 150) (word_of_int (- 10)) face_state_started) = 100
   \<and> sint (mouth_curve (face_set_mouth_shape (word_of_int 200) face_state_started)) = - 56
   \<and> sint (mouth_curve (face_set_mouth_shape (word_of_int (- 200)) face_state_started)) = 56"
  by (simp add: face_state_started_eq face_set_eye_openness_def face_set_mouth_shape_def
      Let_def)

text \<open>
  C2, amended: on an initialised face, \<open>face_set_eye_openness\<close> stores each 8-bit
  unsigned argument capped at 100, and \<open>face_set_mouth_shape\<close> stores its 8-bit signed
  argument clamped to [-100, 100]; no argument is rejected.
\<close>

theorem setters_clamp:
  assumes "initialized st"
  shows "uint (left_eye_openness (face_set_eye_openness l r st)) = min (uint l) 100
    \<and> uint (right_eye_openness (face_set_eye_openness l r st)) = min (uint r) 100
    \<and> sint (mouth_curve (face_set_mouth_shape v st)) = max (- 100) (min 100 (sint v))"
  using assms
  by (simp add: face_set_eye_openness_def face_set_mouth_shape_def Let_def word_less_def)

theorem setters_clamp_witness:
  "initialized face_state_started
   \<and> uint (left_eye_openness (face_set_eye_openness 150 246 face_state_started)) = 100
   \<and> uint (right_eye_openness (face_set_eye_openness 150 246 face_state_started)) = 100
   \<and> sint (mouth_curve (face_set_mouth_shape (- 128) face_state_started)) = - 100"
  using setters_clamp [OF started_initialized, of 150 246 "- 128"]
  by (simp add: started_initialized)

subsection \<open>C10: emotion identifiers outside the selectable range\<close>

text \<open>
  C10 as stated fails for the blinking pseudo-state: \<open>FACE_BLINK\<close> is below
  \<open>FACE_EMOTION_COUNT\<close> and \<open>face_set_emotion\<close> accepts it. On a face showing Happy,
  \<open>face_set_emotion(FACE_BLINK, false)\<close> makes \<open>FACE_BLINK\<close> the current and the target
  emotion and moves the mouth curve from 90 to 0.
\<close>

theorem set_emotion_blink_counterexample:
  "current_emotion (face_set_emotion FACE_HAPPY False face_state_started) = FACE_HAPPY
   \<and> mouth_curve (face_set_emotion FACE_HAPPY False face_state_started) = 90
   \<and> current_emotion (face_set_emotion FACE_BLINK False
         (face_set_emotion FACE_HAPPY False face_state_started)) = FACE_BLINK
   \<and> target_emotion (face_set_emotion FACE_BLINK False
         (face_set_emotion FACE_HAPPY False face_state_started)) = FACE_BLINK
   \<and> mouth_curve (face_set_emotion FACE_BLINK False
         (face_set_emotion FACE_HAPPY False face_state_started)) = 0"
  by (simp add: face_state_started_eq face_set_emotion_def set_effects_def mk_params_def)

text \<open>
  C10, amended: \<open>face_set_emotion\<close> ignores every identifier from
  \<open>FACE_EMOTION_COUNT\<close> (18) upwards and leaves the whole state unchanged. The blinking
  pseudo-state \<open>FACE_BLINK\<close> (17) is accepted on an initialised face: it becomes the
  target, and with \<open>smooth = false\<close> also the current emotion, resolved to the default
  profile (eyes 100, mouth and brows 0).
\<close>

theorem set_emotion_out_of_range:
  "(emotion_code e \<ge> emotion_code FACE_EMOTION_COUNT \<longrightarrow> face_set_emotion e smooth st = st)
   \<and> (initialized st \<longrightarrow>
        target_emotion (face_set_emotion FACE_BLINK smooth st) = FACE_BLINK
        \<and> current_emotion (face_set_emotion FACE_BLINK False st) = FACE_BLINK
        \<and> channels (face_set_emotion FACE_BLINK False st) = mk_params 100 100 0 0 0 0)"
  by (simp add: face_set_emotion_def channels_def set_effects_def mk_params_def Let_def)

theorem set_emotion_out_of_range_witness:
  "emotion_code (FACE_RAW 23) \<ge> emotion_code FACE_EMOTION_COUNT
   \<and> face_set_emotion (FACE_RAW 23) True face_state_started = face_state_started
   \<and> face_set_emotion FACE_EMOTION_COUNT False face_state_started = face_state_started
   \<and> initialized face_state_started
   \<and> target_emotion (face_set_emotion FACE_BLINK True face_state_started) = FACE_BLINK"
  using set_emotion_out_of_range [of "FACE_RAW 23" True face_state_started]
    set_emotion_out_of_range [of FACE_EMOTION_COUNT False face_state_started]
  by (simp add: started_initialized)

subsection \<open>C9: the setters before initialisation\<close>

text \<open>
  The setters that test \<open>face_state.initialized\<close> leave an uninitialised face as it is.
\<close>

lemma guarded_setters_before_init:
  assumes "\<not> initialized st"
  shows "face_set_emotion e smooth st = st"
    and "face_set_eye_openness l r st = st"
    and "face_set_mouth_shape v st = st"
    and "face_trigger_blink st = st"
    and "face_set_position x y st = st"
    and "animation_timer_cb fpu t st = st"
  using assms
  by (simp_all add: face_set_emotion_def face_set_eye_openness_def face_set_mouth_shape_def
      face_trigger_blink_def face_set_position_def animation_timer_cb_def)

text \<open>
  C9: \<open>face_set_auto_blink\<close> has no such test. On the zeroed, uninitialised
  \<open>face_state\<close> the call \<open>face_set_auto_blink(true)\<close> sets \<open>config.auto_blink\<close>: the
  state is not left unchanged.
\<close>

theorem set_auto_blink_before_init:
  "\<not> initialized face_state_zero
   \<and> \<not> config_auto_blink face_state_zero
   \<and> config_auto_blink (face_set_auto_blink True face_state_zero)
   \<and> face_set_auto_blink True face_state_zero \<noteq> face_state_zero"
proof -
  have "config_auto_blink (face_set_auto_blink True face_state_zero)
        \<noteq> config_auto_blink face_state_zero"
    by (simp add: face_set_auto_blink_def face_state_zero_def)
  then have "face_set_auto_blink True face_state_zero \<noteq> face_state_zero"
    by metis
  then show ?thesis
    by (simp add: face_set_auto_blink_def face_state_zero_def)
qed

subsection \<open>C5: the mouth shape for curves between 35 and 65\<close>

text \<open>
  C5 as stated fails at its lower bound: the test is \<open>curve > 35\<close>. Cool's profile has
  mouth curve 35, and for it the renderer draws the smile bar, not the O mouth.
\<close>

theorem draw_mouth_35_counterexample:
  "sint (mouth_curve (face_set_emotion FACE_COOL False face_state_started)) = 35
   \<and> current_emotion (face_set_emotion FACE_COOL False face_state_started) = FACE_COOL
   \<and> draw_mouth fpu_still True (face_set_emotion FACE_COOL False face_state_started)
        (mouth_curve (face_set_emotion FACE_COOL False face_state_started))
      = [SmileBar True]"
  by (simp add: face_state_started_eq face_set_emotion_def set_effects_def mk_params_def
      draw_mouth_def)

text \<open>
  C5, amended: for every mouth curve with 35 < curve < 65 and current emotion other
  than Working-Hard, the renderer (given a canvas) draws the O mouth: the diamond (four
  petals and a centre) when the float test \<open>diamond_factor > 0.3\<close> on
  \<open>diamond_mouth_phase / 100.0\<close> succeeds, one oval otherwise, followed by four
  sparkle squares; and never the smile bar. At curve = 35 (and emotion other than
  Working-Hard) it draws the smile bar.
\<close>

theorem draw_mouth_o_shape:
  assumes "current_emotion st \<noteq> FACE_WORKING_HARD"
  shows "(35 < sint curve \<and> sint curve < 65 \<longrightarrow>
           draw_mouth fpu True st curve =
             (if fpu ''diamond_factor > 0.3'' (uint (diamond_mouth_phase st)) \<noteq> 0
              then replicate 4 DiamondPetal @ [DiamondCentre] else [OvalMouth])
             @ replicate 4 OrbitSparkle)
         \<and> (sint curve = 35 \<longrightarrow> draw_mouth fpu True st curve = [SmileBar True])"
  using assms by (simp add: draw_mouth_def)

theorem draw_mouth_o_shape_witness:
  "current_emotion (face_set_emotion FACE_SURPRISED False face_state_started)
     \<noteq> FACE_WORKING_HARD
   \<and> 35 < sint (50 :: int8_t) \<and> sint (50 :: int8_t) < 65
   \<and> draw_mouth fpu_still True (face_set_emotion FACE_SURPRISED False face_state_started) 50
      = [OvalMouth, OrbitSparkle, OrbitSparkle, OrbitSparkle, OrbitSparkle]"
proof -
  have e: "current_emotion (face_set_emotion FACE_SURPRISED False face_state_started)
             \<noteq> FACE_WORKING_HARD"
    by (simp add: face_state_started_eq face_set_emotion_def set_effects_def)
  have d: "diamond_mouth_phase (face_set_emotion FACE_SURPRISED False face_state_started) = 0"
    by (simp add: face_state_started_eq face_set_emotion_def set_effects_def)
  show ?thesis
    using draw_mouth_o_shape [OF e, of 50 fpu_still] e
    by (simp add: d fpu_still_def numeral_eq_Suc)
qed

subsection \<open>C4: the blink cycle\<close>




subsection \<open>C1: the source of a re-targeted transition\<close>

text \<open>
  C1 as stated fails. A face showing Working-Hard is sent smoothly to Sad; after three
  ticks its mouth curve is -22. It is then re-targeted smoothly to Happy (mouth 90).
  After the next tick (progress 10) the mouth curve is 9, the blend of Working-Hard's
  table value 0 with 90; the blend from the resolved value -22 would be -11.
\<close>

theorem retarget_source_counterexample:
  "mouth_curve (run_ticks fpu_still [30, 60, 90]
      (face_set_emotion FACE_SAD True
        (face_set_emotion FACE_WORKING_HARD False face_state_started))) = - 22
   \<and> mouth_curve (run_ticks fpu_still [120]
      (face_set_emotion FACE_HAPPY True
        (run_ticks fpu_still [30, 60, 90]
          (face_set_emotion FACE_SAD True
            (face_set_emotion FACE_WORKING_HARD False face_state_started))))) = 9
   \<and> transition_progress (run_ticks fpu_still [120]
      (face_set_emotion FACE_HAPPY True
        (run_ticks fpu_still [30, 60, 90]
          (face_set_emotion FACE_SAD True
            (face_set_emotion FACE_WORKING_HARD False face_state_started))))) = 10
   \<and> out_mouth (profile_of FACE_HAPPY) = 90
   \<and> lerp_s8 (- 22) 90 10 = - 11"
proof -
  define s1 where "s1 = face_set_emotion FACE_WORKING_HARD False face_state_started"
  define sb where "sb = run_ticks fpu_still [30, 60, 90] (face_set_emotion FACE_SAD True s1)"
  define sd where "sd = run_ticks fpu_still [120] (face_set_emotion FACE_HAPPY True sb)"
  have c1: "control s1 =
      (True, False, 0, FACE_WORKING_HARD, FACE_WORKING_HARD, 100, 0, True, 3000)"
    unfolding s1_def
    using set_emotion_now(1) [OF started_initialized, of FACE_WORKING_HARD] started_control
    by (simp add: control_def)
  have i1: "initialized s1" "\<not> is_blinking s1" "current_emotion s1 = FACE_WORKING_HARD"
    "blink_phase s1 = 0" "last_blink_time s1 = 0" "config_auto_blink s1"
    "config_blink_interval s1 = 3000"
    using c1 by (simp_all add: control_def)
  have cb: "control sb = (True, False, 0, FACE_WORKING_HARD, FACE_SAD, 30, 0, True, 3000)"
    unfolding sb_def
    using retarget_run(1) [OF i1(1,2), of FACE_SAD "[30, 60, 90]" fpu_still]
    by (simp add: i1 auto_blink_due_def)
  have chb: "channels sb = blend (profile_of FACE_WORKING_HARD) (profile_of FACE_SAD) 30"
    unfolding sb_def
    using retarget_run(2) [OF i1(1,2), of FACE_SAD "[30, 60, 90]" fpu_still]
    by (simp add: i1 auto_blink_due_def)
  have ib: "initialized sb" "\<not> is_blinking sb" "current_emotion sb = FACE_WORKING_HARD"
    "blink_phase sb = 0" "last_blink_time sb = 0" "config_auto_blink sb"
    "config_blink_interval sb = 3000"
    using cb by (simp_all add: control_def)
  have cd: "control sd = (True, False, 0, FACE_WORKING_HARD, FACE_HAPPY, 10, 0, True, 3000)"
    unfolding sd_def
    using retarget_run(1) [OF ib(1,2), of FACE_HAPPY "[120]" fpu_still]
    by (simp add: ib auto_blink_due_def)
  have chd: "channels sd = blend (profile_of FACE_WORKING_HARD) (profile_of FACE_HAPPY) 10"
    unfolding sd_def
    using retarget_run(2) [OF ib(1,2), of FACE_HAPPY "[120]" fpu_still]
    by (simp add: ib auto_blink_due_def)
  have mb: "mouth_curve sb = - 22"
    using chb
    by (simp add: channels_def blend_def profile_of_def mk_params_def lerp_s8_def lerp_u8_def
        signed_divide_int_def)
  have md: "mouth_curve sd = 9"
    using chd
    by (simp add: channels_def blend_def profile_of_def mk_params_def lerp_s8_def lerp_u8_def
        signed_divide_int_def)
  have pd: "transition_progress sd = 10"
    using cd by (simp add: control_def)
  have l: "lerp_s8 (- 22) 90 10 = - 11"
    by (simp add: lerp_s8_def signed_divide_int_def)
  have p: "out_mouth (profile_of FACE_HAPPY) = 90"
    by (simp add: profile_of_def mk_params_def)
  show ?thesis
    using mb md pd l p unfolding sd_def sb_def s1_def by blast
qed

text \<open>
  C1, amended: when \<open>face_set_emotion(E, smooth = true)\<close> re-targets an initialised,
  non-blinking face to an accepted emotion \<open>E\<close> other than its current one, then after
  each of the next nine ticks (none of them a tick at which auto-blink is due) every
  channel equals \<open>profileOf(current) + (profileOf(E) - profileOf(current)) * progress
  / 100\<close> with \<open>progress\<close> ten times the number of ticks: the source of the
  interpolation is the table profile of the current emotion, which stays current
  throughout, and not the channel vector resolved at the moment of re-targeting.
\<close>

theorem retarget_blends_from_profile:
  assumes "initialized st" "\<not> is_blinking st"
    and "emotion_code e < emotion_code FACE_EMOTION_COUNT"
    and "e \<noteq> current_emotion st"
    and "ts \<noteq> []" "length ts \<le> 9"
    and "\<forall>t \<in> set ts. \<not> auto_blink_due t st"
  shows "channels (run_ticks fpu ts (face_set_emotion e True st)) =
           blend (profile_of (current_emotion st)) (profile_of e) (10 * of_nat (length ts))
    \<and> transition_progress (run_ticks fpu ts (face_set_emotion e True st)) =
           10 * of_nat (length ts)
    \<and> current_emotion (run_ticks fpu ts (face_set_emotion e True st)) = current_emotion st
    \<and> target_emotion (run_ticks fpu ts (face_set_emotion e True st)) = e"
  using retarget_run [OF assms(1-4,6,7), of fpu] assms(5) by (simp add: control_def)

theorem retarget_blends_from_profile_witness:
  "initialized (face_set_emotion FACE_WORKING_HARD False face_state_started)
   \<and> \<not> is_blinking (face_set_emotion FACE_WORKING_HARD False face_state_started)
   \<and> FACE_SAD \<noteq> current_emotion (face_set_emotion FACE_WORKING_HARD False face_state_started)
   \<and> \<not> auto_blink_due 30 (face_set_emotion FACE_WORKING_HARD False face_state_started)
   \<and> \<not> auto_blink_due 60 (face_set_emotion FACE_WORKING_HARD False face_state_started)
   \<and> \<not> auto_blink_due 90 (face_set_emotion FACE_WORKING_HARD False face_state_started)
   \<and> channels (run_ticks fpu_still [30, 60, 90]
        (face_set_emotion FACE_SAD True
          (face_set_emotion FACE_WORKING_HARD False face_state_started)))
      = blend (profile_of FACE_WORKING_HARD) (profile_of FACE_SAD) 30
   \<and> transition_progress (run_ticks fpu_still [30, 60, 90]
        (face_set_emotion FACE_SAD True
          (face_set_emotion FACE_WORKING_HARD False face_state_started))) = 30"
proof -
  define s1 where "s1 = face_set_emotion FACE_WORKING_HARD False face_state_started"
  have c1: "control s1 =
      (True, False, 0, FACE_WORKING_HARD, FACE_WORKING_HARD, 100, 0, True, 3000)"
    unfolding s1_def
    using set_emotion_now(1) [OF started_initialized, of FACE_WORKING_HARD] started_control
    by (simp add: control_def)
  have i1: "initialized s1" "\<not> is_blinking s1" "current_emotion s1 = FACE_WORKING_HARD"
    "last_blink_time s1 = 0" "config_auto_blink s1" "config_blink_interval s1 = 3000"
    using c1 by (simp_all add: control_def)
  have h: "emotion_code FACE_SAD < emotion_code FACE_EMOTION_COUNT"
    "FACE_SAD \<noteq> current_emotion s1" "[30, 60, 90] \<noteq> ([] :: uint32_t list)"
    "length ([30, 60, 90] :: uint32_t list) \<le> 9"
    "\<forall>t \<in> set [30, 60, 90]. \<not> auto_blink_due t s1"
    by (simp_all add: i1 auto_blink_due_def)
  show ?thesis
    using retarget_blends_from_profile [OF i1(1,2) h, of fpu_still] i1 h
    unfolding s1_def by simp
qed

subsection \<open>C3: convergence of a smooth transition\<close>

text \<open>
  C3 as stated fails twice. First, the callback steps the transition only in a tick in
  which the face is not blinking and auto-blink is not due: on the started face
  (auto-blink every 3000 ms, last blink at 0), after \<open>face_set_emotion(Sad, false)\<close> and
  \<open>face_set_emotion(Happy, true)\<close>, a tick at time 3001 starts a blink and leaves the
  progress at 0; after ten ticks the progress is 40 and the current emotion still Sad.
  Second, the tenth tick runs the idle case of the new emotion after the blend: from Sad
  to Cry, with no blink in the way, the idle case sets the eyes to \<open>65 - squeeze\<close>, at
  most 65 for every float unit within amplitude, and Cry's profile value is 70.
\<close>

theorem smooth_transition_counterexample:
  "transition_progress (face_set_emotion FACE_HAPPY True
       (face_set_emotion FACE_SAD False face_state_started)) = 0
   \<and> transition_progress (run_ticks fpu_still [3001]
       (face_set_emotion FACE_HAPPY True
         (face_set_emotion FACE_SAD False face_state_started))) = 0
   \<and> is_blinking (run_ticks fpu_still [3001]
       (face_set_emotion FACE_HAPPY True
         (face_set_emotion FACE_SAD False face_state_started)))
   \<and> transition_progress
       (run_ticks fpu_still [3001, 3031, 3061, 3091, 3121, 3151, 3181, 3211, 3241, 3271]
         (face_set_emotion FACE_HAPPY True
           (face_set_emotion FACE_SAD False face_state_started))) = 40
   \<and> current_emotion
       (run_ticks fpu_still [3001, 3031, 3061, 3091, 3121, 3151, 3181, 3211, 3241, 3271]
         (face_set_emotion FACE_HAPPY True
           (face_set_emotion FACE_SAD False face_state_started))) = FACE_SAD
   \<and> out_left_eye (profile_of FACE_CRY) = 70
   \<and> \<not> (\<exists>fpu. fpu_in_amplitude fpu
          \<and> channels (run_ticks fpu [30, 60, 90, 120, 150, 180, 210, 240, 270, 300]
               (face_set_emotion FACE_CRY True
                 (face_set_emotion FACE_SAD False face_state_started)))
             = profile_of FACE_CRY)"
proof -
  define s where "s = face_set_emotion FACE_HAPPY True
                        (face_set_emotion FACE_SAD False face_state_started)"
  have i: "initialized face_state_started" "\<not> is_blinking face_state_started"
    "blink_phase face_state_started = 0" "last_blink_time face_state_started = 0"
    "config_auto_blink face_state_started" "config_blink_interval face_state_started = 3000"
    using started_control by (simp_all add: control_def)
  have c0: "control s = (True, False, 0, FACE_SAD, FACE_HAPPY, 0, 0, True, 3000)"
    unfolding s_def
    using smooth_transition_run(1) [OF i(1,2), of FACE_SAD FACE_HAPPY "replicate 10 0" 0 fpu_still]
    by (simp add: i auto_blink_due_def)
  define a1 where "a1 = animation_timer_cb fpu_still 3001 s"
  define a2 where "a2 = animation_timer_cb fpu_still 3031 a1"
  define a3 where "a3 = animation_timer_cb fpu_still 3061 a2"
  define a4 where "a4 = animation_timer_cb fpu_still 3091 a3"
  define a5 where "a5 = animation_timer_cb fpu_still 3121 a4"
  define a6 where "a6 = animation_timer_cb fpu_still 3151 a5"
  have c1: "control a1 = (True, True, 0, FACE_SAD, FACE_HAPPY, 0, 0, True, 3000)"
    unfolding a1_def by (rule auto_blink_tick [OF c0]) simp
  note c2 = blinking_tick(1) [OF c1, of fpu_still 3031, folded a2_def, simplified]
  note c3 = blinking_tick(1) [OF c2, of fpu_still 3061, folded a3_def, simplified]
  note c4 = blinking_tick(1) [OF c3, of fpu_still 3091, folded a4_def, simplified]
  note c5 = blinking_tick(1) [OF c4, of fpu_still 3121, folded a5_def, simplified]
  note c6 = blinking_tick(1) [OF c5, of fpu_still 3151, folded a6_def, simplified]
  have ne: "FACE_SAD \<noteq> FACE_HAPPY" by simp
  have d: "\<forall>t \<in> set [3181, 3211, 3241, 3271]. \<not> (True \<and> t - 3151 > (3000 :: 32 word))"
    by simp
  have l: "length ([3181, 3211, 3241, 3271] :: uint32_t list) \<le> 9" by simp
  have c10: "control (run_ticks fpu_still [3181, 3211, 3241, 3271] a6) =
               (True, False, 0, FACE_SAD, FACE_HAPPY, 40, 3151, True, 3000)"
    using transition_run [OF c6 ne d l, of fpu_still] by simp
  have whole: "run_ticks fpu_still
                 [3001, 3031, 3061, 3091, 3121, 3151, 3181, 3211, 3241, 3271] s =
               run_ticks fpu_still [3181, 3211, 3241, 3271] a6"
    by (simp add: a1_def a2_def a3_def a4_def a5_def a6_def)
  have one: "run_ticks fpu_still [3001] s = a1"
    by (simp add: a1_def)
  have blink: "transition_progress s = 0
     \<and> transition_progress (run_ticks fpu_still [3001] s) = 0
     \<and> is_blinking (run_ticks fpu_still [3001] s)
     \<and> transition_progress (run_ticks fpu_still
          [3001, 3031, 3061, 3091, 3121, 3151, 3181, 3211, 3241, 3271] s) = 40
     \<and> current_emotion (run_ticks fpu_still
          [3001, 3031, 3061, 3091, 3121, 3151, 3181, 3211, 3241, 3271] s) = FACE_SAD"
    unfolding whole one
    using c0 c1 c10 by (simp add: control_def)
  define ts :: "uint32_t list" where "ts = [30, 60, 90, 120, 150, 180, 210, 240, 270, 300]"
  define q where "q = face_set_emotion FACE_CRY True
                        (face_set_emotion FACE_SAD False face_state_started)"
  have h: "emotion_code FACE_SAD < emotion_code FACE_EMOTION_COUNT"
    "emotion_code FACE_CRY < emotion_code FACE_EMOTION_COUNT"
    "FACE_SAD \<noteq> FACE_CRY" "length ts = 10"
    "\<forall>t \<in> set ts. \<not> auto_blink_due t face_state_started"
    by (simp_all add: ts_def auto_blink_due_def i)
  have cry: "channels (run_ticks fpu ts q) \<noteq> profile_of FACE_CRY"
    if amp: "fpu_in_amplitude fpu" for fpu
  proof -
    define c where "c = blink_or_transition (last ts) (run_ticks fpu (butlast ts) q)"
    note r = smooth_transition_last [OF i(1,2) h c_def [unfolded q_def], folded q_def]
    have k: "current_emotion c = FACE_CRY" "transition_done c" "\<not> is_blinking c"
      using r(2) by (simp_all add: control_def transition_done_def)
    have "uint (left_eye_openness (run_ticks fpu ts q)) \<le> 65"
      unfolding r(1) by (rule cry_eyes_secondary [OF amp k])
    then have "left_eye_openness (run_ticks fpu ts q) \<noteq> 70"
      by auto
    then show ?thesis
      by (auto simp add: channels_def profile_of_def mk_params_def)
  qed
  have p: "out_left_eye (profile_of FACE_CRY) = 70"
    by (simp add: profile_of_def mk_params_def)
  show ?thesis
    using blink cry p unfolding s_def q_def ts_def by blast
qed

text \<open>
  C3, amended: for every pair of distinct accepted emotions E1, E2, on an initialised,
  non-blinking face, after \<open>face_set_emotion(E1, false)\<close> and
  \<open>face_set_emotion(E2, true)\<close> and for ten ticks at none of which auto-blink is due:
  the progress after the k-th tick is 10 k (k = 0..10), the current emotion is E1
  before the tenth tick and E2 after it, and the transition step of the tenth tick
  sets the six channels to \<open>profileOf(E2)\<close>. After the tenth tick each channel still has
  its profile value unless the idle case of E2 assigns that channel: the eyes outside
  \<open>eye_idle_emotions\<close>, the mouth outside \<open>mouth_idle_emotions\<close>, each brow channel
  outside its set; so for E2 among Sad, Wink, Silly, Working-Hard and Blink all six
  channels equal \<open>profileOf(E2)\<close>. A tick on an initialised face that is blinking, or at
  which auto-blink is due, changes neither the progress nor the current or target
  emotion.
\<close>

theorem smooth_transition_converges:
  assumes "initialized st" "\<not> is_blinking st"
    and "emotion_code e1 < emotion_code FACE_EMOTION_COUNT"
    and "emotion_code e2 < emotion_code FACE_EMOTION_COUNT"
    and "e1 \<noteq> e2"
    and "length ts = 10"
    and "\<forall>t \<in> set ts. \<not> auto_blink_due t st"
  shows "(\<forall>k \<le> 10. transition_progress (run_ticks fpu (take k ts)
            (face_set_emotion e2 True (face_set_emotion e1 False st))) = 10 * of_nat k)
    \<and> (\<forall>k < 10. current_emotion (run_ticks fpu (take k ts)
            (face_set_emotion e2 True (face_set_emotion e1 False st))) = e1)
    \<and> current_emotion (run_ticks fpu ts
            (face_set_emotion e2 True (face_set_emotion e1 False st))) = e2
    \<and> channels (blink_or_transition (last ts) (run_ticks fpu (butlast ts)
            (face_set_emotion e2 True (face_set_emotion e1 False st)))) = profile_of e2
    \<and> (e2 \<notin> eye_idle_emotions \<longrightarrow>
         eyes (run_ticks fpu ts (face_set_emotion e2 True (face_set_emotion e1 False st)))
           = (out_left_eye (profile_of e2), out_right_eye (profile_of e2)))
    \<and> (e2 \<notin> mouth_idle_emotions \<longrightarrow>
         mouth_curve (run_ticks fpu ts
            (face_set_emotion e2 True (face_set_emotion e1 False st)))
           = out_mouth (profile_of e2))
    \<and> (e2 \<notin> left_brow_idle_emotions \<longrightarrow>
         left_eyebrow_angle (run_ticks fpu ts
            (face_set_emotion e2 True (face_set_emotion e1 False st)))
           = out_left_brow (profile_of e2))
    \<and> (e2 \<notin> right_brow_idle_emotions \<longrightarrow>
         right_eyebrow_angle (run_ticks fpu ts
            (face_set_emotion e2 True (face_set_emotion e1 False st)))
           = out_right_brow (profile_of e2))
    \<and> (e2 \<notin> brow_height_idle_emotions \<longrightarrow>
         eyebrow_height (run_ticks fpu ts
            (face_set_emotion e2 True (face_set_emotion e1 False st)))
           = out_brow_height (profile_of e2))
    \<and> (e2 \<in> {FACE_SAD, FACE_WINK, FACE_SILLY, FACE_WORKING_HARD, FACE_BLINK} \<longrightarrow>
         channels (run_ticks fpu ts
            (face_set_emotion e2 True (face_set_emotion e1 False st))) = profile_of e2)
    \<and> (initialized b \<and> (is_blinking b \<or> auto_blink_due t b) \<longrightarrow>
         transition_progress (animation_timer_cb fpu t b) = transition_progress b
         \<and> current_emotion (animation_timer_cb fpu t b) = current_emotion b
         \<and> target_emotion (animation_timer_cb fpu t b) = target_emotion b)"
proof -
  define s where "s = face_set_emotion e2 True (face_set_emotion e1 False st)"
  define c where "c = blink_or_transition (last ts) (run_ticks fpu (butlast ts) s)"
  note r = smooth_transition_run [OF assms, where fpu = fpu, folded s_def]
  note l = smooth_transition_last [OF assms c_def [unfolded s_def], folded s_def]
  have a: "transition_progress (run_ticks fpu (take k ts) s) = 10 * of_nat k"
    if "k \<le> 10" for k
  proof (cases "k \<le> 9")
    case True
    then show ?thesis using r(1) [of k] by (simp add: control_def)
  next
    case False
    then have k: "k = 10" using that by simp
    show ?thesis using r(2) assms(6) by (simp add: k control_def)
  qed
  have b: "current_emotion (run_ticks fpu (take k ts) s) = e1" if "k < 10" for k
    using r(1) [of k] that by (simp add: control_def)
  have k: "current_emotion c = e2" "transition_done c" "\<not> is_blinking c"
    using l(2) by (simp_all add: control_def transition_done_def)
  note o = channels_outputs [OF l(3)]
  have pe: "eyes c = (out_left_eye (profile_of e2), out_right_eye (profile_of e2))"
    by (rule o(7))
  have ey: "eyes (run_ticks fpu ts s)
              = (out_left_eye (profile_of e2), out_right_eye (profile_of e2))"
    if "e2 \<notin> eye_idle_emotions"
    unfolding l(1) using eyes_secondary [of c fpu] that k(1) pe by simp
  have mo: "mouth_curve (run_ticks fpu ts s) = out_mouth (profile_of e2)"
    if "e2 \<notin> mouth_idle_emotions"
    unfolding l(1) using secondary_fields(1) [of c fpu] that k(1) o by simp
  have lb: "left_eyebrow_angle (run_ticks fpu ts s) = out_left_brow (profile_of e2)"
    if "e2 \<notin> left_brow_idle_emotions"
    unfolding l(1) using secondary_fields(2) [of c fpu] that k(1) o by simp
  have rb: "right_eyebrow_angle (run_ticks fpu ts s) = out_right_brow (profile_of e2)"
    if "e2 \<notin> right_brow_idle_emotions"
    unfolding l(1) using secondary_fields(3) [of c fpu] that k(1) o by simp
  have bh: "eyebrow_height (run_ticks fpu ts s) = out_brow_height (profile_of e2)"
    if "e2 \<notin> brow_height_idle_emotions"
    unfolding l(1) using secondary_fields(4) [of c fpu] that k(1) o by simp
  have all: "channels (run_ticks fpu ts s) = profile_of e2"
    if m: "e2 \<in> {FACE_SAD, FACE_WINK, FACE_SILLY, FACE_WORKING_HARD, FACE_BLINK}"
  proof -
    have n: "e2 \<notin> eye_idle_emotions" "e2 \<notin> mouth_idle_emotions"
      "e2 \<notin> left_brow_idle_emotions" "e2 \<notin> right_brow_idle_emotions"
      "e2 \<notin> brow_height_idle_emotions"
      using m by (auto simp add: eye_idle_emotions_def mouth_idle_emotions_def
          left_brow_idle_emotions_def right_brow_idle_emotions_def
          brow_height_idle_emotions_def)
    have "channels (run_ticks fpu ts s) = channels c"
      using ey [OF n(1)] mo [OF n(2)] lb [OF n(3)] rb [OF n(4)] bh [OF n(5)] o
      by (simp add: channels_def eyes_def)
    then show ?thesis using l(3) by simp
  qed
  have bt: "transition_progress (animation_timer_cb fpu t b) = transition_progress b
         \<and> current_emotion (animation_timer_cb fpu t b) = current_emotion b
         \<and> target_emotion (animation_timer_cb fpu t b) = target_emotion b"
    if "initialized b" "is_blinking b \<or> auto_blink_due t b"
    using blink_tick_keeps_transition [OF that, of fpu] by simp
  have ce: "current_emotion (run_ticks fpu ts s) = e2"
    using r(2) by (simp add: control_def)
  have ch: "channels c = profile_of e2" by (rule l(3))
  show ?thesis
    unfolding s_def [symmetric] c_def [symmetric]
    using a b ce ch ey mo lb rb bh all bt by blast
qed

theorem smooth_transition_converges_witness:
  "initialized face_state_started \<and> \<not> is_blinking face_state_started
   \<and> FACE_HAPPY \<noteq> FACE_SAD
   \<and> \<not> auto_blink_due 30 face_state_started
   \<and> \<not> auto_blink_due 300 face_state_started
   \<and> transition_progress
       (run_ticks fpu_still [30, 60, 90, 120, 150, 180, 210, 240, 270, 300]
         (face_set_emotion FACE_SAD True
           (face_set_emotion FACE_HAPPY False face_state_started))) = 100
   \<and> current_emotion
       (run_ticks fpu_still [30, 60, 90, 120, 150, 180, 210, 240, 270, 300]
         (face_set_emotion FACE_SAD True
           (face_set_emotion FACE_HAPPY False face_state_started))) = FACE_SAD
   \<and> channels
       (run_ticks fpu_still [30, 60, 90, 120, 150, 180, 210, 240, 270, 300]
         (face_set_emotion FACE_SAD True
           (face_set_emotion FACE_HAPPY False face_state_started)))
      = mk_params 60 60 (- 75) (- 15) 15 3
   \<and> channels (blink_or_transition 300
       (run_ticks fpu_still [30, 60, 90, 120, 150, 180, 210, 240, 270]
         (face_set_emotion FACE_HAPPY True
           (face_set_emotion FACE_SAD False face_state_started)))) = profile_of FACE_HAPPY
   \<and> left_eyebrow_angle
       (run_ticks fpu_still [30, 60, 90, 120, 150, 180, 210, 240, 270, 300]
         (face_set_emotion FACE_HAPPY True
           (face_set_emotion FACE_SAD False face_state_started))) = - 4
   \<and> initialized (face_set_emotion FACE_SAD True
           (face_set_emotion FACE_HAPPY False face_state_started))
   \<and> auto_blink_due 3001 (face_set_emotion FACE_SAD True
           (face_set_emotion FACE_HAPPY False face_state_started))
   \<and> transition_progress (animation_timer_cb fpu_still 3001
         (face_set_emotion FACE_SAD True
           (face_set_emotion FACE_HAPPY False face_state_started))) = 0
   \<and> current_emotion (animation_timer_cb fpu_still 3001
         (face_set_emotion FACE_SAD True
           (face_set_emotion FACE_HAPPY False face_state_started))) = FACE_HAPPY"
proof -
  define ts :: "uint32_t list" where "ts = [30, 60, 90, 120, 150, 180, 210, 240, 270, 300]"
  define s where "s = face_set_emotion FACE_SAD True
                        (face_set_emotion FACE_HAPPY False face_state_started)"
  define s' where "s' = face_set_emotion FACE_HAPPY True
                        (face_set_emotion FACE_SAD False face_state_started)"
  have i: "initialized face_state_started" "\<not> is_blinking face_state_started"
    "blink_phase face_state_started = 0"
    "last_blink_time face_state_started = 0"
    "config_auto_blink face_state_started" "config_blink_interval face_state_started = 3000"
    using started_control by (simp_all add: control_def)
  have h: "emotion_code FACE_HAPPY < emotion_code FACE_EMOTION_COUNT"
    "emotion_code FACE_SAD < emotion_code FACE_EMOTION_COUNT"
    "FACE_HAPPY \<noteq> FACE_SAD" "length ts = 10"
    "\<forall>t \<in> set ts. \<not> auto_blink_due t face_state_started"
    by (simp_all add: ts_def auto_blink_due_def i)
  have h': "FACE_SAD \<noteq> FACE_HAPPY" by simp
  have t: "take 10 ts = ts" "last ts = 300"
    "butlast ts = [30, 60, 90, 120, 150, 180, 210, 240, 270]"
    by (simp_all add: ts_def)
  have d: "\<not> auto_blink_due 30 face_state_started" "\<not> auto_blink_due 300 face_state_started"
    by (simp_all add: auto_blink_due_def i)
  have cs: "control s = (True, False, 0, FACE_HAPPY, FACE_SAD, 0, 0, True, 3000)"
    unfolding s_def
    using smooth_transition_run(1) [OF i(1,2) h(1,2,3,4,5), of 0 fpu_still]
    by (simp add: i)
  have b: "initialized s" "auto_blink_due 3001 s" "transition_progress s = 0"
    "current_emotion s = FACE_HAPPY"
    using cs by (simp_all add: control_def auto_blink_due_def)
  note th = smooth_transition_converges [OF i(1,2) h(1,2,3,4,5), of fpu_still s 3001,
      folded s_def]
  note th' = smooth_transition_converges [OF i(1,2) h(2,1) h' h(4,5), of fpu_still s 3001,
      folded s'_def]
  from th have "transition_progress (run_ticks fpu_still (take 10 ts) s) = 10 * of_nat 10"
    by blast
  then have p: "transition_progress (run_ticks fpu_still ts s) = 100"
    unfolding t by simp
  have ce: "current_emotion (run_ticks fpu_still ts s) = FACE_SAD"
    using th by blast
  have "FACE_SAD \<in> {FACE_SAD, FACE_WINK, FACE_SILLY, FACE_WORKING_HARD, FACE_BLINK}"
    by simp
  with th have "channels (run_ticks fpu_still ts s) = profile_of FACE_SAD"
    by blast
  then have ch: "channels (run_ticks fpu_still ts s) = mk_params 60 60 (- 75) (- 15) 15 3"
    by (simp add: profile_of_def)
  have bt: "transition_progress (animation_timer_cb fpu_still 3001 s) = 0
     \<and> current_emotion (animation_timer_cb fpu_still 3001 s) = FACE_HAPPY"
    using th b by simp
  have ch': "channels (blink_or_transition (last ts) (run_ticks fpu_still (butlast ts) s'))
               = profile_of FACE_HAPPY"
    using th' by blast
  have "FACE_HAPPY \<notin> left_brow_idle_emotions"
    by (simp add: left_brow_idle_emotions_def)
  with th' have "left_eyebrow_angle (run_ticks fpu_still ts s')
                  = out_left_brow (profile_of FACE_HAPPY)"
    by blast
  then have lb: "left_eyebrow_angle (run_ticks fpu_still ts s') = - 4"
    by (simp add: profile_of_def mk_params_def)
  show ?thesis
    using i(1,2) h(3) d p ce ch ch' lb b(1,2) bt
    unfolding t s_def s'_def ts_def by simp
qed

subsection \<open>C8: the heartbeat outside Love\<close>

text \<open>
  C8 as stated fails: the step is \<open>heart_direction * 5\<close>, and \<open>heart_direction\<close>
  becomes \<open>+1\<close> when the heartbeat reaches 0. A face set to Happy (heartbeat 40) decays
  to 0 in eight ticks; set to Happy again (heartbeat 40 again, emotion still not Love)
  the next tick raises the heartbeat to 45.
\<close>

theorem heartbeat_rises_counterexample:
  "current_emotion (face_set_emotion FACE_HAPPY False face_state_started) = FACE_HAPPY
   \<and> heart_beat_phase (face_set_emotion FACE_HAPPY False face_state_started) = 40
   \<and> heart_beat_phase (run_ticks fpu_still [30, 60, 90, 120, 150, 180, 210, 240]
        (face_set_emotion FACE_HAPPY False face_state_started)) = 0
   \<and> current_emotion (face_set_emotion FACE_HAPPY False
        (run_ticks fpu_still [30, 60, 90, 120, 150, 180, 210, 240]
          (face_set_emotion FACE_HAPPY False face_state_started))) = FACE_HAPPY
   \<and> heart_beat_phase (face_set_emotion FACE_HAPPY False
        (run_ticks fpu_still [30, 60, 90, 120, 150, 180, 210, 240]
          (face_set_emotion FACE_HAPPY False face_state_started))) = 40
   \<and> heart_beat_phase (run_ticks fpu_still [270]
        (face_set_emotion FACE_HAPPY False
          (run_ticks fpu_still [30, 60, 90, 120, 150, 180, 210, 240]
            (face_set_emotion FACE_HAPPY False face_state_started)))) = 45"
proof -
  define s0 where "s0 = face_set_emotion FACE_HAPPY False face_state_started"
  define s1 where "s1 = animation_timer_cb fpu_still 30 s0"
  define s2 where "s2 = animation_timer_cb fpu_still 60 s1"
  define s3 where "s3 = animation_timer_cb fpu_still 90 s2"
  define s4 where "s4 = animation_timer_cb fpu_still 120 s3"
  define s5 where "s5 = animation_timer_cb fpu_still 150 s4"
  define s6 where "s6 = animation_timer_cb fpu_still 180 s5"
  define s7 where "s7 = animation_timer_cb fpu_still 210 s6"
  define s8 where "s8 = animation_timer_cb fpu_still 240 s7"
  define s9 where "s9 = face_set_emotion FACE_HAPPY False s8"
  define s10 where "s10 = animation_timer_cb fpu_still 270 s9"
  have c0: "control s0 = (True, False, 0, FACE_HAPPY, FACE_HAPPY, 100, 0, True, 3000)"
    unfolding s0_def
    using set_emotion_now(1) [OF started_initialized, of FACE_HAPPY] started_control
    by (simp add: control_def)
  have h0: "heart s0 = (40, - 1)"
    unfolding s0_def
    using set_happy_heart [OF started_initialized] by (simp add: face_state_started_eq)
  note c1 = happy_quiet_tick(1) [OF c0 _ h0, of 30 fpu_still, folded s1_def, simplified]
  note h1 = happy_quiet_tick(2) [OF c0 _ h0, of 30 fpu_still, folded s1_def, simplified]
  note c2 = happy_quiet_tick(1) [OF c1 _ h1, of 60 fpu_still, folded s2_def, simplified]
  note h2 = happy_quiet_tick(2) [OF c1 _ h1, of 60 fpu_still, folded s2_def, simplified]
  note c3 = happy_quiet_tick(1) [OF c2 _ h2, of 90 fpu_still, folded s3_def, simplified]
  note h3 = happy_quiet_tick(2) [OF c2 _ h2, of 90 fpu_still, folded s3_def, simplified]
  note c4 = happy_quiet_tick(1) [OF c3 _ h3, of 120 fpu_still, folded s4_def, simplified]
  note h4 = happy_quiet_tick(2) [OF c3 _ h3, of 120 fpu_still, folded s4_def, simplified]
  note c5 = happy_quiet_tick(1) [OF c4 _ h4, of 150 fpu_still, folded s5_def, simplified]
  note h5 = happy_quiet_tick(2) [OF c4 _ h4, of 150 fpu_still, folded s5_def, simplified]
  note c6 = happy_quiet_tick(1) [OF c5 _ h5, of 180 fpu_still, folded s6_def, simplified]
  note h6 = happy_quiet_tick(2) [OF c5 _ h5, of 180 fpu_still, folded s6_def, simplified]
  note c7 = happy_quiet_tick(1) [OF c6 _ h6, of 210 fpu_still, folded s7_def, simplified]
  note h7 = happy_quiet_tick(2) [OF c6 _ h6, of 210 fpu_still, folded s7_def, simplified]
  note c8 = happy_quiet_tick(1) [OF c7 _ h7, of 240 fpu_still, folded s8_def, simplified]
  note h8 = happy_quiet_tick(2) [OF c7 _ h7, of 240 fpu_still, folded s8_def, simplified]
  have i8: "initialized s8" "heart_direction s8 = 1"
    using c8 h8 by (simp_all add: control_def heart_def)
  have c9: "control s9 = (True, False, 0, FACE_HAPPY, FACE_HAPPY, 100, 0, True, 3000)"
    unfolding s9_def
    using set_emotion_now(1) [OF i8(1), of FACE_HAPPY] c8
    by (simp add: control_def)
  have h9: "heart s9 = (40, 1)"
    unfolding s9_def by (simp add: set_happy_heart [OF i8(1)] i8(2))
  note h10 = happy_quiet_tick(2) [OF c9 _ h9, of 270 fpu_still, folded s10_def, simplified]
  have r8: "run_ticks fpu_still [30, 60, 90, 120, 150, 180, 210, 240] s0 = s8"
    by (simp add: s1_def s2_def s3_def s4_def s5_def s6_def s7_def s8_def)
  have r10: "run_ticks fpu_still [270] s9 = s10"
    by (simp add: s10_def)
  show ?thesis
    unfolding s0_def [symmetric] r8 s9_def [symmetric] r10
    using c0 h0 h8 c9 h9 h10 by (simp add: control_def heart_def)
qed

text \<open>
  C8, amended: in a tick of an initialised face that takes no transition step, with the
  current emotion other than Love and the heartbeat at most 100: with \<open>heart_direction\<close>
  at \<open>-1\<close> the tick lowers a heartbeat of at least 5 by exactly 5, and on reaching 0
  sets the direction to \<open>+1\<close>; with the direction at \<open>+1\<close> the tick raises a positive
  heartbeat by 5, capped at 100, where the direction returns to \<open>-1\<close>; a heartbeat of 0
  stays 0 and keeps its direction.
\<close>

theorem heart_steps:
  assumes "initialized st" "current_emotion st \<noteq> FACE_LOVE" "\<not> steps_transition t st"
    and "heart_beat_phase st \<le> 100"
  shows "(heart_direction st = - 1 \<and> 5 \<le> heart_beat_phase st \<longrightarrow>
            uint (heart_beat_phase (animation_timer_cb fpu t st))
              = uint (heart_beat_phase st) - 5
            \<and> heart_direction (animation_timer_cb fpu t st)
              = (if heart_beat_phase st = 5 then 1 else - 1))
       \<and> (heart_direction st = 1 \<and> 0 < heart_beat_phase st \<longrightarrow>
            uint (heart_beat_phase (animation_timer_cb fpu t st))
              = min 100 (uint (heart_beat_phase st) + 5)
            \<and> heart_direction (animation_timer_cb fpu t st)
              = (if 95 \<le> heart_beat_phase st then - 1 else 1))
       \<and> (heart_beat_phase st = 0 \<longrightarrow>
            heart (animation_timer_cb fpu t st) = heart st)"
proof -
  note q = quiet_tick_heart [OF assms(1-3), of fpu]
  have down: "uint (heart_beat_phase (animation_timer_cb fpu t st))
              = uint (heart_beat_phase st) - 5
            \<and> heart_direction (animation_timer_cb fpu t st)
              = (if heart_beat_phase st = 5 then 1 else - 1)"
    if "heart_direction st = - 1" "5 \<le> heart_beat_phase st"
  proof -
    note d = down5 [OF that(2) assms(4)]
    have "heart (animation_timer_cb fpu t st) =
            (if heart_beat_phase st = 5 then (0, 1) else (heart_beat_phase st - 5, - 1))"
      using q d by (simp add: that(1) Let_def)
    then show ?thesis
      using d(1) by (auto simp add: heart_def)
  qed
  have up: "uint (heart_beat_phase (animation_timer_cb fpu t st))
              = min 100 (uint (heart_beat_phase st) + 5)
            \<and> heart_direction (animation_timer_cb fpu t st)
              = (if 95 \<le> heart_beat_phase st then - 1 else 1)"
    if "heart_direction st = 1" "0 < heart_beat_phase st"
  proof -
    note u = up5 [OF that(2) assms(4)]
    have "heart (animation_timer_cb fpu t st) =
            (if 95 \<le> heart_beat_phase st then (100, - 1) else (heart_beat_phase st + 5, 1))"
      using q u by (simp add: that Let_def)
    then show ?thesis
      using u(1) by (auto simp add: heart_def word_le_def)
  qed
  have rest: "heart (animation_timer_cb fpu t st) = heart st" if "heart_beat_phase st = 0"
    using q that by simp
  show ?thesis
    using down up rest by blast
qed

theorem heart_steps_witness:
  "initialized (face_set_emotion FACE_HAPPY False face_state_started)
   \<and> current_emotion (face_set_emotion FACE_HAPPY False face_state_started) \<noteq> FACE_LOVE
   \<and> \<not> steps_transition 30 (face_set_emotion FACE_HAPPY False face_state_started)
   \<and> heart_beat_phase (face_set_emotion FACE_HAPPY False face_state_started) = 40
   \<and> heart_direction (face_set_emotion FACE_HAPPY False face_state_started) = - 1
   \<and> uint (heart_beat_phase (animation_timer_cb fpu_still 30
         (face_set_emotion FACE_HAPPY False face_state_started))) = 35
   \<and> heart_direction (animation_timer_cb fpu_still 30
         (face_set_emotion FACE_HAPPY False face_state_started)) = - 1"
proof -
  define s0 where "s0 = face_set_emotion FACE_HAPPY False face_state_started"
  have c0: "control s0 = (True, False, 0, FACE_HAPPY, FACE_HAPPY, 100, 0, True, 3000)"
    unfolding s0_def
    using set_emotion_now(1) [OF started_initialized, of FACE_HAPPY] started_control
    by (simp add: control_def)
  have h0: "heart s0 = (40, - 1)"
    unfolding s0_def
    using set_happy_heart [OF started_initialized] by (simp add: face_state_started_eq)
  have i: "initialized s0" "current_emotion s0 \<noteq> FACE_LOVE"
    using c0 by (simp_all add: control_def)
  have q: "\<not> steps_transition 30 s0"
    by (rule quiet_tick_control(2) [OF c0]) simp
  have h: "heart_beat_phase s0 = 40" "heart_direction s0 = - 1" "heart_beat_phase s0 \<le> 100"
    using h0 by (simp_all add: heart_def)
  show ?thesis
    using heart_steps [OF i q h(3), of fpu_still] i q h
    unfolding s0_def [symmetric] by simp
qed

subsection \<open>C6: the channel ranges\<close>

text \<open>
  C6 as stated fails for the mouth curve: Playful's profile value is 110. After
  \<open>face_set_emotion(FACE_PLAYFUL, false)\<close> on the started face, an observation point,
  the mouth curve is 110.
\<close>

theorem mouth_above_100_counterexample:
  "observable fpu_still (face_set_emotion FACE_PLAYFUL False face_state_started)
   \<and> sint (mouth_curve (face_set_emotion FACE_PLAYFUL False face_state_started)) = 110"
proof -
  have "mouth_curve (face_set_emotion FACE_PLAYFUL False face_state_started) = 110"
    using set_emotion_now(2) [OF started_initialized, of FACE_PLAYFUL]
    by (simp add: channels_def profile_of_def mk_params_def)
  then show ?thesis
    by (simp add: observable.set_emotion [OF started_observable])
qed

text \<open>
  C6, amended: at every observation point (program start, after initialisation or
  teardown, after any public setter and after every tick) both eye opennesses are
  within [0, 100] and the mouth curve is within [-100, 115], provided the float unit
  keeps the idle sine expressions within their amplitude (\<open>fpu_in_amplitude\<close>).
\<close>

theorem channels_stay_in_range:
  assumes "fpu_in_amplitude fpu" "observable fpu st"
  shows "left_eye_openness st \<le> 100 \<and> right_eye_openness st \<le> 100
         \<and> - 100 \<le> sint (mouth_curve st) \<and> sint (mouth_curve st) \<le> 115"
  using range_observable [OF assms] by (simp add: channels_in_range_def)

theorem channels_stay_in_range_witness:
  "fpu_in_amplitude fpu_still
   \<and> observable fpu_still
        (animation_timer_cb fpu_still 30
          (face_set_emotion FACE_PLAYFUL False face_state_started))
   \<and> left_eye_openness
        (animation_timer_cb fpu_still 30
          (face_set_emotion FACE_PLAYFUL False face_state_started)) \<le> 100
   \<and> sint (mouth_curve
        (animation_timer_cb fpu_still 30
          (face_set_emotion FACE_PLAYFUL False face_state_started))) \<le> 115"
proof -
  have o: "observable fpu_still
        (animation_timer_cb fpu_still 30
          (face_set_emotion FACE_PLAYFUL False face_state_started))"
    by (intro observable.tick observable.set_emotion started_observable)
  show ?thesis
    using channels_stay_in_range [OF still_in_amplitude o] still_in_amplitude o by simp
qed

end
